theory Spec2Isabelle
  imports Main
begin

section \<open>External libraries\<close>

subsection \<open>bn.js: big integers and their hexadecimal text\<close>

text \<open>
  A \<^verbatim>\<open>BN\<close> value is an unbounded integer and is modelled as \<^typ>\<open>int\<close>:
  \<^verbatim>\<open>a.mul(b)\<close>, \<^verbatim>\<open>a.add(b)\<close>, \<^verbatim>\<open>a.sub(b)\<close> are the integer operations,
  \<^verbatim>\<open>a.umod(m)\<close> is \<open>a mod m\<close> (for a positive modulus both give the residue in
  \<open>0..<m\<close>), \<^verbatim>\<open>m.shrn(1)\<close> is \<open>m div 2\<close> and \<^verbatim>\<open>a.gt(b)\<close> is \<open>b < a\<close>.

  Scalars travel between the functions of the program as hexadecimal strings, written with
  \<^verbatim>\<open>x.toString(16).padStart(64, '0')\<close> and read back with \<^verbatim>\<open>new BN(str, 16)\<close>.
  A string is a list of characters with codes below 256.
\<close>

definition hexDigit :: "nat \<Rightarrow> char" where
  "hexDigit d = ''0123456789abcdef'' ! (d mod 16)"

fun hexOfNat :: "nat \<Rightarrow> string" where
  "hexOfNat k = (if k = 0 then [] else hexOfNat (k div 16) @ [hexDigit (k mod 16)])"

declare hexOfNat.simps [simp del]

definition toString16 :: "int \<Rightarrow> string" where
  "toString16 x =
     (if x = 0 then ''0''
      else if x < 0 then CHR ''-'' # hexOfNat (nat (- x))
      else hexOfNat (nat x))"

definition padStart :: "nat \<Rightarrow> char \<Rightarrow> string \<Rightarrow> string" where
  "padStart len c s = replicate (len - length s) c @ s"

definition hex64 :: "int \<Rightarrow> string" where
  \<comment> \<open>\<^verbatim>\<open>x.toString(16).padStart(64, '0')\<close>\<close>
  "hex64 x = padStart 64 (CHR ''0'') (toString16 x)"

definition hexValue :: "char \<Rightarrow> nat option" where
  \<comment> \<open>\<^verbatim>\<open>parseHex4Bits\<close>: the digits \<open>0-9\<close>, \<open>A-F\<close>, \<open>a-f\<close>; any other character is refused\<close>
  "hexValue c =
     (let k = (of_char c :: nat) in
      if 48 \<le> k \<and> k \<le> 57 then Some (k - 48)
      else if 65 \<le> k \<and> k \<le> 70 then Some (k - 55)
      else if 97 \<le> k \<and> k \<le> 102 then Some (k - 87)
      else None)"

fun parseHex :: "string \<Rightarrow> nat \<Rightarrow> nat option" where
  "parseHex [] acc = Some acc"
| "parseHex (c # cs) acc =
     (case hexValue c of None \<Rightarrow> None | Some d \<Rightarrow> parseHex cs (16 * acc + d))"

definition isSpace :: "char \<Rightarrow> bool" where
  \<comment> \<open>the characters matched by \<^verbatim>\<open>\s\<close>: tab, line feed, vertical tab, form feed, carriage
      return, space and the no-break space U+00A0\<close>
  "isSpace c = ((of_char c :: nat) \<in> {9, 10, 11, 12, 13, 32, 160})"

text \<open>
  What \<^verbatim>\<open>new BN(str, 16)\<close> builds. The constructor replaces the empty string by the number 0
  (\<^verbatim>\<open>number || 0\<close>), drops white space, takes a leading minus sign as the sign and parses what
  follows only if something follows. So a string that is not empty and holds nothing but white
  space, or nothing but white space and one minus sign, leaves an object without digits
  (\<^verbatim>\<open>words = null\<close>, \<^verbatim>\<open>length = 0\<close>), which is no number: it is the value \<open>Hollow negative\<close>
  here, and every place that reads a parsed value says what the program does with it there.
  Its \<^verbatim>\<open>toString(16)\<close> is the sign alone; multiplying by it raises a \<^verbatim>\<open>TypeError\<close>.
  A character that is no hexadecimal digit raises \<^verbatim>\<open>Invalid character\<close> (the value \<open>None\<close>),
  as bn.js does from version 5 on.
\<close>

datatype bn = Number int | Hollow bool

definition BN16 :: "string \<Rightarrow> bn option" where
  "BN16 str =
     (if str = [] then Some (Number 0)
      else
        (let number = filter (\<lambda>c. \<not> isSpace c) str in
         case number of
           [] \<Rightarrow> Some (Hollow False)
         | c # rest \<Rightarrow>
             if c = CHR ''-''
             then (if rest = [] then Some (Hollow True)
                   else map_option (\<lambda>v. Number (- int v)) (parseHex rest 0))
             else map_option (\<lambda>v. Number (int v)) (parseHex number 0)))"

fun bn_toString16 :: "bn \<Rightarrow> string" where
  \<comment> \<open>\<^verbatim>\<open>b.toString(16)\<close>\<close>
  "bn_toString16 (Number v) = toString16 v"
| "bn_toString16 (Hollow negative) = (if negative then ''-'' else [])"

text \<open>
  \<^verbatim>\<open>a.invm(m)\<close> is \<^verbatim>\<open>a.egcd(m).a.umod(m)\<close>: the coefficient of \<open>a\<close> in a B\'ezout identity
  \<open>A * a + B * m = gcd a m\<close>, reduced modulo \<open>m\<close>. The coefficient is computed here by the
  Euclidean algorithm; whenever \<open>a\<close> has an inverse modulo \<open>m\<close> the reduced coefficient is that
  inverse, whichever identity was found, and for \<open>a = 0\<close> the result is \<open>0\<close> as in the library.
\<close>

function egcd :: "int \<Rightarrow> int \<Rightarrow> int \<times> int" where
  "egcd x y =
     (if y \<le> 0 then (1, 0)
      else (case egcd y (x mod y) of (a, b) \<Rightarrow> (b, a - (x div y) * b)))"
  by pat_completeness auto
termination
  by (relation "measure (\<lambda>(x, y). nat y)") auto

declare egcd.simps [simp del]

definition invm :: "int \<Rightarrow> int \<Rightarrow> int" where
  "invm a m = fst (egcd a m) mod m"

subsection \<open>elliptic, crypto-js and the runtime: the curve, the hash and the printing of numbers\<close>

text \<open>
  The curve, its ECDSA verification and SHA-256 are libraries outside the program, and so is the
  way the runtime prints a number inside a template literal (decimal digits for an integer of
  moderate size, a rounded mantissa and an exponent for a large one). Every function that calls
  them takes them as one argument:
  \<^item> \<open>Number_toString x\<close> is the text of the number \<open>x\<close> inside a template literal;
  \<^item> \<open>SHA256 data\<close> is the digest \<^verbatim>\<open>CryptoJS.SHA256(data)\<close>, as the number its 32 bytes spell;
    \<^verbatim>\<open>.toString()\<close> prints it with 64 hexadecimal digits;
  \<^item> \<open>g_mul_getX k\<close> is \<^verbatim>\<open>ec.g.mul(k).getX()\<close>; the point at infinity has no coordinates and
    reading one raises a \<^verbatim>\<open>TypeError\<close> (\<open>None\<close>);
  \<^item> \<open>g_mul_encode k\<close> is \<^verbatim>\<open>ec.g.mul(k).encode('hex')\<close>, which reads the coordinates too;
  \<^item> \<open>keyFromPublic str\<close> is \<^verbatim>\<open>ec.keyFromPublic(str, 'hex')\<close>, \<open>Inl msg\<close> when it throws;
  \<^item> \<open>key_verify key digest r s\<close> is \<^verbatim>\<open>key.verify(msgHashArr, {r, s})\<close>, \<open>Inl msg\<close> when it throws;
    \<open>r\<close> and \<open>s\<close> are handed over as \<^verbatim>\<open>new BN\<close> built them.
\<close>

record 'key external =
  Number_toString :: "int \<Rightarrow> string"
  SHA256 :: "string \<Rightarrow> nat"
  g_mul_getX :: "int \<Rightarrow> nat option"
  g_mul_encode :: "int \<Rightarrow> string option"
  keyFromPublic :: "string \<Rightarrow> string + 'key"
  key_verify :: "'key \<Rightarrow> string \<Rightarrow> bn \<Rightarrow> bn \<Rightarrow> string + bool"

definition SHA256_toString :: "'key external \<Rightarrow> string \<Rightarrow> string" where
  "SHA256_toString ext data = hex64 (int (SHA256 ext data))"

section \<open>The threshold signer (\<^verbatim>\<open>src/tss.mjs\<close>)\<close>

subsection \<open>Data\<close>

text \<open>
  The object built by the constructor. The field \<open>groupOrder\<close> is \<^verbatim>\<open>this.n\<close>, which the
  constructor copies from the curve (\<^verbatim>\<open>ec.n\<close>); the curve is an external library, so its order
  is an argument of the constructor here. The map \<^verbatim>\<open>this.parties\<close> is written by key generation
  and read by nothing, and is left out.
\<close>

record TrueThresholdSignature =
  threshold :: int
  totalParties :: int
  groupOrder :: int

datatype constructor_error =
    ThresholdGreaterThanTotal
  | ThresholdBelowTwo

definition new_TrueThresholdSignature ::
  "int \<Rightarrow> int \<Rightarrow> int \<Rightarrow> constructor_error + TrueThresholdSignature" where
  "new_TrueThresholdSignature ec_n t parties =
     (if t > parties then Inl ThresholdGreaterThanTotal
      else if t < 2 then Inl ThresholdBelowTwo
      else Inr \<lparr>threshold = t, totalParties = parties, groupOrder = ec_n\<rparr>)"

record Party =
  p_id :: int
  p_privateKeyShare :: string
  p_publicKey :: string
  p_shareIndex :: int
  p_created :: string

record KeyGenerationResult =
  kg_publicKey :: string
  kg_parties :: "Party list"
  kg_threshold :: int
  kg_totalParties :: int
  kg_securityNote :: string

record PartialSignature =
  ps_partyId :: int
  ps_sessionId :: string
  ps_r :: string
  ps_si :: string
  ps_messageHash :: string
  ps_message :: string
  ps_timestamp :: string
  ps_securityNote :: string

record CombinedSignature =
  cs_r :: string
  cs_s :: string
  cs_message :: string
  cs_messageHash :: string
  cs_participatingParties :: "int list"
  cs_sessionId :: string
  cs_timestamp :: string
  cs_securityGuarantee :: string

subsection \<open>Errors\<close>

text \<open>
  A thrown \<^verbatim>\<open>Error\<close> is a value, and a rejected promise of an \<^verbatim>\<open>async\<close> function is the
  error it was rejected with. \<open>inner_error\<close> lists what can be raised inside a \<^verbatim>\<open>try\<close> block:
  the errors the program throws itself and the errors of the libraries. Key generation, signing
  and combination catch whatever is raised inside and throw it again under a prefix of their
  own (\<^verbatim>\<open>Failed to combine signatures:\<close> and the like). The length check of the combination
  stands before its \<^verbatim>\<open>try\<close> block and is thrown as it is.
\<close>

datatype inner_error =
    SameRValue                    \<comment> \<open>\<^verbatim>\<open>All partial signatures must have the same r value\<close>\<close>
  | InvalidParties                \<comment> \<open>\<^verbatim>\<open>One or more signatures are from invalid parties\<close>\<close>
  | NeedUnique int nat            \<comment> \<open>\<^verbatim>\<open>Need t unique party signatures, but only have k\<close>\<close>
  | UndefinedProperty             \<comment> \<open>a \<^verbatim>\<open>TypeError\<close>: a field of \<^verbatim>\<open>undefined\<close> or \<^verbatim>\<open>null\<close> is read\<close>
  | InvalidCharacter string       \<comment> \<open>\<^verbatim>\<open>new BN\<close> refuses the string\<close>
  | LibraryError string           \<comment> \<open>an error thrown by the curve library, with its message\<close>

datatype combine_error =
    AtLeastRequired int           \<comment> \<open>\<^verbatim>\<open>At least t partial signatures are required\<close>\<close>
  | FailedToCombine inner_error

subsection \<open>Polynomial evaluation and Lagrange coefficients\<close>

fun evaluatePolynomial_loop :: "int \<Rightarrow> int \<Rightarrow> int list \<Rightarrow> int \<Rightarrow> int \<Rightarrow> int" where
  "evaluatePolynomial_loop m x [] result xPower = result"
| "evaluatePolynomial_loop m x (coeff # coefficients) result xPower =
     (let term = (coeff * xPower) mod m;
          result' = (result + term) mod m;
          xPower' = (xPower * x) mod m
      in evaluatePolynomial_loop m x coefficients result' xPower')"

definition evaluatePolynomial :: "TrueThresholdSignature \<Rightarrow> int list \<Rightarrow> int \<Rightarrow> int" where
  "evaluatePolynomial self coefficients x =
     evaluatePolynomial_loop (groupOrder self) x coefficients 0 1"

fun lagrangeCoefficient_loop :: "int \<Rightarrow> int \<Rightarrow> int list \<Rightarrow> int \<Rightarrow> int" where
  "lagrangeCoefficient_loop m i [] result = result"
| "lagrangeCoefficient_loop m i (j # indices) result =
     (if i \<noteq> j then
        (let num = (m - j) mod m;
             den = (i - j) mod m;
             denInv = invm den m
         in lagrangeCoefficient_loop m i indices ((result * num * denInv) mod m))
      else lagrangeCoefficient_loop m i indices result)"

definition lagrangeCoefficient :: "TrueThresholdSignature \<Rightarrow> int \<Rightarrow> int list \<Rightarrow> int" where
  "lagrangeCoefficient self i indices = lagrangeCoefficient_loop (groupOrder self) i indices 1"

subsection \<open>Key generation\<close>

text \<open>
  The random bytes are arguments: \<open>randomKey\<close> is the number read from the 32 bytes drawn for
  the master key and \<open>randomCoeff i\<close> the one drawn in round \<open>i\<close> of the coefficient loop.
  \<open>clock i\<close> is the time printed into the record of party \<open>i\<close>.
\<close>

definition generatePolynomialCoefficients ::
  "TrueThresholdSignature \<Rightarrow> int \<Rightarrow> (nat \<Rightarrow> nat) \<Rightarrow> int list" where
  "generatePolynomialCoefficients self secret randomCoeff =
     secret # map (\<lambda>i. int (randomCoeff i) mod groupOrder self) [1..<nat (threshold self)]"

datatype keygen_error = FailedToGenerateKeys inner_error

definition generateDistributedKeys ::
  "TrueThresholdSignature \<Rightarrow> 'key external \<Rightarrow> nat \<Rightarrow> (nat \<Rightarrow> nat) \<Rightarrow> (int \<Rightarrow> string)
     \<Rightarrow> keygen_error + KeyGenerationResult" where
  "generateDistributedKeys self ext randomKey randomCoeff clock =
     (let privateKeyBN = int randomKey mod groupOrder self in
      case g_mul_encode ext privateKeyBN of
        None \<Rightarrow> Inl (FailedToGenerateKeys UndefinedProperty)
      | Some publicKeyHex \<Rightarrow>
          (let coefficients = generatePolynomialCoefficients self privateKeyBN randomCoeff;
               parties =
                 map (\<lambda>i. let share = evaluatePolynomial self coefficients i
                          in \<lparr>p_id = i,
                              p_privateKeyShare = hex64 share,
                              p_publicKey = publicKeyHex,
                              p_shareIndex = i,
                              p_created = clock i\<rparr>)
                     [1..totalParties self]
           in Inr \<lparr>kg_publicKey = publicKeyHex,
                    kg_parties = parties,
                    kg_threshold = threshold self,
                    kg_totalParties = totalParties self,
                    kg_securityNote =
                      ''Original private key was immediately destroyed after share generation''\<rparr>))"

subsection \<open>Partial signatures\<close>

definition generateSessionNonce :: "'key external \<Rightarrow> string \<Rightarrow> int \<Rightarrow> int \<Rightarrow> string" where
  \<comment> \<open>\<open>dateNow\<close> is the value of \<^verbatim>\<open>Date.now()\<close>\<close>
  "generateSessionNonce ext sessionId partyId dateNow =
     SHA256_toString ext
       (sessionId @ ''_'' @ Number_toString ext partyId @ ''_'' @ Number_toString ext dateNow)"

datatype sign_error = FailedToGeneratePartialSignature inner_error

definition generatePartialSignature ::
  "TrueThresholdSignature \<Rightarrow> 'key external \<Rightarrow> string \<Rightarrow> Party \<Rightarrow> string \<Rightarrow> string option
     \<Rightarrow> int \<Rightarrow> string \<Rightarrow> sign_error + PartialSignature" where
  \<comment> \<open>\<open>nonce = None\<close> is the default \<^verbatim>\<open>null\<close>; \<^verbatim>\<open>nonce || ...\<close> also replaces the empty string.
      A digest or a coordinate has digits, so the branches \<open>Hollow\<close> of these two are not reached.
      A nonce without digits passes \<^verbatim>\<open>umod\<close> unread (or as the order itself, when it has the
      sign) and \<^verbatim>\<open>ec.g.mul\<close> or \<^verbatim>\<open>getX\<close> raises the \<^verbatim>\<open>TypeError\<close>; a share without digits
      raises it in \<^verbatim>\<open>r.mul(xi)\<close>\<close>
  "generatePartialSignature self ext message party sessionId nonce dateNow now =
     (let messageHash = SHA256_toString ext message in
      case BN16 messageHash of
        None \<Rightarrow> Inl (FailedToGeneratePartialSignature (InvalidCharacter messageHash))
      | Some (Hollow _) \<Rightarrow> Inl (FailedToGeneratePartialSignature UndefinedProperty)
      | Some (Number messageHashBN) \<Rightarrow>
     (let sessionNonce =
            (case nonce of
               None \<Rightarrow> generateSessionNonce ext sessionId (p_id party) dateNow
             | Some v \<Rightarrow>
                 if v = [] then generateSessionNonce ext sessionId (p_id party) dateNow else v)
      in
      case BN16 sessionNonce of
        None \<Rightarrow> Inl (FailedToGeneratePartialSignature (InvalidCharacter sessionNonce))
      | Some (Hollow _) \<Rightarrow> Inl (FailedToGeneratePartialSignature UndefinedProperty)
      | Some (Number kBN) \<Rightarrow>
     (let k = kBN mod groupOrder self in
      case g_mul_getX ext k of
        None \<Rightarrow> Inl (FailedToGeneratePartialSignature UndefinedProperty)
      | Some x \<Rightarrow>
     (case BN16 (toString16 (int x)) of
        None \<Rightarrow> Inl (FailedToGeneratePartialSignature (InvalidCharacter (toString16 (int x))))
      | Some (Hollow _) \<Rightarrow> Inl (FailedToGeneratePartialSignature UndefinedProperty)
      | Some (Number xBN) \<Rightarrow>
     (let r = xBN mod groupOrder self in
      case BN16 (p_privateKeyShare party) of
        None \<Rightarrow> Inl (FailedToGeneratePartialSignature (InvalidCharacter (p_privateKeyShare party)))
      | Some (Hollow _) \<Rightarrow> Inl (FailedToGeneratePartialSignature UndefinedProperty)
      | Some (Number xi) \<Rightarrow>
     (let kInv = invm k (groupOrder self);
          rxiMod = (r * xi) mod groupOrder self;
          sum = (messageHashBN + rxiMod) mod groupOrder self;
          si = (kInv * sum) mod groupOrder self
      in Inr \<lparr>ps_partyId = p_id party,
               ps_sessionId = sessionId,
               ps_r = hex64 r,
               ps_si = hex64 si,
               ps_messageHash = messageHash,
               ps_message = message,
               ps_timestamp = now,
               ps_securityNote = ''This is a partial signature and not valid alone''\<rparr>))))))"

subsection \<open>Combining partial signatures\<close>

fun select_loop ::
  "int \<Rightarrow> PartialSignature list \<Rightarrow> PartialSignature list \<Rightarrow> int list \<Rightarrow> PartialSignature list" where
  "select_loop t [] uniquePartialSigs usedPartyIds = uniquePartialSigs"
| "select_loop t (sig # rest) uniquePartialSigs usedPartyIds =
     (if ps_partyId sig \<notin> set usedPartyIds then
        (let uniquePartialSigs' = uniquePartialSigs @ [sig];
             usedPartyIds' = usedPartyIds @ [ps_partyId sig]
         in if int (length uniquePartialSigs') = t then uniquePartialSigs'
            else select_loop t rest uniquePartialSigs' usedPartyIds')
      else select_loop t rest uniquePartialSigs usedPartyIds)"

text \<open>
  The loop over \<open>i = 0, ..., threshold - 1\<close>. A contribution \<open>si\<close> that \<^verbatim>\<open>new BN\<close> refuses
  raises \<^verbatim>\<open>Invalid character\<close>; one without digits raises the \<^verbatim>\<open>TypeError\<close> in
  \<^verbatim>\<open>lambda.mul(si)\<close>. The number \<open>rBN\<close> is only printed, so an \<open>r\<close> without digits raises
  nothing and is printed as its sign.
\<close>

fun sum_loop ::
  "TrueThresholdSignature \<Rightarrow> int list \<Rightarrow> PartialSignature list \<Rightarrow> nat list \<Rightarrow> int
     \<Rightarrow> inner_error + int" where
  "sum_loop self selectedParticipantIds uniquePartialSigs [] s = Inr s"
| "sum_loop self selectedParticipantIds uniquePartialSigs (i # is) s =
     (if i < length uniquePartialSigs then
        (let partyId = selectedParticipantIds ! i in
         case BN16 (ps_si (uniquePartialSigs ! i)) of
           None \<Rightarrow> Inl (InvalidCharacter (ps_si (uniquePartialSigs ! i)))
         | Some (Hollow _) \<Rightarrow> Inl UndefinedProperty
         | Some (Number si) \<Rightarrow>
             (let lambda = lagrangeCoefficient self partyId selectedParticipantIds;
                  partialResult = (lambda * si) mod groupOrder self
              in sum_loop self selectedParticipantIds uniquePartialSigs is
                   ((s + partialResult) mod groupOrder self)))
      else Inl UndefinedProperty)"

definition combine_try ::
  "TrueThresholdSignature \<Rightarrow> string \<Rightarrow> PartialSignature list \<Rightarrow> string
     \<Rightarrow> inner_error + CombinedSignature" where
  "combine_try self message partialSignatures now =
     (case partialSignatures of
        [] \<Rightarrow> Inl UndefinedProperty
      | first # _ \<Rightarrow>
          (let r = ps_r first in
           if list_ex (\<lambda>sig. ps_r sig \<noteq> r) partialSignatures then Inl SameRValue
           else
             (let validPartyIds = [1..totalParties self];
                  allPartySigsValid =
                    list_all (\<lambda>sig. ps_partyId sig \<in> set validPartyIds) partialSignatures
              in if \<not> allPartySigsValid then Inl InvalidParties
                 else
                   (let participantIds = map ps_partyId partialSignatures;
                        uniqueParticipantIds = remdups participantIds
                    in if int (length uniqueParticipantIds) < threshold self
                       then Inl (NeedUnique (threshold self) (length uniqueParticipantIds))
                       else
                         (let uniquePartialSigs =
                                select_loop (threshold self) partialSignatures [] []
                          in case BN16 r of
                               None \<Rightarrow> Inl (InvalidCharacter r)
                             | Some rBN \<Rightarrow>
                                 (let selectedParticipantIds = map ps_partyId uniquePartialSigs
                                  in case sum_loop self selectedParticipantIds uniquePartialSigs
                                            [0..<nat (threshold self)] 0 of
                                       Inl e \<Rightarrow> Inl e
                                     | Inr s \<Rightarrow>
                                         (let halfN = groupOrder self div 2;
                                              s' = (if s > halfN then groupOrder self - s else s)
                                          in Inr \<lparr>cs_r = padStart 64 (CHR ''0'') (bn_toString16 rBN),
                                                   cs_s = hex64 s',
                                                   cs_message = message,
                                                   cs_messageHash = ps_messageHash first,
                                                   cs_participatingParties = selectedParticipantIds,
                                                   cs_sessionId = ps_sessionId first,
                                                   cs_timestamp = now,
                                                   cs_securityGuarantee =
                                                     ''Private key was never reconstructed during signing''\<rparr>)))))))"

definition combinePartialSignatures ::
  "TrueThresholdSignature \<Rightarrow> string \<Rightarrow> PartialSignature list \<Rightarrow> string
     \<Rightarrow> combine_error + CombinedSignature" where
  "combinePartialSignatures self message partialSignatures now =
     (if int (length partialSignatures) < threshold self
      then Inl (AtLeastRequired (threshold self))
      else (case combine_try self message partialSignatures now of
              Inl e \<Rightarrow> Inl (FailedToCombine e)
            | Inr signature \<Rightarrow> Inr signature))"

subsection \<open>Verification\<close>

datatype reason =
    MessageHashMismatch             \<comment> \<open>\<^verbatim>\<open>Message hash mismatch\<close>\<close>
  | InvalidPublicKeyFormat string   \<comment> \<open>\<^verbatim>\<open>Invalid public key format:\<close> and the library's message\<close>
  | SignatureVerificationFailed     \<comment> \<open>\<^verbatim>\<open>Signature verification failed\<close>\<close>
  | VerificationError inner_error   \<comment> \<open>\<^verbatim>\<open>Verification error:\<close> and the message of what was caught\<close>

text \<open>
  The result object: \<open>Rejected reason\<close> is \<^verbatim>\<open>{valid: false, reason}\<close> and
  \<open>Accepted message publicKey verifiedAt participants\<close> is the object with \<^verbatim>\<open>valid: true\<close>.
\<close>

datatype verify_result =
    Rejected reason
  | Accepted string string string "int list"

fun valid :: "verify_result \<Rightarrow> bool" where
  "valid (Rejected _) = False"
| "valid (Accepted _ _ _ _) = True"

definition verify_try ::
  "'key external \<Rightarrow> CombinedSignature \<Rightarrow> string \<Rightarrow> string \<Rightarrow> inner_error + verify_result" where
  "verify_try ext signature publicKey now =
     (let messageHash = SHA256_toString ext (cs_message signature) in
      if messageHash \<noteq> cs_messageHash signature then Inr (Rejected MessageHashMismatch)
      else
        (case BN16 (cs_r signature) of
           None \<Rightarrow> Inl (InvalidCharacter (cs_r signature))
         | Some r \<Rightarrow>
        (case BN16 (cs_s signature) of
           None \<Rightarrow> Inl (InvalidCharacter (cs_s signature))
         | Some s \<Rightarrow>
        (case keyFromPublic ext publicKey of
           Inl msg \<Rightarrow> Inr (Rejected (InvalidPublicKeyFormat msg))
         | Inr key \<Rightarrow>
        (case key_verify ext key messageHash r s of
           Inl msg \<Rightarrow> Inl (LibraryError msg)
         | Inr isValid \<Rightarrow>
             if isValid
             then Inr (Accepted (cs_message signature) publicKey now
                         (cs_participatingParties signature))
             else Inr (Rejected SignatureVerificationFailed))))))"

definition verifySignature ::
  "'key external \<Rightarrow> CombinedSignature \<Rightarrow> string \<Rightarrow> string \<Rightarrow> inner_error + verify_result" where
  \<comment> \<open>\<open>Inl e\<close> would be an error that leaves the function; \<open>now\<close> is the clock reading\<close>
  "verifySignature ext signature publicKey now =
     (case verify_try ext signature publicKey now of
        Inl e \<Rightarrow> Inr (Rejected (VerificationError e))
      | Inr result \<Rightarrow> Inr result)"

section \<open>Notions used to state the properties\<close>

text \<open>
  The selection rule in the words of the specification: keep the first signature of every party,
  in input order.
\<close>

fun first_seen :: "PartialSignature list \<Rightarrow> PartialSignature list" where
  "first_seen [] = []"
| "first_seen (x # xs) = x # first_seen (filter (\<lambda>y. ps_partyId y \<noteq> ps_partyId x) xs)"

text \<open>
  The group order is prime: no number from 2 to \<open>m - 1\<close> divides it.
\<close>

definition prime_order :: "int \<Rightarrow> bool" where
  "prime_order m = (1 < m \<and> (\<forall>d \<in> set [2..m - 1]. \<not> d dvd m))"

text \<open>A verification result without the time at which it was made.\<close>

fun forget_verifiedAt :: "verify_result \<Rightarrow> verify_result" where
  "forget_verifiedAt (Rejected why) = Rejected why"
| "forget_verifiedAt (Accepted message publicKey verifiedAt participants) =
     Accepted message publicKey [] participants"

text \<open>
  Polynomials with integer coefficients, lowest degree first, as the coefficient list of the
  program: evaluation by Horner's rule, the quotient of the division by \<open>X - a\<close>, sum, multiple,
  product with \<open>X - a\<close>, the numerator \<open>\<Prod>j \<noteq> i. (X - j)\<close> of a Lagrange basis polynomial and
  the sum of a family of polynomials.
\<close>

fun peval :: "int list \<Rightarrow> int \<Rightarrow> int" where
  "peval [] x = 0"
| "peval (c # cs) x = c + x * peval cs x"

fun pquot :: "int \<Rightarrow> int list \<Rightarrow> int list" where
  "pquot a [] = []"
| "pquot a (c # cs) = peval (c # cs) a # pquot a cs"

fun padd :: "int list \<Rightarrow> int list \<Rightarrow> int list" where
  "padd [] q = q"
| "padd p [] = p"
| "padd (a # p) (b # q) = (a + b) # padd p q"

definition smult :: "int \<Rightarrow> int list \<Rightarrow> int list" where
  "smult c p = map (\<lambda>a. c * a) p"

definition mul_linear :: "int \<Rightarrow> int list \<Rightarrow> int list" where
  "mul_linear a p = padd (smult (- a) p) (0 # p)"

fun lagrange_numerator :: "int \<Rightarrow> int list \<Rightarrow> int list" where
  "lagrange_numerator i [] = [1]"
| "lagrange_numerator i (j # js) =
     (if i \<noteq> j then mul_linear j (lagrange_numerator i js) else lagrange_numerator i js)"

fun psum :: "(int \<Rightarrow> int list) \<Rightarrow> int list \<Rightarrow> int list" where
  "psum f [] = []"
| "psum f (i # is) = padd (f i) (psum f is)"

text \<open>
  Standard ECDSA verification of the pair \<open>(r, s)\<close> on the digest \<open>e\<close> under the public key
  \<open>d\<close> times the base point, in a group of order \<open>n\<close>: with \<open>w = s\<^sup>-\<^sup>1\<close>, \<open>u1 = e * w\<close> and
  \<open>u2 = r * w\<close>, the pair is accepted when \<open>r\<close> and \<open>s\<close> lie in \<open>1..<n\<close> and the point
  \<open>u1\<close> times the base point plus \<open>u2\<close> times the public key, which is \<open>u1 + u2 * d\<close> times the
  base point, is not the point at infinity and has the coordinate \<open>x\<close> with \<open>x mod n = r\<close>.
\<close>

definition ecdsa_accepts :: "'key external \<Rightarrow> int \<Rightarrow> int \<Rightarrow> int \<Rightarrow> int \<Rightarrow> int \<Rightarrow> bool" where
  "ecdsa_accepts ext n d e r s =
     (1 \<le> r \<and> r < n \<and> 1 \<le> s \<and> s < n \<and>
      (let w = invm s n;
           u1 = (e * w) mod n;
           u2 = (r * w) mod n
       in case g_mul_getX ext ((u1 + u2 * d) mod n) of
            None \<Rightarrow> False
          | Some X \<Rightarrow> int X mod n = r))"

section \<open>Concrete instances\<close>

text \<open>The order of secp256k1, and the 3-of-5 signer of the test suite.\<close>

definition secp256k1_n :: int where
  "secp256k1_n = 0xFFFFFFFFFFFFFFFFFFFFFFFFFFFFFFFEBAAEDCE6AF48A03BBFD25E8CD0364141"

definition demo_tss :: TrueThresholdSignature where
  "demo_tss = \<lparr>threshold = 3, totalParties = 5, groupOrder = secp256k1_n\<rparr>"

definition demo_partial :: "int \<Rightarrow> string \<Rightarrow> string \<Rightarrow> string \<Rightarrow> PartialSignature" where
  "demo_partial i r si sid =
     \<lparr>ps_partyId = i, ps_sessionId = sid, ps_r = r, ps_si = si,
      ps_messageHash = ''ab'', ps_message = ''m'', ps_timestamp = ''t'',
      ps_securityNote = ''This is a partial signature and not valid alone''\<rparr>"

text \<open>
  A 3-of-5 signer over a small prime order, on which whole runs can be evaluated, with an input
  of five partial signatures (party 2 twice, parties 1 and 3 beyond the threshold), the three
  signatures the selection keeps, another input with the same selection, and the result.
\<close>

definition small_tss :: TrueThresholdSignature where
  "small_tss = \<lparr>threshold = 3, totalParties = 5, groupOrder = 251\<rparr>"

definition small_sigs :: "PartialSignature list" where
  "small_sigs =
     [demo_partial 2 ''0a'' ''11'' ''s'', demo_partial 5 ''0a'' ''cb'' ''s'',
      demo_partial 2 ''0a'' ''ff'' ''s'', demo_partial 1 ''0a'' ''33'' ''s'',
      demo_partial 3 ''0a'' ''44'' ''s'']"

definition small_selected :: "PartialSignature list" where
  "small_selected =
     [demo_partial 2 ''0a'' ''11'' ''s'', demo_partial 5 ''0a'' ''cb'' ''s'',
      demo_partial 1 ''0a'' ''33'' ''s'']"

definition small_other :: "PartialSignature list" where
  "small_other =
     [demo_partial 2 ''0a'' ''11'' ''s'', demo_partial 5 ''0a'' ''cb'' ''s'',
      demo_partial 1 ''0a'' ''33'' ''s'', demo_partial 5 ''0a'' ''01'' ''s'',
      demo_partial 4 ''0a'' ''55'' ''s'']"

definition small_combined :: CombinedSignature where
  "small_combined =
     \<lparr>cs_r = ''000000000000000000000000000000000000000000000000000000000000000a'',
      cs_s = ''0000000000000000000000000000000000000000000000000000000000000076'',
      cs_message = ''m'', cs_messageHash = ''ab'',
      cs_participatingParties = [2, 5, 1], cs_sessionId = ''s'',
      cs_timestamp = ''now'',
      cs_securityGuarantee = ''Private key was never reconstructed during signing''\<rparr>"

text \<open>
  A stand-in for the libraries, on which the functions that call them can be evaluated: the
  additive group of the integers modulo 251 in place of the curve, with generator 1, so that
  \<open>k\<close> times the generator is \<open>k mod 251\<close> and the point at infinity is 0. The coordinate
  \<open>x\<close> of a point is the smaller of the point and its negative, so that a point and its
  negative share it, as on a curve. \<open>key_verify\<close> is textbook ECDSA verification in that group
  and \<open>SHA256\<close> is the sum of the character codes; numbers are printed in decimal. The signature
  \<open>toy_signature\<close> is a valid one for the key \<open>toy_publicKey\<close>.
\<close>

fun decOfNat :: "nat \<Rightarrow> string" where
  "decOfNat k =
     (if k < 10 then [hexDigit k] else decOfNat (k div 10) @ [hexDigit (k mod 10)])"

declare decOfNat.simps [simp del]

definition decimal :: "int \<Rightarrow> string" where
  "decimal x = (if x < 0 then CHR ''-'' # decOfNat (nat (- x)) else decOfNat (nat x))"

definition toy_point_x :: "int \<Rightarrow> int" where
  "toy_point_x p = min (p mod 251) (251 - p mod 251)"

definition toy_ext :: "int external" where
  "toy_ext =
     \<lparr>Number_toString = decimal,
      SHA256 = (\<lambda>data. sum_list (map of_char data)),
      g_mul_getX = (\<lambda>k. if k mod 251 = 0 then None else Some (nat (toy_point_x k))),
      g_mul_encode = (\<lambda>k. if k mod 251 = 0 then None else Some (''04'' @ hex64 (k mod 251))),
      keyFromPublic =
        (\<lambda>str. if take 2 str = ''04''
                then (case BN16 (drop 2 str) of
                        Some (Number q) \<Rightarrow> Inr q
                      | _ \<Rightarrow> Inl ''Invalid character'')
                else Inl ''Unknown point format''),
      key_verify =
        (\<lambda>q digest r s.
           case (BN16 digest, r, s) of
             (Some (Number e), Number r, Number s) \<Rightarrow>
               Inr (1 \<le> r \<and> r < 251 \<and> 1 \<le> s \<and> s < 251 \<and>
                    (let w = invm s 251;
                         u1 = (e * w) mod 251;
                         u2 = (r * w) mod 251;
                         p = (u1 + u2 * q) mod 251
                     in p \<noteq> 0 \<and> toy_point_x p = r))
           | _ \<Rightarrow> Inl ''Cannot read properties of null'')\<rparr>"

definition toy_signature :: CombinedSignature where
  "toy_signature =
     \<lparr>cs_r = ''0000000000000000000000000000000000000000000000000000000000000007'',
      cs_s = ''0000000000000000000000000000000000000000000000000000000000000032'',
      cs_message = ''m'',
      cs_messageHash = ''000000000000000000000000000000000000000000000000000000000000006d'',
      cs_participatingParties = [2, 5, 3], cs_sessionId = ''sid'',
      cs_timestamp = ''now'',
      cs_securityGuarantee = ''Private key was never reconstructed during signing''\<rparr>"

definition toy_publicKey :: string where
  "toy_publicKey = ''04000000000000000000000000000000000000000000000000000000000000002a''"

text \<open>Party 2 of a key set over the stand-in group, and its partial signature with nonce 7.\<close>

definition toy_party :: Party where
  "toy_party =
     \<lparr>p_id = 2,
      p_privateKeyShare = ''00000000000000000000000000000000000000000000000000000000000000bc'',
      p_publicKey = toy_publicKey,
      p_shareIndex = 2,
      p_created = ''2025-01-01T00:00:00.000Z''\<rparr>"

definition toy_partial :: PartialSignature where
  "toy_partial =
     \<lparr>ps_partyId = 2, ps_sessionId = ''sid'',
      ps_r = ''0000000000000000000000000000000000000000000000000000000000000007'',
      ps_si = ''0000000000000000000000000000000000000000000000000000000000000060'',
      ps_messageHash = ''000000000000000000000000000000000000000000000000000000000000006d'',
      ps_message = ''m'', ps_timestamp = ''t'',
      ps_securityNote = ''This is a partial signature and not valid alone''\<rparr>"

text \<open>
  A key set over the stand-in group (master key 42), the parties 2, 5 and 3 of it, and their
  partial signatures of the message \<open>m\<close> with the shared nonce 7.
\<close>

definition toy_keys :: KeyGenerationResult where
  "toy_keys =
     \<lparr>kg_publicKey = toy_publicKey,
      kg_parties =
        map (\<lambda>(i, share).
               \<lparr>p_id = i, p_privateKeyShare = share, p_publicKey = toy_publicKey,
                p_shareIndex = i, p_created = ''2025-01-01T00:00:00.000Z''\<rparr>)
          [(1, ''0000000000000000000000000000000000000000000000000000000000000055''),
           (2, ''00000000000000000000000000000000000000000000000000000000000000bc''),
           (3, ''0000000000000000000000000000000000000000000000000000000000000064''),
           (4, ''0000000000000000000000000000000000000000000000000000000000000048''),
           (5, ''0000000000000000000000000000000000000000000000000000000000000068'')],
      kg_threshold = 3,
      kg_totalParties = 5,
      kg_securityNote =
        ''Original private key was immediately destroyed after share generation''\<rparr>"

definition toy_parties :: "Party list" where
  "toy_parties = [kg_parties toy_keys ! 1, kg_parties toy_keys ! 4, kg_parties toy_keys ! 2]"

definition toy_sigs :: "PartialSignature list" where
  "toy_sigs =
     [toy_partial,
      toy_partial\<lparr>ps_partyId := 5,
        ps_si := ''000000000000000000000000000000000000000000000000000000000000000c''\<rparr>,
      toy_partial\<lparr>ps_partyId := 3,
        ps_si := ''0000000000000000000000000000000000000000000000000000000000000008''\<rparr>]"

text \<open>
  The partial signatures of the same parties on the message \<open>hh\<close> with the same nonce, and their
  combination. The digest of \<open>hh\<close> is 208 and \<open>208 + 7 * 42 = 2 * 251\<close>.
\<close>

definition toy_sigs_hh :: "PartialSignature list" where
  "toy_sigs_hh =
     map (\<lambda>(i, si).
            \<lparr>ps_partyId = i, ps_sessionId = ''sid'',
             ps_r = ''0000000000000000000000000000000000000000000000000000000000000007'',
             ps_si = si,
             ps_messageHash = ''00000000000000000000000000000000000000000000000000000000000000d0'',
             ps_message = ''hh'', ps_timestamp = ''t'',
             ps_securityNote = ''This is a partial signature and not valid alone''\<rparr>)
       [(2, ''0000000000000000000000000000000000000000000000000000000000000092''),
        (5, ''000000000000000000000000000000000000000000000000000000000000003e''),
        (3, ''000000000000000000000000000000000000000000000000000000000000003a'')]"

definition toy_signature_hh :: CombinedSignature where
  "toy_signature_hh =
     \<lparr>cs_r = ''0000000000000000000000000000000000000000000000000000000000000007'',
      cs_s = ''0000000000000000000000000000000000000000000000000000000000000000'',
      cs_message = ''hh'',
      cs_messageHash = ''00000000000000000000000000000000000000000000000000000000000000d0'',
      cs_participatingParties = [2, 5, 3], cs_sessionId = ''sid'',
      cs_timestamp = ''now'',
      cs_securityGuarantee = ''Private key was never reconstructed during signing''\<rparr>"

section \<open>Properties\<close>

subsection \<open>Hexadecimal text is read back as the number that was written\<close>

lemma hexDigit_cases:
  "(d::nat) < 16 \<Longrightarrow> d = 0 \<or> d = 1 \<or> d = 2 \<or> d = 3 \<or> d = 4 \<or> d = 5 \<or> d = 6 \<or> d = 7
     \<or> d = 8 \<or> d = 9 \<or> d = 10 \<or> d = 11 \<or> d = 12 \<or> d = 13 \<or> d = 14 \<or> d = 15"
  by arith

lemma hexDigit_table:
  "hexDigit 0 = CHR ''0''" "hexDigit (Suc 0) = CHR ''1''" "hexDigit 2 = CHR ''2''"
  "hexDigit 3 = CHR ''3''" "hexDigit 4 = CHR ''4''" "hexDigit 5 = CHR ''5''"
  "hexDigit 6 = CHR ''6''" "hexDigit 7 = CHR ''7''" "hexDigit 8 = CHR ''8''"
  "hexDigit 9 = CHR ''9''" "hexDigit 10 = CHR ''a''" "hexDigit 11 = CHR ''b''"
  "hexDigit 12 = CHR ''c''" "hexDigit 13 = CHR ''d''" "hexDigit 14 = CHR ''e''"
  "hexDigit 15 = CHR ''f''"
  by (simp_all add: hexDigit_def)

lemma hexDigit_props_lt:
  assumes "d < 16"
  shows "hexValue (hexDigit d) = Some d \<and> \<not> isSpace (hexDigit d) \<and> hexDigit d \<noteq> CHR ''-''"
  using hexDigit_cases [OF assms]
  by (elim disjE) (simp_all add: hexDigit_table hexValue_def isSpace_def)

lemma hexDigit_mod: "hexDigit d = hexDigit (d mod 16)"
  by (simp add: hexDigit_def)

lemma hexValue_hexDigit: "hexValue (hexDigit d) = Some (d mod 16)"
  using hexDigit_props_lt [of "d mod 16"] hexDigit_mod [of d] by simp

lemma isSpace_hexDigit: "\<not> isSpace (hexDigit d)"
  using hexDigit_props_lt [of "d mod 16"] hexDigit_mod [of d] by simp

lemma hexDigit_not_minus: "hexDigit d \<noteq> CHR ''-''"
  using hexDigit_props_lt [of "d mod 16"] hexDigit_mod [of d] by simp

lemma parseHex_snoc:
  "parseHex (cs @ [c]) acc =
     (case parseHex cs acc of None \<Rightarrow> None
      | Some v \<Rightarrow> (case hexValue c of None \<Rightarrow> None | Some d \<Rightarrow> Some (16 * v + d)))"
  by (induction cs arbitrary: acc) (auto split: option.splits)

lemma parseHex_hexOfNat: "parseHex (hexOfNat k) 0 = Some k"
proof (induction k rule: hexOfNat.induct)
  case (1 k)
  show ?case
  proof (cases "k = 0")
    case True
    then show ?thesis by (simp add: hexOfNat.simps)
  next
    case False
    with 1 have "parseHex (hexOfNat (k div 16)) 0 = Some (k div 16)" by simp
    with False show ?thesis
      by (subst hexOfNat.simps) (simp add: parseHex_snoc hexValue_hexDigit)
  qed
qed

lemma parseHex_zeros: "parseHex (replicate m (CHR ''0'') @ s) 0 = parseHex s 0"
  by (induction m) (auto simp: hexValue_def)

lemma set_hexOfNat: "c \<in> set (hexOfNat k) \<Longrightarrow> \<exists>d. c = hexDigit d"
proof (induction k arbitrary: c rule: hexOfNat.induct)
  case (1 k)
  show ?case
  proof (cases "k = 0")
    case True
    with 1(2) show ?thesis by (simp add: hexOfNat.simps)
  next
    case False
    with 1(2) have "c \<in> set (hexOfNat (k div 16)) \<or> c = hexDigit (k mod 16)"
      by (subst (asm) hexOfNat.simps) auto
    with 1(1) [OF False] show ?thesis by blast
  qed
qed

lemma toString16_chars:
  assumes "0 \<le> x" and "c \<in> set (toString16 x)"
  shows "\<exists>d. c = hexDigit d"
proof -
  from assms have "c = hexDigit 0 \<or> c \<in> set (hexOfNat (nat x))"
    by (auto simp: toString16_def hexDigit_table split: if_splits)
  then show ?thesis
    using set_hexOfNat by blast
qed

lemma parseHex_toString16: "0 \<le> x \<Longrightarrow> parseHex (toString16 x) 0 = Some (nat x)"
  by (simp add: toString16_def parseHex_hexOfNat hexValue_def)

lemma BN16_digits:
  assumes digits: "\<forall>c \<in> set str. \<exists>d. c = hexDigit d"
  shows "BN16 str = map_option (\<lambda>v. Number (int v)) (parseHex str 0)"
proof -
  have flt: "filter (\<lambda>c. \<not> isSpace c) str = str"
    using digits isSpace_hexDigit by (auto simp: filter_id_conv)
  show ?thesis
  proof (cases str)
    case Nil
    then show ?thesis by (simp add: BN16_def)
  next
    case (Cons c rest)
    with digits have "c \<noteq> CHR ''-''"
      using hexDigit_not_minus by auto
    with Cons show ?thesis
      unfolding BN16_def flt Let_def by simp
  qed
qed

lemma BN16_toString16: "0 \<le> x \<Longrightarrow> BN16 (toString16 x) = Some (Number x)"
  using BN16_digits [of "toString16 x"] toString16_chars [of x]
  by (simp add: parseHex_toString16)

lemma BN16_hex64: "0 \<le> x \<Longrightarrow> BN16 (hex64 x) = Some (Number x)"
proof -
  assume x: "0 \<le> x"
  have "\<forall>c \<in> set (hex64 x). \<exists>d. c = hexDigit d"
    using toString16_chars [OF x] hexDigit_table(1)
    by (auto simp: hex64_def padStart_def) metis
  then have "BN16 (hex64 x) = map_option (\<lambda>v. Number (int v)) (parseHex (hex64 x) 0)"
    by (rule BN16_digits)
  with x show ?thesis
    by (simp add: hex64_def padStart_def parseHex_zeros parseHex_toString16)
qed

subsection \<open>Combination: what a returned signature tells about the input\<close>

lemma combine_Inr_iff:
  "combinePartialSignatures self message sigs now = Inr cs \<longleftrightarrow>
     (\<exists>first rest rBN s0.
        sigs = first # rest \<and>
        \<not> int (length sigs) < threshold self \<and>
        (\<forall>sg \<in> set sigs. ps_r sg = ps_r first) \<and>
        (\<forall>sg \<in> set sigs. ps_partyId sg \<in> {1..totalParties self}) \<and>
        \<not> int (length (remdups (map ps_partyId sigs))) < threshold self \<and>
        BN16 (ps_r first) = Some rBN \<and>
        sum_loop self (map ps_partyId (select_loop (threshold self) sigs [] []))
          (select_loop (threshold self) sigs [] []) [0..<nat (threshold self)] 0 = Inr s0 \<and>
        cs = \<lparr>cs_r = padStart 64 (CHR ''0'') (bn_toString16 rBN),
              cs_s = hex64 (if s0 > groupOrder self div 2 then groupOrder self - s0 else s0),
              cs_message = message,
              cs_messageHash = ps_messageHash first,
              cs_participatingParties = map ps_partyId (select_loop (threshold self) sigs [] []),
              cs_sessionId = ps_sessionId first,
              cs_timestamp = now,
              cs_securityGuarantee = ''Private key was never reconstructed during signing''\<rparr>)"
  unfolding combinePartialSignatures_def combine_try_def Let_def list_ex_iff list_all_iff
  by (cases sigs) (auto split: if_splits option.splits sum.splits)

text \<open>
  Claim C3. \<^verbatim>\<open>combinePartialSignatures\<close> checks its input in a fixed order, and each check has
  an error of its own: fewer signatures than the threshold; else a signature whose \<open>r\<close> is not
  that of the first one; else a party id outside \<open>1..totalParties\<close>; else fewer distinct party
  ids than the threshold. Each case is stated with nothing assumed about the later checks, so an
  earlier failure hides every later one, and in each case the result is an error, never a
  signature.
\<close>

theorem combine_validation_order:
  "(int (length sigs) < threshold self \<longrightarrow>
      combinePartialSignatures self message sigs now = Inl (AtLeastRequired (threshold self)))
   \<and> (\<not> int (length sigs) < threshold self \<and> (\<exists>sg \<in> set sigs. ps_r sg \<noteq> ps_r (hd sigs)) \<longrightarrow>
      combinePartialSignatures self message sigs now = Inl (FailedToCombine SameRValue))
   \<and> (\<not> int (length sigs) < threshold self \<and> (\<forall>sg \<in> set sigs. ps_r sg = ps_r (hd sigs))
        \<and> (\<exists>sg \<in> set sigs. ps_partyId sg \<notin> {1..totalParties self}) \<longrightarrow>
      combinePartialSignatures self message sigs now = Inl (FailedToCombine InvalidParties))
   \<and> (\<not> int (length sigs) < threshold self \<and> (\<forall>sg \<in> set sigs. ps_r sg = ps_r (hd sigs))
        \<and> (\<forall>sg \<in> set sigs. ps_partyId sg \<in> {1..totalParties self})
        \<and> int (card (ps_partyId ` set sigs)) < threshold self \<longrightarrow>
      combinePartialSignatures self message sigs now =
        Inl (FailedToCombine (NeedUnique (threshold self) (card (ps_partyId ` set sigs)))))"
proof -
  have card: "length (remdups (map ps_partyId sigs)) = card (ps_partyId ` set sigs)"
    by (simp add: length_remdups_card_conv)
  show ?thesis
    unfolding combinePartialSignatures_def combine_try_def Let_def list_ex_iff list_all_iff card
    by (cases sigs) auto
qed

text \<open>
  The four cases on the 3-of-5 signer. The first input is short and also has two values of
  \<open>r\<close> and a foreign party; the second has two values of \<open>r\<close>, a foreign party and a repeated
  one; the third has a foreign party and a repeated one; the last is one party three times.
\<close>

theorem combine_validation_order_witness:
  "(int (length [demo_partial 1 ''0a'' ''11'' ''s'', demo_partial 9 ''0b'' ''22'' ''s''])
      < threshold demo_tss
    \<and> combinePartialSignatures demo_tss ''m''
        [demo_partial 1 ''0a'' ''11'' ''s'', demo_partial 9 ''0b'' ''22'' ''s''] ''now''
      = Inl (AtLeastRequired 3))
   \<and> ((\<exists>sg \<in> set [demo_partial 1 ''0a'' ''11'' ''s'', demo_partial 9 ''0b'' ''22'' ''s'',
                  demo_partial 1 ''0a'' ''11'' ''s''].
         ps_r sg \<noteq> ps_r (demo_partial 1 ''0a'' ''11'' ''s''))
    \<and> combinePartialSignatures demo_tss ''m''
        [demo_partial 1 ''0a'' ''11'' ''s'', demo_partial 9 ''0b'' ''22'' ''s'',
         demo_partial 1 ''0a'' ''11'' ''s''] ''now''
      = Inl (FailedToCombine SameRValue))
   \<and> ((\<exists>sg \<in> set [demo_partial 1 ''0a'' ''11'' ''s'', demo_partial 9 ''0a'' ''22'' ''s'',
                  demo_partial 1 ''0a'' ''11'' ''s''].
         ps_partyId sg \<notin> {1..totalParties demo_tss})
    \<and> combinePartialSignatures demo_tss ''m''
        [demo_partial 1 ''0a'' ''11'' ''s'', demo_partial 9 ''0a'' ''22'' ''s'',
         demo_partial 1 ''0a'' ''11'' ''s''] ''now''
      = Inl (FailedToCombine InvalidParties))
   \<and> (int (card (ps_partyId ` set [demo_partial 1 ''0a'' ''11'' ''s'',
         demo_partial 1 ''0a'' ''11'' ''s'', demo_partial 1 ''0a'' ''11'' ''s'']))
      < threshold demo_tss
    \<and> combinePartialSignatures demo_tss ''m''
        [demo_partial 1 ''0a'' ''11'' ''s'', demo_partial 1 ''0a'' ''11'' ''s'',
         demo_partial 1 ''0a'' ''11'' ''s''] ''now''
      = Inl (FailedToCombine (NeedUnique 3 1)))"
proof -
  let ?a = "demo_partial 1 ''0a'' ''11'' ''s''"
  let ?b = "demo_partial 9 ''0b'' ''22'' ''s''"
  let ?c = "demo_partial 9 ''0a'' ''22'' ''s''"
  have t: "threshold demo_tss = 3"
    by (simp add: demo_tss_def)
  have k: "card (ps_partyId ` set [?a, ?a, ?a]) = 1"
    by simp
  have h1: "int (length [?a, ?b]) < threshold demo_tss"
    by (simp add: demo_tss_def)
  have e2: "\<exists>sg \<in> set [?a, ?b, ?a]. ps_r sg \<noteq> ps_r ?a"
    by (simp add: demo_partial_def)
  have h2: "\<not> int (length [?a, ?b, ?a]) < threshold demo_tss
             \<and> (\<exists>sg \<in> set [?a, ?b, ?a]. ps_r sg \<noteq> ps_r (hd [?a, ?b, ?a]))"
    by (simp add: demo_tss_def demo_partial_def)
  have e3: "\<exists>sg \<in> set [?a, ?c, ?a]. ps_partyId sg \<notin> {1..totalParties demo_tss}"
    by (simp add: demo_tss_def demo_partial_def)
  have h3: "\<not> int (length [?a, ?c, ?a]) < threshold demo_tss
             \<and> (\<forall>sg \<in> set [?a, ?c, ?a]. ps_r sg = ps_r (hd [?a, ?c, ?a]))
             \<and> (\<exists>sg \<in> set [?a, ?c, ?a]. ps_partyId sg \<notin> {1..totalParties demo_tss})"
    by (simp add: demo_tss_def demo_partial_def)
  have e4: "int (card (ps_partyId ` set [?a, ?a, ?a])) < threshold demo_tss"
    by (simp add: demo_tss_def)
  have h4: "\<not> int (length [?a, ?a, ?a]) < threshold demo_tss
             \<and> (\<forall>sg \<in> set [?a, ?a, ?a]. ps_r sg = ps_r (hd [?a, ?a, ?a]))
             \<and> (\<forall>sg \<in> set [?a, ?a, ?a]. ps_partyId sg \<in> {1..totalParties demo_tss})
             \<and> int (card (ps_partyId ` set [?a, ?a, ?a])) < threshold demo_tss"
    by (simp add: demo_tss_def demo_partial_def)
  note order = combine_validation_order [where self = demo_tss and message = "''m''"
      and now = "''now''"]
  have c1: "combinePartialSignatures demo_tss ''m'' [?a, ?b] ''now''
              = Inl (AtLeastRequired (threshold demo_tss))"
    by (rule order [of "[?a, ?b]", THEN conjunct1, THEN mp, OF h1])
  have c2: "combinePartialSignatures demo_tss ''m'' [?a, ?b, ?a] ''now''
              = Inl (FailedToCombine SameRValue)"
    by (rule order [of "[?a, ?b, ?a]", THEN conjunct2, THEN conjunct1, THEN mp, OF h2])
  have c3: "combinePartialSignatures demo_tss ''m'' [?a, ?c, ?a] ''now''
              = Inl (FailedToCombine InvalidParties)"
    by (rule order [of "[?a, ?c, ?a]", THEN conjunct2, THEN conjunct2, THEN conjunct1, THEN mp,
          OF h3])
  have c4: "combinePartialSignatures demo_tss ''m'' [?a, ?a, ?a] ''now''
              = Inl (FailedToCombine (NeedUnique (threshold demo_tss)
                       (card (ps_partyId ` set [?a, ?a, ?a]))))"
    by (rule order [of "[?a, ?a, ?a]", THEN conjunct2, THEN conjunct2, THEN conjunct2, THEN mp,
          OF h4])
  show ?thesis
    by (intro conjI h1 e2 e3 e4 c1 [unfolded t] c2 c3 c4 [unfolded t k])
qed

lemma combine_InrE:
  assumes "combinePartialSignatures self message sigs now = Inr cs"
  obtains first rest rBN s0 where
    "sigs = first # rest"
    "\<not> int (length sigs) < threshold self"
    "\<forall>sg \<in> set sigs. ps_r sg = ps_r first"
    "\<forall>sg \<in> set sigs. ps_partyId sg \<in> {1..totalParties self}"
    "\<not> int (length (remdups (map ps_partyId sigs))) < threshold self"
    "BN16 (ps_r first) = Some rBN"
    "sum_loop self (map ps_partyId (select_loop (threshold self) sigs [] []))
          (select_loop (threshold self) sigs [] []) [0..<nat (threshold self)] 0 = Inr s0"
    "cs = \<lparr>cs_r = padStart 64 (CHR ''0'') (bn_toString16 rBN),
              cs_s = hex64 (if s0 > groupOrder self div 2 then groupOrder self - s0 else s0),
              cs_message = message,
              cs_messageHash = ps_messageHash first,
              cs_participatingParties = map ps_partyId (select_loop (threshold self) sigs [] []),
              cs_sessionId = ps_sessionId first,
              cs_timestamp = now,
              cs_securityGuarantee = ''Private key was never reconstructed during signing''\<rparr>"
proof -
  from assms obtain first rest rBN s0 where
    "sigs = first # rest \<and>
        \<not> int (length sigs) < threshold self \<and>
        (\<forall>sg \<in> set sigs. ps_r sg = ps_r first) \<and>
        (\<forall>sg \<in> set sigs. ps_partyId sg \<in> {1..totalParties self}) \<and>
        \<not> int (length (remdups (map ps_partyId sigs))) < threshold self \<and>
        BN16 (ps_r first) = Some rBN \<and>
        sum_loop self (map ps_partyId (select_loop (threshold self) sigs [] []))
          (select_loop (threshold self) sigs [] []) [0..<nat (threshold self)] 0 = Inr s0 \<and>
        cs = \<lparr>cs_r = padStart 64 (CHR ''0'') (bn_toString16 rBN),
              cs_s = hex64 (if s0 > groupOrder self div 2 then groupOrder self - s0 else s0),
              cs_message = message,
              cs_messageHash = ps_messageHash first,
              cs_participatingParties = map ps_partyId (select_loop (threshold self) sigs [] []),
              cs_sessionId = ps_sessionId first,
              cs_timestamp = now,
              cs_securityGuarantee = ''Private key was never reconstructed during signing''\<rparr>"
    unfolding combine_Inr_iff by (elim exE) 
  then show ?thesis
    by (intro that [of first rest rBN s0]) (elim conjE, assumption)+
qed

lemma combine_InrI:
  assumes "sigs = first # rest"
    "\<not> int (length sigs) < threshold self"
    "\<forall>sg \<in> set sigs. ps_r sg = ps_r first"
    "\<forall>sg \<in> set sigs. ps_partyId sg \<in> {1..totalParties self}"
    "\<not> int (length (remdups (map ps_partyId sigs))) < threshold self"
    "BN16 (ps_r first) = Some rBN"
    "sum_loop self (map ps_partyId (select_loop (threshold self) sigs [] []))
          (select_loop (threshold self) sigs [] []) [0..<nat (threshold self)] 0 = Inr s0"
    "cs = \<lparr>cs_r = padStart 64 (CHR ''0'') (bn_toString16 rBN),
              cs_s = hex64 (if s0 > groupOrder self div 2 then groupOrder self - s0 else s0),
              cs_message = message,
              cs_messageHash = ps_messageHash first,
              cs_participatingParties = map ps_partyId (select_loop (threshold self) sigs [] []),
              cs_sessionId = ps_sessionId first,
              cs_timestamp = now,
              cs_securityGuarantee = ''Private key was never reconstructed during signing''\<rparr>"
  shows "combinePartialSignatures self message sigs now = Inr cs"
  unfolding combine_Inr_iff
  by (intro exI [of _ first] exI [of _ rest] exI [of _ rBN] exI [of _ s0] conjI assms)

subsection \<open>Evaluation on the small signer\<close>


lemma small_combine:
  "combinePartialSignatures small_tss ''m'' small_sigs ''now'' = Inr small_combined"
  by code_simp

lemma small_combine_selected:
  "take (nat (threshold small_tss)) (first_seen small_sigs) = small_selected"
  by code_simp

lemma small_combine_other:
  "combinePartialSignatures small_tss ''m'' small_other ''now'' = Inr small_combined"
  "take (nat (threshold small_tss)) (first_seen small_other) = small_selected"
  by code_simp+

subsection \<open>Canonical form of \<open>s\<close>\<close>

lemma sum_loop_range:
  assumes "0 < groupOrder self"
  shows "sum_loop self ids usigs idxs s = Inr s0 \<Longrightarrow> 0 \<le> s \<Longrightarrow> s < groupOrder self
           \<Longrightarrow> 0 \<le> s0 \<and> s0 < groupOrder self"
proof (induction idxs arbitrary: s)
  case Nil
  then show ?case by simp
next
  case (Cons i idxs)
  from Cons.prems(1) obtain si where
    run: "sum_loop self ids usigs idxs
            ((s + (lagrangeCoefficient self (ids ! i) ids * si) mod groupOrder self)
               mod groupOrder self) = Inr s0"
    by (auto simp: Let_def split: if_splits option.splits bn.splits)
  show ?case
    by (rule Cons.IH [OF run]) (use assms in simp_all)
qed

lemma low_s_bound:
  fixes m :: int
  assumes "0 < m" "0 \<le> s" "s < m"
  shows "0 \<le> (if m div 2 < s then m - s else s) \<and> (if m div 2 < s then m - s else s) \<le> m div 2"
  using assms by auto

text \<open>
  Claim C5. In every signature that \<^verbatim>\<open>combinePartialSignatures\<close> returns, \<open>s\<close> is at most
  half the group order: the weighted sum \<open>s0\<close> of the loop is replaced by \<open>groupOrder - s0\<close>
  when it exceeds \<open>groupOrder div 2\<close> and is kept otherwise, and the field \<open>s\<close> is the
  hexadecimal text of that number. The group order is positive.
\<close>

theorem combine_low_s:
  assumes ok: "combinePartialSignatures self message sigs now = Inr cs"
    and pos: "0 < groupOrder self"
  shows "\<exists>s0 sv.
           sum_loop self (cs_participatingParties cs) (select_loop (threshold self) sigs [] [])
             [0..<nat (threshold self)] 0 = Inr s0
           \<and> sv = (if groupOrder self div 2 < s0 then groupOrder self - s0 else s0)
           \<and> cs_s cs = hex64 sv \<and> BN16 (cs_s cs) = Some (Number sv)
           \<and> 0 \<le> sv \<and> sv \<le> groupOrder self div 2"
proof -
  from ok obtain s0 where
    run: "sum_loop self (map ps_partyId (select_loop (threshold self) sigs [] []))
            (select_loop (threshold self) sigs [] []) [0..<nat (threshold self)] 0 = Inr s0"
    and s: "cs_s cs = hex64 (if groupOrder self div 2 < s0 then groupOrder self - s0 else s0)"
    and ids: "cs_participatingParties cs = map ps_partyId (select_loop (threshold self) sigs [] [])"
    unfolding combine_Inr_iff by auto
  from sum_loop_range [OF pos run] pos have "0 \<le> s0" "s0 < groupOrder self"
    by simp_all
  with pos have bound:
    "0 \<le> (if groupOrder self div 2 < s0 then groupOrder self - s0 else s0)
     \<and> (if groupOrder self div 2 < s0 then groupOrder self - s0 else s0) \<le> groupOrder self div 2"
    by (intro low_s_bound)
  with run s ids show ?thesis
    by (auto simp: BN16_hex64 simp del: One_nat_def)
qed

text \<open>On the small signer the sum is 133, above 125, and \<open>s\<close> becomes \<open>251 - 133 = 118\<close>.\<close>

theorem combine_low_s_witness:
  "combinePartialSignatures small_tss ''m'' small_sigs ''now'' = Inr small_combined
   \<and> 0 < groupOrder small_tss
   \<and> sum_loop small_tss (cs_participatingParties small_combined)
        (select_loop (threshold small_tss) small_sigs [] []) [0..<nat (threshold small_tss)] 0
       = Inr 133
   \<and> groupOrder small_tss div 2 < 133
   \<and> cs_s small_combined = hex64 (groupOrder small_tss - 133)
   \<and> BN16 (cs_s small_combined) = Some (Number 118)
   \<and> (118 :: int) \<le> groupOrder small_tss div 2"
proof -
  have pos: "0 < groupOrder small_tss"
    by (simp add: small_tss_def)
  have run: "sum_loop small_tss (cs_participatingParties small_combined)
        (select_loop (threshold small_tss) small_sigs [] []) [0..<nat (threshold small_tss)] 0
       = Inr 133"
    by code_simp
  from combine_low_s [OF small_combine pos] obtain s0 sv where
    "sum_loop small_tss (cs_participatingParties small_combined)
        (select_loop (threshold small_tss) small_sigs [] []) [0..<nat (threshold small_tss)] 0
       = Inr s0"
    and sv: "sv = (if groupOrder small_tss div 2 < s0 then groupOrder small_tss - s0 else s0)"
    and s: "cs_s small_combined = hex64 sv"
    and bn: "BN16 (cs_s small_combined) = Some (Number sv)"
    and le: "sv \<le> groupOrder small_tss div 2"
    by blast
  with run have s0: "s0 = 133" by simp
  have half: "groupOrder small_tss div 2 < 133"
    by (simp add: small_tss_def)
  with sv s0 have sv': "sv = groupOrder small_tss - 133" by simp
  then have "sv = 118" by (simp add: small_tss_def)
  with small_combine pos run half s bn le sv' show ?thesis
    by simp
qed

subsection \<open>Selection of the signatures\<close>

lemma first_seen_ids:
  "set (map ps_partyId (first_seen xs)) = ps_partyId ` set xs \<and> distinct (map ps_partyId (first_seen xs))
   \<and> set (first_seen xs) \<subseteq> set xs"
  by (induction xs rule: first_seen.induct) auto

lemma length_first_seen: "length (first_seen xs) = card (ps_partyId ` set xs)"
proof -
  have "card (set (map ps_partyId (first_seen xs))) = length (map ps_partyId (first_seen xs))"
    using first_seen_ids [of xs] by (intro distinct_card) blast
  moreover have "set (map ps_partyId (first_seen xs)) = ps_partyId ` set xs"
    using first_seen_ids [of xs] by blast
  ultimately show ?thesis by simp
qed

lemma first_seen_distinct: "distinct (map ps_partyId xs) \<Longrightarrow> first_seen xs = xs"
proof (induction xs)
  case Nil
  then show ?case by simp
next
  case (Cons x xs)
  from Cons.prems have "ps_partyId x \<notin> ps_partyId ` set xs"
    by simp
  then have "\<forall>y \<in> set xs. ps_partyId y \<noteq> ps_partyId x"
    by (metis imageI)
  then have "filter (\<lambda>y. ps_partyId y \<noteq> ps_partyId x) xs = xs"
    by (simp add: filter_id_conv)
  with Cons show ?case by simp
qed

lemma select_loop_first_seen:
  "int (length uniq) < t \<Longrightarrow>
     select_loop t sigs uniq used =
       take (nat t) (uniq @ first_seen (filter (\<lambda>s. ps_partyId s \<notin> set used) sigs))"
proof (induction sigs arbitrary: uniq used)
  case Nil
  then show ?case by simp
next
  case (Cons sg rest)
  show ?case
  proof (cases "ps_partyId sg \<in> set used")
    case True
    with Cons show ?thesis by simp
  next
    case fresh: False
    have flt: "filter (\<lambda>s. ps_partyId s \<notin> set (used @ [ps_partyId sg])) rest =
          filter (\<lambda>y. ps_partyId y \<noteq> ps_partyId sg) (filter (\<lambda>s. ps_partyId s \<notin> set used) rest)"
      by (auto intro: filter_cong)
    show ?thesis
    proof (cases "int (length (uniq @ [sg])) = t")
      case True
      then have "nat t = length uniq + 1" by auto
      with fresh True show ?thesis by (simp add: Let_def)
    next
      case False
      with Cons.prems have "int (length (uniq @ [sg])) < t" by simp
      from Cons.IH [OF this, of "used @ [ps_partyId sg]"]
      have "select_loop t rest (uniq @ [sg]) (used @ [ps_partyId sg]) =
              take (nat t) (uniq @ sg # first_seen (filter (\<lambda>y. ps_partyId y \<noteq> ps_partyId sg)
                 (filter (\<lambda>s. ps_partyId s \<notin> set used) rest)))"
        unfolding flt by simp
      with fresh False show ?thesis
        by (simp add: Let_def del: filter_filter)
    qed
  qed
qed

lemma select_loop_spec:
  "1 \<le> t \<Longrightarrow> select_loop t sigs [] [] = take (nat t) (first_seen sigs)"
  using select_loop_first_seen [of "[]" t sigs "[]"] by simp

lemma selection_props:
  assumes t: "1 \<le> t" and enough: "\<not> int (length (remdups (map ps_partyId sigs))) < t"
  shows "int (length (take (nat t) (first_seen sigs))) = t"
    and "distinct (map ps_partyId (take (nat t) (first_seen sigs)))"
    and "set (take (nat t) (first_seen sigs)) \<subseteq> set sigs"
proof -
  have "length (remdups (map ps_partyId sigs)) = length (first_seen sigs)"
    by (simp add: length_first_seen length_remdups_card_conv)
  with enough t show "int (length (take (nat t) (first_seen sigs))) = t"
    by simp
  show "distinct (map ps_partyId (take (nat t) (first_seen sigs)))"
    using first_seen_ids [of sigs] by (simp add: take_map [symmetric] del: set_map)
  show "set (take (nat t) (first_seen sigs)) \<subseteq> set sigs"
    using first_seen_ids [of sigs] set_take_subset [of "nat t" "first_seen sigs"] by blast
qed

text \<open>
  Claim C4. When the checks pass (the threshold being at least 1, as the constructor ensures),
  the parties of the returned signature are the first \<open>threshold\<close> entries of the first-seen
  list of the input, in that order; there are exactly \<open>threshold\<close> of them and they are
  distinct. Nothing else of the input matters: combining the selected signatures alone returns
  the same signature, and so does every accepted input with the same selection.
\<close>

theorem combine_selection:
  assumes ok: "combinePartialSignatures self message sigs now = Inr cs"
    and t: "1 \<le> threshold self"
  shows "cs_participatingParties cs
           = map ps_partyId (take (nat (threshold self)) (first_seen sigs))
       \<and> int (length (cs_participatingParties cs)) = threshold self
       \<and> distinct (cs_participatingParties cs)
       \<and> combinePartialSignatures self message
            (take (nat (threshold self)) (first_seen sigs)) now = Inr cs
       \<and> (\<forall>sigs' cs'.
             combinePartialSignatures self message sigs' now = Inr cs'
             \<and> take (nat (threshold self)) (first_seen sigs')
                 = take (nat (threshold self)) (first_seen sigs)
             \<longrightarrow> cs' = cs)"
proof -
  define U where "U = take (nat (threshold self)) (first_seen sigs)"
  have sel: "select_loop (threshold self) xs [] [] = take (nat (threshold self)) (first_seen xs)"
    for xs by (rule select_loop_spec [OF t])
  from ok obtain first rest rBN s0 where
    sigs: "sigs = first # rest"
    and r: "\<forall>sg \<in> set sigs. ps_r sg = ps_r first"
    and ids: "\<forall>sg \<in> set sigs. ps_partyId sg \<in> {1..totalParties self}"
    and enough: "\<not> int (length (remdups (map ps_partyId sigs))) < threshold self"
    and rBN: "BN16 (ps_r first) = Some rBN"
    and run: "sum_loop self (map ps_partyId U) U [0..<nat (threshold self)] 0 = Inr s0"
    and cs: "cs = \<lparr>cs_r = padStart 64 (CHR ''0'') (bn_toString16 rBN),
              cs_s = hex64 (if s0 > groupOrder self div 2 then groupOrder self - s0 else s0),
              cs_message = message,
              cs_messageHash = ps_messageHash first,
              cs_participatingParties = map ps_partyId U,
              cs_sessionId = ps_sessionId first,
              cs_timestamp = now,
              cs_securityGuarantee = ''Private key was never reconstructed during signing''\<rparr>"
    unfolding U_def sel [symmetric] by (rule combine_InrE)
  note props = selection_props [OF t enough, folded U_def]
  have lenU: "int (length U) = threshold self" by (rule props(1))
  have distU: "distinct (map ps_partyId U)" by (rule props(2))
  have subU: "set U \<subseteq> set sigs" by (rule props(3))
  from t sigs obtain U' where U: "U = first # U'"
    by (cases "nat (threshold self)") (auto simp: U_def)
  have p1: "cs_participatingParties cs = map ps_partyId U"
    by (simp add: cs)
  have p2: "int (length (cs_participatingParties cs)) = threshold self"
    by (simp add: cs lenU)
  have p3: "distinct (cs_participatingParties cs)"
    unfolding p1 by (rule distU)
  have selU: "select_loop (threshold self) U [] [] = U"
    using lenU by (simp add: sel first_seen_distinct [OF distU])
  have "length (remdups (map ps_partyId U)) = length U"
    using distU by (simp add: distinct_remdups_id del: distinct_map)
  with lenU have enoughU: "\<not> int (length (remdups (map ps_partyId U))) < threshold self"
    by simp
  have p4: "combinePartialSignatures self message U now = Inr cs"
  proof (rule combine_InrI [where first = first and rest = U' and rBN = rBN and ?s0.0 = s0])
    show "U = first # U'" by (rule U)
    show "\<not> int (length U) < threshold self" using lenU by simp
    show "\<forall>sg \<in> set U. ps_r sg = ps_r first" using r subU by blast
    show "\<forall>sg \<in> set U. ps_partyId sg \<in> {1..totalParties self}" using ids subU by blast
    show "\<not> int (length (remdups (map ps_partyId U))) < threshold self" by (rule enoughU)
    show "BN16 (ps_r first) = Some rBN" by (rule rBN)
    show "sum_loop self (map ps_partyId (select_loop (threshold self) U [] []))
            (select_loop (threshold self) U [] []) [0..<nat (threshold self)] 0 = Inr s0"
      unfolding selU by (rule run)
    show "cs = \<lparr>cs_r = padStart 64 (CHR ''0'') (bn_toString16 rBN),
              cs_s = hex64 (if s0 > groupOrder self div 2 then groupOrder self - s0 else s0),
              cs_message = message,
              cs_messageHash = ps_messageHash first,
              cs_participatingParties = map ps_partyId (select_loop (threshold self) U [] []),
              cs_sessionId = ps_sessionId first,
              cs_timestamp = now,
              cs_securityGuarantee = ''Private key was never reconstructed during signing''\<rparr>"
      unfolding selU by (rule cs)
  qed
  have p5: "cs' = cs"
    if ok': "combinePartialSignatures self message sigs' now = Inr cs'"
      and same: "take (nat (threshold self)) (first_seen sigs') = U" for sigs' cs'
  proof -
    have sel': "select_loop (threshold self) sigs' [] [] = U"
      by (simp add: sel same)
    from ok' obtain first' rest' rBN' s0' where
      sigs': "sigs' = first' # rest'"
      and rBN': "BN16 (ps_r first') = Some rBN'"
      and run': "sum_loop self (map ps_partyId U) U [0..<nat (threshold self)] 0 = Inr s0'"
      and cs': "cs' = \<lparr>cs_r = padStart 64 (CHR ''0'') (bn_toString16 rBN'),
              cs_s = hex64 (if s0' > groupOrder self div 2 then groupOrder self - s0' else s0'),
              cs_message = message,
              cs_messageHash = ps_messageHash first',
              cs_participatingParties = map ps_partyId U,
              cs_sessionId = ps_sessionId first',
              cs_timestamp = now,
              cs_securityGuarantee = ''Private key was never reconstructed during signing''\<rparr>"
      unfolding sel' [symmetric] by (rule combine_InrE)
    from t sigs' same U have "first' = first"
      by (cases "nat (threshold self)") auto
    with rBN rBN' run run' have "rBN' = rBN" "s0' = s0" by simp_all
    with \<open>first' = first\<close> show ?thesis
      unfolding cs cs' by simp
  qed
  show ?thesis
    unfolding U_def [symmetric]
    using p1 p2 p3 p4 p5 by (intro conjI allI impI) (assumption | elim conjE)+
qed

text \<open>
  On the small signer the input \<open>small_sigs\<close> and the input \<open>small_other\<close> both select
  parties 2, 5, 1 and return the same signature, as do the three selected signatures alone.
\<close>

theorem combine_selection_witness:
  "combinePartialSignatures small_tss ''m'' small_sigs ''now'' = Inr small_combined
   \<and> 1 \<le> threshold small_tss
   \<and> cs_participatingParties small_combined = map ps_partyId small_selected
   \<and> int (length (cs_participatingParties small_combined)) = threshold small_tss
   \<and> distinct (cs_participatingParties small_combined)
   \<and> combinePartialSignatures small_tss ''m'' small_selected ''now'' = Inr small_combined
   \<and> combinePartialSignatures small_tss ''m'' small_other ''now'' = Inr small_combined
   \<and> take (nat (threshold small_tss)) (first_seen small_other)
       = take (nat (threshold small_tss)) (first_seen small_sigs)"
proof -
  have t: "1 \<le> threshold small_tss"
    by (simp add: small_tss_def)
  note c = combine_selection [OF small_combine t, unfolded small_combine_selected]
  from c have "cs_participatingParties small_combined = map ps_partyId small_selected"
    and "int (length (cs_participatingParties small_combined)) = threshold small_tss"
    and "distinct (cs_participatingParties small_combined)"
    and "combinePartialSignatures small_tss ''m'' small_selected ''now'' = Inr small_combined"
    by blast+
  with small_combine t small_combine_other show ?thesis
    unfolding small_combine_selected by blast
qed

subsection \<open>What the combined signatures have in common\<close>




subsection \<open>Verification\<close>

lemma verify_try_cases:
  "verify_try ext signature publicKey now =
     (if SHA256_toString ext (cs_message signature) \<noteq> cs_messageHash signature
      then Inr (Rejected MessageHashMismatch)
      else case BN16 (cs_r signature) of
        None \<Rightarrow> Inl (InvalidCharacter (cs_r signature))
      | Some r \<Rightarrow>
      (case BN16 (cs_s signature) of
        None \<Rightarrow> Inl (InvalidCharacter (cs_s signature))
      | Some s \<Rightarrow>
      (case keyFromPublic ext publicKey of
        Inl msg \<Rightarrow> Inr (Rejected (InvalidPublicKeyFormat msg))
      | Inr key \<Rightarrow>
      (case key_verify ext key (cs_messageHash signature) r s of
        Inl msg \<Rightarrow> Inl (LibraryError msg)
      | Inr isValid \<Rightarrow>
          if isValid
          then Inr (Accepted (cs_message signature) publicKey now
                      (cs_participatingParties signature))
          else Inr (Rejected SignatureVerificationFailed)))))"
  by (cases "SHA256_toString ext (cs_message signature) = cs_messageHash signature")
    (simp_all add: verify_try_def Let_def)

text \<open>
  Claim C7 says that \<^verbatim>\<open>verifySignature\<close> returns the invalid-public-key reason whenever the hash
  matches and the public key fails to decode. The function reads \<open>r\<close> and \<open>s\<close> with
  \<^verbatim>\<open>new BN\<close> before it decodes the key: for a signature with a matching hash whose \<open>r\<close> is
  \<^verbatim>\<open>0x07\<close>, and the public key \<^verbatim>\<open>zz\<close>, which does not decode, the result is the rejection
  \<^verbatim>\<open>Verification error: Invalid character\<close>.
\<close>

theorem verifySignature_invalid_key_counterexample:
  "SHA256_toString toy_ext (cs_message (toy_signature\<lparr>cs_r := ''0x07''\<rparr>))
     = cs_messageHash (toy_signature\<lparr>cs_r := ''0x07''\<rparr>)
   \<and> keyFromPublic toy_ext ''zz'' = Inl ''Unknown point format''
   \<and> verifySignature toy_ext (toy_signature\<lparr>cs_r := ''0x07''\<rparr>) ''zz'' ''later''
       = Inr (Rejected (VerificationError (InvalidCharacter ''0x07'')))"
  by code_simp

text \<open>
  Claim C7, amended. \<^verbatim>\<open>verifySignature\<close> never throws: whatever the libraries do, it returns a
  result object, and the cases are decided in this order. When the hash of the message differs
  from the recorded hash, the result is the hash-mismatch rejection, whatever \<open>r\<close>, \<open>s\<close> and the
  public key are. When the hash matches and \<open>r\<close> is refused by \<^verbatim>\<open>new BN\<close>, or \<open>r\<close> is read and
  \<open>s\<close> is refused, the result is the rejection \<^verbatim>\<open>Verification error: Invalid character\<close>,
  whatever the public key is. When the hash matches, \<open>r\<close> and \<open>s\<close> are read and the public key
  does not decode, the result is the invalid-public-key rejection with the library's message.
  When the key decodes, the result follows the ECDSA check: the verification-failed rejection
  when it answers no, the rejection \<^verbatim>\<open>Verification error\<close> with the library's message when it
  throws, and the accepting result with the message, the public key, the time of the call and
  the participants when it answers yes.
\<close>

theorem verifySignature_structured_result:
  "(\<exists>result. verifySignature ext signature publicKey now = Inr result)
   \<and> (SHA256_toString ext (cs_message signature) \<noteq> cs_messageHash signature \<longrightarrow>
        verifySignature ext signature publicKey now = Inr (Rejected MessageHashMismatch))
   \<and> (SHA256_toString ext (cs_message signature) = cs_messageHash signature
        \<and> BN16 (cs_r signature) = None \<longrightarrow>
        verifySignature ext signature publicKey now
          = Inr (Rejected (VerificationError (InvalidCharacter (cs_r signature)))))
   \<and> (SHA256_toString ext (cs_message signature) = cs_messageHash signature
        \<and> BN16 (cs_r signature) = Some r \<and> BN16 (cs_s signature) = None \<longrightarrow>
        verifySignature ext signature publicKey now
          = Inr (Rejected (VerificationError (InvalidCharacter (cs_s signature)))))
   \<and> (SHA256_toString ext (cs_message signature) = cs_messageHash signature
        \<and> BN16 (cs_r signature) = Some r \<and> BN16 (cs_s signature) = Some s
        \<and> keyFromPublic ext publicKey = Inl msg \<longrightarrow>
        verifySignature ext signature publicKey now = Inr (Rejected (InvalidPublicKeyFormat msg)))
   \<and> (SHA256_toString ext (cs_message signature) = cs_messageHash signature
        \<and> BN16 (cs_r signature) = Some r \<and> BN16 (cs_s signature) = Some s
        \<and> keyFromPublic ext publicKey = Inr key
        \<and> key_verify ext key (cs_messageHash signature) r s = Inr False \<longrightarrow>
        verifySignature ext signature publicKey now = Inr (Rejected SignatureVerificationFailed))
   \<and> (SHA256_toString ext (cs_message signature) = cs_messageHash signature
        \<and> BN16 (cs_r signature) = Some r \<and> BN16 (cs_s signature) = Some s
        \<and> keyFromPublic ext publicKey = Inr key
        \<and> key_verify ext key (cs_messageHash signature) r s = Inl msg \<longrightarrow>
        verifySignature ext signature publicKey now
          = Inr (Rejected (VerificationError (LibraryError msg))))
   \<and> (SHA256_toString ext (cs_message signature) = cs_messageHash signature
        \<and> BN16 (cs_r signature) = Some r \<and> BN16 (cs_s signature) = Some s
        \<and> keyFromPublic ext publicKey = Inr key
        \<and> key_verify ext key (cs_messageHash signature) r s = Inr True \<longrightarrow>
        verifySignature ext signature publicKey now
          = Inr (Accepted (cs_message signature) publicKey now
                   (cs_participatingParties signature)))"
proof (intro conjI impI)
  show "\<exists>result. verifySignature ext signature publicKey now = Inr result"
    by (cases "verify_try ext signature publicKey now") (simp_all add: verifySignature_def)
next
  assume "SHA256_toString ext (cs_message signature) \<noteq> cs_messageHash signature"
  then show "verifySignature ext signature publicKey now = Inr (Rejected MessageHashMismatch)"
    by (simp add: verifySignature_def verify_try_cases)
next
  assume "SHA256_toString ext (cs_message signature) = cs_messageHash signature
        \<and> BN16 (cs_r signature) = None"
  then show "verifySignature ext signature publicKey now
          = Inr (Rejected (VerificationError (InvalidCharacter (cs_r signature))))"
    by (simp add: verifySignature_def verify_try_cases)
next
  assume "SHA256_toString ext (cs_message signature) = cs_messageHash signature
        \<and> BN16 (cs_r signature) = Some r \<and> BN16 (cs_s signature) = None"
  then show "verifySignature ext signature publicKey now
          = Inr (Rejected (VerificationError (InvalidCharacter (cs_s signature))))"
    by (simp add: verifySignature_def verify_try_cases)
next
  assume "SHA256_toString ext (cs_message signature) = cs_messageHash signature
        \<and> BN16 (cs_r signature) = Some r \<and> BN16 (cs_s signature) = Some s
        \<and> keyFromPublic ext publicKey = Inl msg"
  then show "verifySignature ext signature publicKey now
               = Inr (Rejected (InvalidPublicKeyFormat msg))"
    by (simp add: verifySignature_def verify_try_cases)
next
  assume "SHA256_toString ext (cs_message signature) = cs_messageHash signature
        \<and> BN16 (cs_r signature) = Some r \<and> BN16 (cs_s signature) = Some s
        \<and> keyFromPublic ext publicKey = Inr key
        \<and> key_verify ext key (cs_messageHash signature) r s = Inr False"
  then show "verifySignature ext signature publicKey now
               = Inr (Rejected SignatureVerificationFailed)"
    by (simp add: verifySignature_def verify_try_cases)
next
  assume "SHA256_toString ext (cs_message signature) = cs_messageHash signature
        \<and> BN16 (cs_r signature) = Some r \<and> BN16 (cs_s signature) = Some s
        \<and> keyFromPublic ext publicKey = Inr key
        \<and> key_verify ext key (cs_messageHash signature) r s = Inl msg"
  then show "verifySignature ext signature publicKey now
          = Inr (Rejected (VerificationError (LibraryError msg)))"
    by (simp add: verifySignature_def verify_try_cases)
next
  assume "SHA256_toString ext (cs_message signature) = cs_messageHash signature
        \<and> BN16 (cs_r signature) = Some r \<and> BN16 (cs_s signature) = Some s
        \<and> keyFromPublic ext publicKey = Inr key
        \<and> key_verify ext key (cs_messageHash signature) r s = Inr True"
  then show "verifySignature ext signature publicKey now
          = Inr (Accepted (cs_message signature) publicKey now
                   (cs_participatingParties signature))"
    by (simp add: verifySignature_def verify_try_cases)
qed

text \<open>The cases on the stand-in libraries.\<close>

lemma toy_verify_runs:
  "SHA256_toString toy_ext (cs_message (toy_signature\<lparr>cs_message := ''x''\<rparr>))
     \<noteq> cs_messageHash (toy_signature\<lparr>cs_message := ''x''\<rparr>)"
  "SHA256_toString toy_ext (cs_message toy_signature) = cs_messageHash toy_signature"
  "BN16 (cs_r toy_signature) = Some (Number 7)"
  "BN16 (cs_s toy_signature) = Some (Number 50)"
  "BN16 (cs_s (toy_signature\<lparr>cs_s := ''33''\<rparr>)) = Some (Number 51)"
  "keyFromPublic toy_ext ''zz'' = Inl ''Unknown point format''"
  "keyFromPublic toy_ext toy_publicKey = Inr 42"
  "key_verify toy_ext 42 (cs_messageHash toy_signature) (Number 7) (Number 51) = Inr False"
  "key_verify toy_ext 42 (cs_messageHash toy_signature) (Number 7) (Number 50) = Inr True"
  "BN16 (cs_r (toy_signature\<lparr>cs_r := ''0x07''\<rparr>)) = None"
  "BN16 (cs_s (toy_signature\<lparr>cs_s := ''5g''\<rparr>)) = None"
  "BN16 (cs_s (toy_signature\<lparr>cs_s := '' ''\<rparr>)) = Some (Hollow False)"
  "key_verify toy_ext 42 (cs_messageHash toy_signature) (Number 7) (Hollow False)
     = Inl ''Cannot read properties of null''"
  by code_simp+

theorem verifySignature_structured_result_witness:
  "SHA256_toString toy_ext (cs_message (toy_signature\<lparr>cs_message := ''x''\<rparr>))
     \<noteq> cs_messageHash (toy_signature\<lparr>cs_message := ''x''\<rparr>)
   \<and> verifySignature toy_ext (toy_signature\<lparr>cs_message := ''x''\<rparr>) ''zz'' ''later''
       = Inr (Rejected MessageHashMismatch)
   \<and> BN16 (cs_r (toy_signature\<lparr>cs_r := ''0x07''\<rparr>)) = None
   \<and> verifySignature toy_ext (toy_signature\<lparr>cs_r := ''0x07''\<rparr>) ''zz'' ''later''
       = Inr (Rejected (VerificationError (InvalidCharacter ''0x07'')))
   \<and> BN16 (cs_s (toy_signature\<lparr>cs_s := ''5g''\<rparr>)) = None
   \<and> verifySignature toy_ext (toy_signature\<lparr>cs_s := ''5g''\<rparr>) ''zz'' ''later''
       = Inr (Rejected (VerificationError (InvalidCharacter ''5g'')))
   \<and> keyFromPublic toy_ext ''zz'' = Inl ''Unknown point format''
   \<and> verifySignature toy_ext toy_signature ''zz'' ''later''
       = Inr (Rejected (InvalidPublicKeyFormat ''Unknown point format''))
   \<and> key_verify toy_ext 42 (cs_messageHash toy_signature) (Number 7) (Number 51) = Inr False
   \<and> verifySignature toy_ext (toy_signature\<lparr>cs_s := ''33''\<rparr>) toy_publicKey ''later''
       = Inr (Rejected SignatureVerificationFailed)
   \<and> key_verify toy_ext 42 (cs_messageHash toy_signature) (Number 7) (Hollow False)
       = Inl ''Cannot read properties of null''
   \<and> verifySignature toy_ext (toy_signature\<lparr>cs_s := '' ''\<rparr>) toy_publicKey ''later''
       = Inr (Rejected (VerificationError (LibraryError ''Cannot read properties of null'')))
   \<and> key_verify toy_ext 42 (cs_messageHash toy_signature) (Number 7) (Number 50) = Inr True
   \<and> verifySignature toy_ext toy_signature toy_publicKey ''later''
       = Inr (Accepted ''m'' toy_publicKey ''later'' [2, 5, 3])"
proof -
  note run = toy_verify_runs
  have c1: "verifySignature toy_ext (toy_signature\<lparr>cs_message := ''x''\<rparr>) ''zz'' ''later''
       = Inr (Rejected MessageHashMismatch)"
    by (rule verifySignature_structured_result [THEN conjunct2, THEN conjunct1, THEN mp, OF run(1)])
  have h2: "SHA256_toString toy_ext (cs_message (toy_signature\<lparr>cs_r := ''0x07''\<rparr>))
          = cs_messageHash (toy_signature\<lparr>cs_r := ''0x07''\<rparr>)
        \<and> BN16 (cs_r (toy_signature\<lparr>cs_r := ''0x07''\<rparr>)) = None"
    using run by simp
  have c2: "verifySignature toy_ext (toy_signature\<lparr>cs_r := ''0x07''\<rparr>) ''zz'' ''later''
       = Inr (Rejected (VerificationError (InvalidCharacter ''0x07'')))"
    using verifySignature_structured_result [where signature = "toy_signature\<lparr>cs_r := ''0x07''\<rparr>" and ext = toy_ext
        and publicKey = "''zz''" and now = "''later''",
        THEN conjunct2, THEN conjunct2, THEN conjunct1, THEN mp, OF h2]
    by simp
  have h3: "SHA256_toString toy_ext (cs_message (toy_signature\<lparr>cs_s := ''5g''\<rparr>))
          = cs_messageHash (toy_signature\<lparr>cs_s := ''5g''\<rparr>)
        \<and> BN16 (cs_r (toy_signature\<lparr>cs_s := ''5g''\<rparr>)) = Some (Number 7)
        \<and> BN16 (cs_s (toy_signature\<lparr>cs_s := ''5g''\<rparr>)) = None"
    using run by simp
  have c3: "verifySignature toy_ext (toy_signature\<lparr>cs_s := ''5g''\<rparr>) ''zz'' ''later''
       = Inr (Rejected (VerificationError (InvalidCharacter ''5g'')))"
    using verifySignature_structured_result [where signature = "toy_signature\<lparr>cs_s := ''5g''\<rparr>" and ext = toy_ext
        and publicKey = "''zz''" and now = "''later''",
        THEN conjunct2, THEN conjunct2, THEN conjunct2, THEN conjunct1, THEN mp, OF h3]
    by simp
  have h4: "SHA256_toString toy_ext (cs_message toy_signature) = cs_messageHash toy_signature
        \<and> BN16 (cs_r toy_signature) = Some (Number 7)
        \<and> BN16 (cs_s toy_signature) = Some (Number 50)
        \<and> keyFromPublic toy_ext ''zz'' = Inl ''Unknown point format''"
    by (intro conjI run)
  have c4: "verifySignature toy_ext toy_signature ''zz'' ''later''
       = Inr (Rejected (InvalidPublicKeyFormat ''Unknown point format''))"
    by (rule verifySignature_structured_result [THEN conjunct2, THEN conjunct2, THEN conjunct2, THEN conjunct2,
          THEN conjunct1, THEN mp, OF h4])
  have h5: "SHA256_toString toy_ext (cs_message (toy_signature\<lparr>cs_s := ''33''\<rparr>))
          = cs_messageHash (toy_signature\<lparr>cs_s := ''33''\<rparr>)
        \<and> BN16 (cs_r (toy_signature\<lparr>cs_s := ''33''\<rparr>)) = Some (Number 7)
        \<and> BN16 (cs_s (toy_signature\<lparr>cs_s := ''33''\<rparr>)) = Some (Number 51)
        \<and> keyFromPublic toy_ext toy_publicKey = Inr 42
        \<and> key_verify toy_ext 42 (cs_messageHash (toy_signature\<lparr>cs_s := ''33''\<rparr>))
              (Number 7) (Number 51) = Inr False"
    using run by simp
  have c5: "verifySignature toy_ext (toy_signature\<lparr>cs_s := ''33''\<rparr>) toy_publicKey ''later''
       = Inr (Rejected SignatureVerificationFailed)"
    by (rule verifySignature_structured_result [THEN conjunct2, THEN conjunct2, THEN conjunct2, THEN conjunct2,
          THEN conjunct2, THEN conjunct1, THEN mp, OF h5])
  have h6: "SHA256_toString toy_ext (cs_message (toy_signature\<lparr>cs_s := '' ''\<rparr>))
          = cs_messageHash (toy_signature\<lparr>cs_s := '' ''\<rparr>)
        \<and> BN16 (cs_r (toy_signature\<lparr>cs_s := '' ''\<rparr>)) = Some (Number 7)
        \<and> BN16 (cs_s (toy_signature\<lparr>cs_s := '' ''\<rparr>)) = Some (Hollow False)
        \<and> keyFromPublic toy_ext toy_publicKey = Inr 42
        \<and> key_verify toy_ext 42 (cs_messageHash (toy_signature\<lparr>cs_s := '' ''\<rparr>))
              (Number 7) (Hollow False) = Inl ''Cannot read properties of null''"
    using run by simp
  have c6: "verifySignature toy_ext (toy_signature\<lparr>cs_s := '' ''\<rparr>) toy_publicKey ''later''
       = Inr (Rejected (VerificationError (LibraryError ''Cannot read properties of null'')))"
    by (rule verifySignature_structured_result [THEN conjunct2, THEN conjunct2, THEN conjunct2, THEN conjunct2,
          THEN conjunct2, THEN conjunct2, THEN conjunct1, THEN mp, OF h6])
  have h7: "SHA256_toString toy_ext (cs_message toy_signature) = cs_messageHash toy_signature
        \<and> BN16 (cs_r toy_signature) = Some (Number 7)
        \<and> BN16 (cs_s toy_signature) = Some (Number 50)
        \<and> keyFromPublic toy_ext toy_publicKey = Inr 42
        \<and> key_verify toy_ext 42 (cs_messageHash toy_signature) (Number 7) (Number 50) = Inr True"
    by (intro conjI run)
  have "verifySignature toy_ext toy_signature toy_publicKey ''later''
       = Inr (Accepted (cs_message toy_signature) toy_publicKey ''later''
                (cs_participatingParties toy_signature))"
    by (rule verifySignature_structured_result [THEN conjunct2, THEN conjunct2, THEN conjunct2, THEN conjunct2,
          THEN conjunct2, THEN conjunct2, THEN conjunct2, THEN mp, OF h7])
  then have c7: "verifySignature toy_ext toy_signature toy_publicKey ''later''
       = Inr (Accepted ''m'' toy_publicKey ''later'' [2, 5, 3])"
    by (simp add: toy_signature_def)
  show ?thesis
    by (intro conjI run(1) run(10) run(11) run(6) run(8) run(13) run(9) c1 c2 c3 c4 c5 c6 c7)
qed

text \<open>
  Claim C9 says that two calls on the same signature and public key return equal results. An
  accepting result carries \<^verbatim>\<open>verifiedAt: new Date().toISOString()\<close>, the time of the call: two
  calls one millisecond apart on a valid signature return different objects.
\<close>

theorem verifySignature_clock_counterexample:
  "verifySignature toy_ext toy_signature toy_publicKey ''2025-01-01T00:00:00.000Z''
     \<noteq> verifySignature toy_ext toy_signature toy_publicKey ''2025-01-01T00:00:00.001Z''"
  by code_simp

text \<open>
  Claim C9, amended. Two calls on the same signature and public key return results that agree
  in everything but \<open>verifiedAt\<close>: the same verdict, reason, message, public key and
  participants. The two results are equal exactly when the clock readings are equal or the
  result is a rejection.
\<close>

theorem verifySignature_repeatable:
  "map_sum id forget_verifiedAt (verifySignature ext signature publicKey now1)
     = map_sum id forget_verifiedAt (verifySignature ext signature publicKey now2)
   \<and> (verifySignature ext signature publicKey now1 = verifySignature ext signature publicKey now2
        \<longleftrightarrow> now1 = now2
             \<or> (\<exists>why. verifySignature ext signature publicKey now1 = Inr (Rejected why)))"
  by (auto simp: verifySignature_def verify_try_cases split: option.splits sum.splits)

theorem verifySignature_repeatable_witness:
  "map_sum id forget_verifiedAt
       (verifySignature toy_ext toy_signature toy_publicKey ''2025-01-01T00:00:00.000Z'')
     = Inr (Accepted ''m'' toy_publicKey [] [2, 5, 3])
   \<and> map_sum id forget_verifiedAt
       (verifySignature toy_ext toy_signature toy_publicKey ''2025-01-01T00:00:00.001Z'')
     = Inr (Accepted ''m'' toy_publicKey [] [2, 5, 3])
   \<and> verifySignature toy_ext toy_signature ''zz'' ''2025-01-01T00:00:00.000Z''
     = verifySignature toy_ext toy_signature ''zz'' ''2025-01-01T00:00:00.001Z''"
proof -
  have a: "map_sum id forget_verifiedAt
       (verifySignature toy_ext toy_signature toy_publicKey ''2025-01-01T00:00:00.000Z'')
     = Inr (Accepted ''m'' toy_publicKey [] [2, 5, 3])"
    by code_simp
  have r: "verifySignature toy_ext toy_signature ''zz'' ''2025-01-01T00:00:00.000Z''
     = Inr (Rejected (InvalidPublicKeyFormat ''Unknown point format''))"
    by code_simp
  note same = verifySignature_repeatable [of toy_ext toy_signature _
      "''2025-01-01T00:00:00.000Z''" "''2025-01-01T00:00:00.001Z''"]
  from same [of toy_publicKey] a have b: "map_sum id forget_verifiedAt
       (verifySignature toy_ext toy_signature toy_publicKey ''2025-01-01T00:00:00.001Z'')
     = Inr (Accepted ''m'' toy_publicKey [] [2, 5, 3])"
    by simp
  from same [of "''zz''"] r
  have c: "verifySignature toy_ext toy_signature ''zz'' ''2025-01-01T00:00:00.000Z''
     = verifySignature toy_ext toy_signature ''zz'' ''2025-01-01T00:00:00.001Z''"
    by blast
  show ?thesis
    by (intro conjI a b c)
qed

subsection \<open>Modular inverses\<close>

lemma egcd_bezout:
  "0 \<le> y \<Longrightarrow> 0 \<le> x \<or> 0 < y \<Longrightarrow> fst (egcd x y) * x + snd (egcd x y) * y = gcd x y"
proof (induction x y rule: egcd.induct)
  case (1 x y)
  show ?case
  proof (cases "y \<le> 0")
    case True
    with 1(2,3) show ?thesis by (simp add: egcd.simps)
  next
    case False
    then have y: "0 < y" by simp
    obtain a b where ab: "egcd y (x mod y) = (a, b)" by (cases "egcd y (x mod y)")
    from 1(1) [OF False] y ab have ih: "a * y + b * (x mod y) = gcd y (x mod y)"
      by simp
    have "b * x + (a - (x div y) * b) * y = a * y + b * (x - (x div y) * y)"
      by (simp add: algebra_simps)
    also have "x - (x div y) * y = x mod y"
      by (simp add: minus_div_mult_eq_mod)
    finally have "b * x + (a - (x div y) * b) * y = gcd y (x mod y)"
      using ih by simp
    also have "gcd y (x mod y) = gcd x y"
      by (rule gcd_red_int [symmetric])
    finally show ?thesis
      using False ab by (subst (1 2) egcd.simps) simp
  qed
qed

lemma invm_inverse:
  assumes m: "1 < m" and cop: "coprime a m"
  shows "(a * invm a m) mod m = 1"
proof -
  from m have "fst (egcd a m) * a + snd (egcd a m) * m = gcd a m"
    by (intro egcd_bezout) simp_all
  with cop have "fst (egcd a m) * a + snd (egcd a m) * m = 1"
    by simp
  then have "(fst (egcd a m) * a + snd (egcd a m) * m) mod m = 1 mod m"
    by simp
  with m have "(fst (egcd a m) * a) mod m = 1"
    by simp
  then show ?thesis
    by (simp add: invm_def mod_mult_right_eq mult.commute)
qed

lemma prime_order_coprime:
  assumes p: "prime_order m" and nz: "x mod m \<noteq> 0"
  shows "coprime (x mod m) m"
proof -
  from p have m: "1 < m" and nodiv: "\<And>d. 2 \<le> d \<Longrightarrow> d \<le> m - 1 \<Longrightarrow> \<not> d dvd m"
    by (auto simp: prime_order_def)
  let ?g = "gcd (x mod m) m"
  from m have "0 \<le> x mod m" and lt: "x mod m < m"
    by simp_all
  with nz have pos: "0 < x mod m"
    by linarith
  have g_dvd: "?g dvd m" and g_dvd2: "?g dvd x mod m" by simp_all
  from m have "0 < ?g" by (simp add: gcd_pos_int)
  from g_dvd2 pos have "?g \<le> x mod m" by (rule zdvd_imp_le)
  with lt have "?g \<le> m - 1" by simp
  with nodiv [of ?g] g_dvd have "\<not> 2 \<le> ?g" by blast
  with \<open>0 < ?g\<close> have "?g = 1" by linarith
  then show ?thesis by (simp add: coprime_iff_gcd_eq_1)
qed

lemma prime_order_inverse:
  assumes "prime_order m" and "x mod m \<noteq> 0"
  shows "(x mod m * invm (x mod m) m) mod m = 1"
  using assms by (intro invm_inverse prime_order_coprime) (simp_all add: prime_order_def)

text \<open>
  The checks of \<^verbatim>\<open>combinePartialSignatures\<close> leave distinct party ids in
  \<open>1..totalParties\<close> for the Lagrange coefficients.
\<close>

lemma combine_selected_ids:
  assumes ok: "combinePartialSignatures self message sigs now = Inr cs"
    and t: "1 \<le> threshold self"
  shows "distinct (cs_participatingParties cs)
       \<and> set (cs_participatingParties cs) \<subseteq> {1..totalParties self}"
proof -
  from ok obtain first rest rBN s0 where
    "sigs = first # rest"
    and ids: "\<forall>sg \<in> set sigs. ps_partyId sg \<in> {1..totalParties self}"
    and enough: "\<not> int (length (remdups (map ps_partyId sigs))) < threshold self"
    and cs: "cs = \<lparr>cs_r = padStart 64 (CHR ''0'') (bn_toString16 rBN),
              cs_s = hex64 (if s0 > groupOrder self div 2 then groupOrder self - s0 else s0),
              cs_message = message,
              cs_messageHash = ps_messageHash first,
              cs_participatingParties = map ps_partyId (select_loop (threshold self) sigs [] []),
              cs_sessionId = ps_sessionId first,
              cs_timestamp = now,
              cs_securityGuarantee = ''Private key was never reconstructed during signing''\<rparr>"
    by (rule combine_InrE)
  have parties: "cs_participatingParties cs
                   = map ps_partyId (take (nat (threshold self)) (first_seen sigs))"
    by (simp add: cs select_loop_spec [OF t])
  note props = selection_props [OF t enough]
  from props(3) ids
  have "set (map ps_partyId (take (nat (threshold self)) (first_seen sigs)))
          \<subseteq> {1..totalParties self}"
    by auto
  with props(2) show ?thesis
    unfolding parties by blast
qed

subsection \<open>Polynomials and their roots\<close>

lemma evaluatePolynomial_loop_peval:
  "evaluatePolynomial_loop m x cs res xp =
     (if cs = [] then res else (res + xp * peval cs x) mod m)"
proof (induction cs arbitrary: res xp)
  case Nil
  then show ?case by simp
next
  case (Cons c cs)
  show ?case
  proof (cases "cs = []")
    case True
    then show ?thesis by (simp add: mod_simps mult.commute)
  next
    case False
    have "((res + c * xp mod m) mod m) mod m = (res + c * xp) mod m"
      by (simp add: mod_simps)
    moreover have "(xp * x mod m * peval cs x) mod m = (xp * x * peval cs x) mod m"
      by (simp add: mod_mult_left_eq)
    ultimately have "((res + c * xp mod m) mod m + xp * x mod m * peval cs x) mod m
            = (res + c * xp + xp * x * peval cs x) mod m"
      by (rule mod_add_cong)
    also have "res + c * xp + xp * x * peval cs x = res + xp * (c + x * peval cs x)"
      by (simp add: algebra_simps)
    finally show ?thesis
      using False by (simp add: Cons.IH Let_def)
  qed
qed

lemma evaluatePolynomial_peval:
  "evaluatePolynomial self cs x = peval cs x mod groupOrder self"
  by (simp add: evaluatePolynomial_def evaluatePolynomial_loop_peval)

lemma peval_pquot:
  "peval (c # cs) x = peval (c # cs) a + (x - a) * peval (pquot a cs) x"
proof (induction cs arbitrary: c)
  case Nil
  then show ?case by simp
next
  case (Cons d ds)
  have "peval (c # d # ds) x = c + x * peval (d # ds) x" by simp
  also have "\<dots> = c + x * (peval (d # ds) a + (x - a) * peval (pquot a ds) x)"
    using Cons [of d] by simp
  also have "\<dots> = peval (c # d # ds) a + (x - a) * peval (pquot a (d # ds)) x"
    by (simp add: algebra_simps)
  finally show ?case .
qed

lemma length_pquot: "length (pquot a cs) = length cs"
  by (induction cs) simp_all

lemma peval_padd: "peval (padd p q) x = peval p x + peval q x"
  by (induction p q rule: padd.induct) (simp_all add: algebra_simps)

lemma length_padd: "length (padd p q) = max (length p) (length q)"
  by (induction p q rule: padd.induct) simp_all

lemma peval_smult: "peval (smult c p) x = c * peval p x"
  by (induction p) (simp_all add: smult_def algebra_simps)

lemma length_smult: "length (smult c p) = length p"
  by (simp add: smult_def)

lemma peval_mul_linear: "peval (mul_linear a p) x = (x - a) * peval p x"
  by (simp add: mul_linear_def peval_padd peval_smult algebra_simps)

lemma length_mul_linear: "length (mul_linear a p) = Suc (length p)"
  by (simp add: mul_linear_def length_padd length_smult)

lemma peval_lagrange_numerator:
  "peval (lagrange_numerator i js) x = prod_list (map (\<lambda>j. x - j) (filter (\<lambda>j. i \<noteq> j) js))"
  by (induction js) (auto simp: peval_mul_linear)

lemma length_lagrange_numerator:
  "length (lagrange_numerator i js) = Suc (length (filter (\<lambda>j. i \<noteq> j) js))"
  by (induction js) (auto simp: length_mul_linear)

lemma peval_psum: "peval (psum f is) x = sum_list (map (\<lambda>i. peval (f i) x) is)"
  by (induction "is") (simp_all add: peval_padd)

lemma length_psum: "\<forall>i \<in> set is. length (f i) \<le> k \<Longrightarrow> length (psum f is) \<le> k"
  by (induction "is") (simp_all add: length_padd)

lemma roots_force_zero:
  assumes "distinct rs"
    and "\<forall>a \<in> set rs. \<forall>b \<in> set rs. a \<noteq> b \<longrightarrow> coprime (a - b) m"
    and "length p \<le> length rs"
    and "\<forall>r \<in> set rs. m dvd peval p r"
  shows "m dvd peval p x"
  using assms
proof (induction rs arbitrary: p x)
  case Nil
  then show ?case by simp
next
  case (Cons a rs)
  show ?case
  proof (cases p)
    case Nil
    then show ?thesis by simp
  next
    case (Cons c cs)
    let ?q = "pquot a cs"
    have split: "peval p y = peval p a + (y - a) * peval ?q y" for y
      unfolding Cons by (rule peval_pquot)
    from Cons.prems(4) have at_a: "m dvd peval p a" by simp
    have "m dvd peval ?q y" for y
    proof (rule Cons.IH)
      show "distinct rs" using Cons.prems(1) by simp
      show "\<forall>a \<in> set rs. \<forall>b \<in> set rs. a \<noteq> b \<longrightarrow> coprime (a - b) m"
        using Cons.prems(2) by simp
      show "length ?q \<le> length rs"
        using Cons.prems(3) Cons by (simp add: length_pquot)
      show "\<forall>r \<in> set rs. m dvd peval ?q r"
      proof
        fix r assume r: "r \<in> set rs"
        with Cons.prems(1) have "r \<noteq> a" by auto
        with r Cons.prems(2) have cop: "coprime (r - a) m" by simp
        from r Cons.prems(4) have "m dvd peval p r" by simp
        with at_a split [of r] have "m dvd (r - a) * peval ?q r"
          by (metis dvd_add_right_iff)
        then have "m dvd peval ?q r * (r - a)" by (simp add: mult.commute)
        with cop show "m dvd peval ?q r"
          by (simp add: coprime_dvd_mult_left_iff coprime_commute)
      qed
    qed
    with at_a split [of x] show ?thesis by simp
  qed
qed

subsection \<open>Lagrange interpolation at zero\<close>

lemma lagrange_loop_prod:
  "lagrangeCoefficient_loop m i js res mod m =
     (res * prod_list (map (\<lambda>j. (- j) * invm ((i - j) mod m) m) (filter (\<lambda>j. i \<noteq> j) js))) mod m"
proof (induction js arbitrary: res)
  case Nil
  then show ?case by simp
next
  case (Cons j js)
  let ?rest = "prod_list (map (\<lambda>j. (- j) * invm ((i - j) mod m) m) (filter (\<lambda>j. i \<noteq> j) js))"
  let ?dI = "invm ((i - j) mod m) m"
  show ?case
  proof (cases "i = j")
    case True
    with Cons show ?thesis by simp
  next
    case False
    have num: "(m - j) mod m = (- j) mod m"
      by (metis diff_0 mod_diff_left_eq mod_self)
    have "((m - j) mod m) mod m = (- j) mod m"
      by (simp add: num)
    then have "(res * ((m - j) mod m)) mod m = (res * (- j)) mod m"
      by (rule mod_mult_cong [OF refl])
    then have "(res * ((m - j) mod m) * ?dI) mod m = (res * (- j) * ?dI) mod m"
      by (rule mod_mult_cong [OF _ refl])
    then have "((res * ((m - j) mod m) * ?dI) mod m) mod m = (res * (- j) * ?dI) mod m"
      by simp
    then have "((res * ((m - j) mod m) * ?dI) mod m * ?rest) mod m
                 = (res * (- j) * ?dI * ?rest) mod m"
      by (rule mod_mult_cong [OF _ refl])
    also have "res * (- j) * ?dI * ?rest = res * ((- j) * ?dI * ?rest)"
      by (simp add: mult.assoc)
    finally show ?thesis
      using False by (simp add: Cons.IH Let_def)
  qed
qed

lemma sum_list_mod_cong:
  "\<forall>i \<in> set xs. f i mod m = g i mod (m::int)
     \<Longrightarrow> sum_list (map f xs) mod m = sum_list (map g xs) mod m"
proof (induction xs)
  case Nil
  then show ?case by simp
next
  case (Cons x xs)
  then have "f x mod m = g x mod m" and "sum_list (map f xs) mod m = sum_list (map g xs) mod m"
    by simp_all
  then show ?case
    unfolding list.map sum_list.Cons by (rule mod_add_cong)
qed

lemma sum_list_single:
  "distinct xs \<Longrightarrow> k \<in> set xs \<Longrightarrow> \<forall>i \<in> set xs. i \<noteq> k \<longrightarrow> f i = (0::int)
     \<Longrightarrow> sum_list (map f xs) = f k"
proof (induction xs)
  case Nil
  then show ?case by simp
next
  case (Cons x xs)
  show ?case
  proof (cases "x = k")
    case True
    with Cons.prems have "\<forall>i \<in> set xs. f i = 0" by auto
    then have "sum_list (map f xs) = 0" by (induction xs) simp_all
    with True show ?thesis by simp
  next
    case False
    with Cons show ?thesis by simp
  qed
qed

lemma prod_list_map_mult:
  "prod_list (map (\<lambda>j. f j * g j) xs) = prod_list (map f xs) * (prod_list (map g xs) :: int)"
  by (induction xs) (simp_all add: algebra_simps)

lemma prod_list_mod_one:
  "1 < m \<Longrightarrow> \<forall>j \<in> set xs. f j mod m = (1::int) \<Longrightarrow> prod_list (map f xs) mod m = 1"
proof (induction xs)
  case Nil
  then show ?case by simp
next
  case (Cons x xs)
  then have "f x mod m = 1 mod m" and "prod_list (map f xs) mod m = 1 mod m" by simp_all
  then have "(f x * prod_list (map f xs)) mod m = (1 * 1) mod m"
    by (rule mod_mult_cong)
  with Cons.prems(1) show ?case by simp
qed

lemma lagrange_interpolation_at_zero:
  assumes m: "1 < m" and dist: "distinct ids"
    and units: "\<forall>a \<in> set ids. \<forall>b \<in> set ids. a \<noteq> b \<longrightarrow> coprime (a - b) m"
    and len: "length p \<le> length ids"
  shows "(\<Sum>i\<leftarrow>ids. lagrangeCoefficient_loop m i ids 1 * peval p i) mod m = peval p 0 mod m"
proof -
  define others where "others i = filter (\<lambda>j. i \<noteq> j) ids" for i
  define w where "w i = prod_list (map (\<lambda>j. invm ((i - j) mod m) m) (others i))" for i
  define N where "N i = lagrange_numerator i ids" for i
  define P where "P = padd (psum (\<lambda>i. smult (peval p i * w i) (N i)) ids) (smult (- 1) p)"
  have evalN: "peval (N i) x = prod_list (map (\<lambda>j. x - j) (others i))" for i x
    by (simp add: N_def others_def peval_lagrange_numerator)
  have evalP: "peval P x = (\<Sum>i\<leftarrow>ids. peval p i * w i * peval (N i) x) - peval p x" for x
    by (simp add: P_def peval_padd peval_psum peval_smult)
  have lenN: "length (N i) \<le> length ids" if "i \<in> set ids" for i
  proof -
    from that have "length (filter (\<lambda>j. i \<noteq> j) ids) < length ids"
      by (intro length_filter_less [of i]) simp_all
    then show ?thesis
      by (simp add: N_def length_lagrange_numerator)
  qed
  have lenP: "length P \<le> length ids"
    unfolding P_def length_padd length_smult
    using len lenN by (simp add: length_psum length_smult)
  have unit1: "((k - j) * invm ((k - j) mod m) m) mod m = 1"
    if "k \<in> set ids" "j \<in> set (others k)" for k j
  proof -
    from that units have "coprime (k - j) m" by (auto simp: others_def)
    with m have "coprime ((k - j) mod m) m" by (simp add: coprime_mod_left_iff)
    from invm_inverse [OF m this] show ?thesis
      by (simp add: mod_mult_left_eq)
  qed
  have root: "m dvd peval P k" if k: "k \<in> set ids" for k
  proof -
    have zero: "peval p i * w i * peval (N i) k = 0" if "i \<in> set ids" "i \<noteq> k" for i
    proof -
      from k that have "k \<in> set (others i)" by (simp add: others_def)
      then have "(0::int) \<in> set (map (\<lambda>j. k - j) (others i))" by force
      then have "peval (N i) k = 0"
        unfolding evalN by (simp only: prod_list_zero_iff)
      then show ?thesis by simp
    qed
    have "(\<Sum>i\<leftarrow>ids. peval p i * w i * peval (N i) k) = peval p k * w k * peval (N k) k"
      using dist k zero by (intro sum_list_single) auto
    then have eq: "peval P k = peval p k * (w k * peval (N k) k - 1)"
      by (simp add: evalP algebra_simps)
    have "w k * peval (N k) k
            = prod_list (map (\<lambda>j. invm ((k - j) mod m) m * (k - j)) (others k))"
      by (simp only: w_def evalN prod_list_map_mult)
    also have "\<dots> = prod_list (map (\<lambda>j. (k - j) * invm ((k - j) mod m) m) (others k))"
      by (simp add: mult.commute)
    also have "\<dots> mod m = 1"
      using unit1 [OF k] by (intro prod_list_mod_one [OF m]) simp
    finally have "(w k * peval (N k) k) mod m = 1 mod m"
      using m by simp
    then have "m dvd w k * peval (N k) k - 1"
      by (simp only: mod_eq_dvd_iff)
    then show ?thesis
      unfolding eq by (rule dvd_mult)
  qed
  have "m dvd peval P 0"
    by (rule roots_force_zero [OF dist units lenP]) (use root in blast)
  then have "(\<Sum>i\<leftarrow>ids. peval p i * w i * peval (N i) 0) mod m = peval p 0 mod m"
    unfolding evalP by (simp only: mod_eq_dvd_iff)
  moreover have "(\<Sum>i\<leftarrow>ids. lagrangeCoefficient_loop m i ids 1 * peval p i) mod m
                   = (\<Sum>i\<leftarrow>ids. peval p i * w i * peval (N i) 0) mod m"
  proof (rule sum_list_mod_cong, rule ballI)
    fix i assume "i \<in> set ids"
    have "w i * peval (N i) 0
            = prod_list (map (\<lambda>j. invm ((i - j) mod m) m * (0 - j)) (others i))"
      by (simp only: w_def evalN prod_list_map_mult)
    also have "\<dots> = prod_list (map (\<lambda>j. (- j) * invm ((i - j) mod m) m) (others i))"
      by (simp add: mult.commute)
    finally have "w i * peval (N i) 0
            = prod_list (map (\<lambda>j. (- j) * invm ((i - j) mod m) m) (others i))" .
    then have "lagrangeCoefficient_loop m i ids 1 mod m = (w i * peval (N i) 0) mod m"
      by (simp add: lagrange_loop_prod others_def)
    then have "(lagrangeCoefficient_loop m i ids 1 * peval p i) mod m
                 = (w i * peval (N i) 0 * peval p i) mod m"
      by (intro mod_mult_cong refl)
    then show "(lagrangeCoefficient_loop m i ids 1 * peval p i) mod m
                 = (peval p i * w i * peval (N i) 0) mod m"
      by (simp add: mult.commute mult.left_commute)
  qed
  ultimately show ?thesis by simp
qed

lemma diff_mod_nonzero:
  fixes i j :: int
  assumes "1 \<le> i" "i \<le> tp" "1 \<le> j" "j \<le> tp" "i \<noteq> j" "tp < m"
  shows "(i - j) mod m \<noteq> 0"
proof
  assume "(i - j) mod m = 0"
  then have "m dvd i - j" by (simp add: dvd_eq_mod_eq_0)
  moreover from assms have "\<bar>i - j\<bar> < m" "i - j \<noteq> 0" by auto
  ultimately show False
    using zdvd_not_zless [of "\<bar>i - j\<bar>" m] by auto
qed

lemma party_differences_units:
  assumes p: "prime_order m" and ids: "set ids \<subseteq> {1..tp}" and small: "tp < m"
  shows "\<forall>a \<in> set ids. \<forall>b \<in> set ids. a \<noteq> b \<longrightarrow> coprime (a - b) m"
proof (intro ballI impI)
  fix a b assume "a \<in> set ids" "b \<in> set ids" "a \<noteq> b"
  with ids small have "(a - b) mod m \<noteq> 0"
    by (intro diff_mod_nonzero [of a tp b]) auto
  with p have "coprime ((a - b) mod m) m" by (rule prime_order_coprime)
  moreover from p have "m \<noteq> 0" by (simp add: prime_order_def)
  ultimately show "coprime (a - b) m" by (simp add: coprime_mod_left_iff)
qed

lemma lagrange_sum_peval:
  assumes p: "prime_order m" and m: "groupOrder self = m"
    and ids: "distinct ids" "set ids \<subseteq> {1..tp}" and small: "tp < m"
    and len: "length cs \<le> length ids"
  shows "(\<Sum>i\<leftarrow>ids. lagrangeCoefficient self i ids * evaluatePolynomial self cs i) mod m
           = peval cs 0 mod m"
proof -
  from p have m1: "1 < m" by (simp add: prime_order_def)
  have "(\<Sum>i\<leftarrow>ids. lagrangeCoefficient self i ids * evaluatePolynomial self cs i) mod m
          = (\<Sum>i\<leftarrow>ids. lagrangeCoefficient_loop m i ids 1 * peval cs i) mod m"
  proof (rule sum_list_mod_cong, rule ballI)
    fix i
    have "(peval cs i mod m) mod m = peval cs i mod m" by simp
    then show "(lagrangeCoefficient self i ids * evaluatePolynomial self cs i) mod m
                 = (lagrangeCoefficient_loop m i ids 1 * peval cs i) mod m"
      unfolding lagrangeCoefficient_def evaluatePolynomial_peval m
      by (rule mod_mult_cong [OF refl])
  qed
  also have "\<dots> = peval cs 0 mod m"
    by (rule lagrange_interpolation_at_zero
          [OF m1 ids(1) party_differences_units [OF p ids(2) small] len])
  finally show ?thesis .
qed

text \<open>
  Claim C2. For a signer built by the constructor over a prime group order larger than
  \<open>totalParties\<close>, every secret, every coefficient list that
  \<^verbatim>\<open>generatePolynomialCoefficients\<close> can return for it (whatever the random bytes) and every
  list \<open>S\<close> of \<open>threshold\<close> distinct points of \<open>1..totalParties\<close>: the sum over \<open>i\<close> in \<open>S\<close>
  of \<open>lagrangeCoefficient i S * evaluatePolynomial coefficients i\<close> is congruent to the secret
  modulo the group order.
\<close>

theorem lagrange_recovers_secret:
  assumes ctor: "new_TrueThresholdSignature ec_n t tp = Inr self"
    and prime: "prime_order ec_n" and small: "tp < ec_n"
    and S: "distinct S" "set S \<subseteq> {1..tp}" "int (length S) = t"
  shows "(\<Sum>i\<leftarrow>S. lagrangeCoefficient self i S
                  * evaluatePolynomial self
                      (generatePolynomialCoefficients self secret randomCoeff) i) mod ec_n
           = secret mod ec_n"
proof -
  from ctor have self: "threshold self = t" "groupOrder self = ec_n" and t: "2 \<le> t"
    by (auto simp: new_TrueThresholdSignature_def split: if_splits)
  let ?cs = "generatePolynomialCoefficients self secret randomCoeff"
  from t S(3) have "length ?cs \<le> length S"
    by (simp add: generatePolynomialCoefficients_def self)
  from lagrange_sum_peval [OF prime self(2) S(1,2) small this]
  show ?thesis
    by (simp add: generatePolynomialCoefficients_def)
qed

text \<open>On the small signer: the polynomial \<open>42 + 13 X + 30 X\<^sup>2\<close> at the points 2, 5, 1.\<close>

theorem lagrange_recovers_secret_witness:
  "new_TrueThresholdSignature 251 3 5 = Inr small_tss
   \<and> prime_order 251 \<and> (5::int) < 251
   \<and> distinct [2, 5, 1 :: int] \<and> set [2, 5, 1] \<subseteq> {1..5 :: int} \<and> int (length [2, 5, 1 :: int]) = 3
   \<and> generatePolynomialCoefficients small_tss 42 (\<lambda>i. 1000 + 17 * i) = [42, 13, 30]
   \<and> (\<Sum>i\<leftarrow>[2, 5, 1]. lagrangeCoefficient small_tss i [2, 5, 1]
                  * evaluatePolynomial small_tss [42, 13, 30] i) mod 251 = 42"
proof -
  have ctor: "new_TrueThresholdSignature 251 3 5 = Inr small_tss"
    by (simp add: new_TrueThresholdSignature_def small_tss_def)
  have prime: "prime_order 251"
    by code_simp
  have small: "(5::int) < 251"
    by simp
  have S: "distinct [2, 5, 1 :: int]" "set [2, 5, 1] \<subseteq> {1..5 :: int}"
    "int (length [2, 5, 1 :: int]) = 3"
    by simp_all
  have cs: "generatePolynomialCoefficients small_tss 42 (\<lambda>i. 1000 + 17 * i) = [42, 13, 30]"
    by code_simp
  from lagrange_recovers_secret [OF ctor prime small S, of 42 "\<lambda>i. 1000 + 17 * i"]
  have "(\<Sum>i\<leftarrow>[2, 5, 1]. lagrangeCoefficient small_tss i [2, 5, 1]
                  * evaluatePolynomial small_tss [42, 13, 30] i) mod 251 = 42"
    unfolding cs by simp
  with ctor prime small S cs show ?thesis
    by blast
qed

subsection \<open>The inverses taken by the coefficient loop\<close>

lemma lagrange_loop_foldl:
  "lagrangeCoefficient_loop m i js res
     = foldl (\<lambda>result j. (result * ((m - j) mod m) * invm ((i - j) mod m) m) mod m) res
         (filter (\<lambda>j. i \<noteq> j) js)"
  by (induction js arbitrary: res) (auto simp: Let_def)

lemma lagrange_quotient:
  assumes m: "1 < m"
    and inv: "\<forall>j \<in> set js. i \<noteq> j \<longrightarrow> ((i - j) mod m * invm ((i - j) mod m) m) mod m = 1"
  shows "(lagrangeCoefficient_loop m i js 1 * prod_list (map (\<lambda>j. i - j) (filter (\<lambda>j. i \<noteq> j) js)))
           mod m
         = prod_list (map (\<lambda>j. - j) (filter (\<lambda>j. i \<noteq> j) js)) mod m"
proof -
  let ?js = "filter (\<lambda>j. i \<noteq> j) js"
  let ?inv = "\<lambda>j. invm ((i - j) mod m) m"
  have unit: "\<forall>j \<in> set ?js. (?inv j * (i - j)) mod m = 1"
  proof
    fix j assume "j \<in> set ?js"
    with inv have "((i - j) mod m * ?inv j) mod m = 1" by simp
    then have "((i - j) * ?inv j) mod m = 1" by (simp add: mod_mult_left_eq)
    then show "(?inv j * (i - j)) mod m = 1" by (simp add: mult.commute)
  qed
  have "(lagrangeCoefficient_loop m i js 1 * prod_list (map (\<lambda>j. i - j) ?js)) mod m
          = (lagrangeCoefficient_loop m i js 1 mod m * prod_list (map (\<lambda>j. i - j) ?js)) mod m"
    by (simp add: mod_mult_left_eq)
  also have "\<dots> = (prod_list (map (\<lambda>j. (- j) * ?inv j) ?js) * prod_list (map (\<lambda>j. i - j) ?js)) mod m"
    by (simp add: lagrange_loop_prod mod_mult_left_eq)
  also have "prod_list (map (\<lambda>j. (- j) * ?inv j) ?js) * prod_list (map (\<lambda>j. i - j) ?js)
               = prod_list (map (\<lambda>j. - j) ?js) * prod_list (map (\<lambda>j. ?inv j * (i - j)) ?js)"
  proof -
    have a: "prod_list (map (\<lambda>j. (- j) * ?inv j) ?js)
               = prod_list (map (\<lambda>j. - j) ?js) * prod_list (map ?inv ?js)"
      by (rule prod_list_map_mult)
    have b: "prod_list (map (\<lambda>j. ?inv j * (i - j)) ?js)
               = prod_list (map ?inv ?js) * prod_list (map (\<lambda>j. i - j) ?js)"
      by (rule prod_list_map_mult)
    show ?thesis
      unfolding a b by (simp only: mult.assoc)
  qed
  also have "(prod_list (map (\<lambda>j. - j) ?js) * prod_list (map (\<lambda>j. ?inv j * (i - j)) ?js)) mod m
               = (prod_list (map (\<lambda>j. - j) ?js) * 1) mod m"
    using prod_list_mod_one [OF m unit] m
    by (intro mod_mult_cong refl) simp
  finally show ?thesis by simp
qed

text \<open>
  Claim C10. \<^verbatim>\<open>lagrangeCoefficient\<close> takes one inverse for every id \<open>j\<close> of the list that
  differs from \<open>i\<close>, that of \<open>(i - j) mod groupOrder\<close>: its result is the running product over
  these ids. When the ids lie in \<open>1..totalParties\<close> and \<open>totalParties\<close> is below the group
  order, each of these residues is not zero, for a prime group order \<^verbatim>\<open>invm\<close> returns its
  inverse, and the coefficient is the quotient it is meant to be: multiplied by the product of
  the differences \<open>i - j\<close> it gives the product of the \<open>- j\<close>. These are the conditions a
  successful \<^verbatim>\<open>combinePartialSignatures\<close> leaves: the ids it hands to
  \<^verbatim>\<open>lagrangeCoefficient\<close>, which are the participating parties of the result, are those of the
  selected signatures, distinct and in \<open>1..totalParties\<close>.
\<close>

theorem lagrange_inverses_defined:
  "(set ids \<subseteq> {1..totalParties self} \<and> totalParties self < groupOrder self \<longrightarrow>
      lagrangeCoefficient self i ids
        = foldl (\<lambda>result j.
                   (result * ((groupOrder self - j) mod groupOrder self)
                      * invm ((i - j) mod groupOrder self) (groupOrder self)) mod groupOrder self)
            1 (filter (\<lambda>j. i \<noteq> j) ids)
      \<and> (i \<in> set ids \<longrightarrow>
           (\<forall>j \<in> set (filter (\<lambda>j. i \<noteq> j) ids).
              (i - j) mod groupOrder self \<noteq> 0
              \<and> (prime_order (groupOrder self) \<longrightarrow>
                   ((i - j) mod groupOrder self
                      * invm ((i - j) mod groupOrder self) (groupOrder self)) mod groupOrder self
                     = 1))
           \<and> (prime_order (groupOrder self) \<longrightarrow>
                (lagrangeCoefficient self i ids
                   * prod_list (map (\<lambda>j. i - j) (filter (\<lambda>j. i \<noteq> j) ids))) mod groupOrder self
                  = prod_list (map (\<lambda>j. - j) (filter (\<lambda>j. i \<noteq> j) ids)) mod groupOrder self)))
   \<and> (combinePartialSignatures self message sigs now = Inr cs \<and> 1 \<le> threshold self \<longrightarrow>
        cs_participatingParties cs
          = map ps_partyId (select_loop (threshold self) sigs [] [])
        \<and> distinct (cs_participatingParties cs)
        \<and> set (cs_participatingParties cs) \<subseteq> {1..totalParties self})"
proof (intro conjI impI; (elim conjE)?)
  show "lagrangeCoefficient self i ids
        = foldl (\<lambda>result j.
                   (result * ((groupOrder self - j) mod groupOrder self)
                      * invm ((i - j) mod groupOrder self) (groupOrder self)) mod groupOrder self)
            1 (filter (\<lambda>j. i \<noteq> j) ids)"
    unfolding lagrangeCoefficient_def by (rule lagrange_loop_foldl)
next
  assume ids: "set ids \<subseteq> {1..totalParties self}"
    and small: "totalParties self < groupOrder self" and i: "i \<in> set ids"
  show "\<forall>j \<in> set (filter (\<lambda>j. i \<noteq> j) ids).
              (i - j) mod groupOrder self \<noteq> 0
              \<and> (prime_order (groupOrder self) \<longrightarrow>
                   ((i - j) mod groupOrder self
                      * invm ((i - j) mod groupOrder self) (groupOrder self)) mod groupOrder self
                     = 1)"
  proof (intro ballI)
    fix j assume "j \<in> set (filter (\<lambda>j. i \<noteq> j) ids)"
    then have j: "j \<in> set ids" and ne: "i \<noteq> j" by simp_all
    from i j ids have "1 \<le> i" "i \<le> totalParties self" "1 \<le> j" "j \<le> totalParties self"
      by auto
    then have nz: "(i - j) mod groupOrder self \<noteq> 0"
      using ne small by (rule diff_mod_nonzero)
    then show "(i - j) mod groupOrder self \<noteq> 0
        \<and> (prime_order (groupOrder self) \<longrightarrow>
             ((i - j) mod groupOrder self
                * invm ((i - j) mod groupOrder self) (groupOrder self)) mod groupOrder self = 1)"
      using prime_order_inverse by blast
  qed
next
  assume ids: "set ids \<subseteq> {1..totalParties self}"
    and small: "totalParties self < groupOrder self" and i: "i \<in> set ids"
    and p: "prime_order (groupOrder self)"
  let ?m = "groupOrder self"
  from p have m: "1 < ?m" by (simp add: prime_order_def)
  have inv: "\<forall>j \<in> set ids. i \<noteq> j \<longrightarrow> ((i - j) mod ?m * invm ((i - j) mod ?m) ?m) mod ?m = 1"
  proof (intro ballI impI)
    fix j assume j: "j \<in> set ids" and ne: "i \<noteq> j"
    from i j ids have "1 \<le> i" "i \<le> totalParties self" "1 \<le> j" "j \<le> totalParties self"
      by auto
    then have "(i - j) mod ?m \<noteq> 0"
      using ne small by (rule diff_mod_nonzero)
    with p show "((i - j) mod ?m * invm ((i - j) mod ?m) ?m) mod ?m = 1"
      by (rule prime_order_inverse)
  qed
  show "(lagrangeCoefficient self i ids
                   * prod_list (map (\<lambda>j. i - j) (filter (\<lambda>j. i \<noteq> j) ids))) mod groupOrder self
                  = prod_list (map (\<lambda>j. - j) (filter (\<lambda>j. i \<noteq> j) ids)) mod groupOrder self"
    unfolding lagrangeCoefficient_def by (rule lagrange_quotient [OF m inv])
next
  assume ok: "combinePartialSignatures self message sigs now = Inr cs"
  from ok obtain first rest rBN s0 where
    "sigs = first # rest"
    and cs: "cs = \<lparr>cs_r = padStart 64 (CHR ''0'') (bn_toString16 rBN),
              cs_s = hex64 (if s0 > groupOrder self div 2 then groupOrder self - s0 else s0),
              cs_message = message,
              cs_messageHash = ps_messageHash first,
              cs_participatingParties = map ps_partyId (select_loop (threshold self) sigs [] []),
              cs_sessionId = ps_sessionId first,
              cs_timestamp = now,
              cs_securityGuarantee = ''Private key was never reconstructed during signing''\<rparr>"
    by (rule combine_InrE)
  show "cs_participatingParties cs = map ps_partyId (select_loop (threshold self) sigs [] [])"
    by (simp add: cs)
next
  assume ok: "combinePartialSignatures self message sigs now = Inr cs"
    and t: "1 \<le> threshold self"
  from combine_selected_ids [OF ok t]
  show "distinct (cs_participatingParties cs)" by (rule conjunct1)
next
  assume ok: "combinePartialSignatures self message sigs now = Inr cs"
    and t: "1 \<le> threshold self"
  from combine_selected_ids [OF ok t]
  show "set (cs_participatingParties cs) \<subseteq> {1..totalParties self}" by (rule conjunct2)
qed

text \<open>On the small signer: the coefficient of party 2 in the combination evaluated above.\<close>

theorem lagrange_inverses_defined_witness:
  "set [2, 5, 1] \<subseteq> {1..totalParties small_tss}
   \<and> totalParties small_tss < groupOrder small_tss
   \<and> prime_order (groupOrder small_tss)
   \<and> combinePartialSignatures small_tss ''m'' small_sigs ''now'' = Inr small_combined
   \<and> 1 \<le> threshold small_tss
   \<and> cs_participatingParties small_combined = [2, 5, 1]
   \<and> cs_participatingParties small_combined
       = map ps_partyId (select_loop (threshold small_tss) small_sigs [] [])
   \<and> distinct (cs_participatingParties small_combined)
   \<and> lagrangeCoefficient small_tss 2 [2, 5, 1]
       = foldl (\<lambda>result j.
                  (result * ((groupOrder small_tss - j) mod groupOrder small_tss)
                     * invm ((2 - j) mod groupOrder small_tss) (groupOrder small_tss))
                    mod groupOrder small_tss)
           1 [5, 1]
   \<and> (2 - 5) mod groupOrder small_tss \<noteq> 0
   \<and> ((2 - 5) mod groupOrder small_tss
        * invm ((2 - 5) mod groupOrder small_tss) (groupOrder small_tss)) mod groupOrder small_tss
       = 1
   \<and> (2 - 1) mod groupOrder small_tss \<noteq> 0
   \<and> ((2 - 1) mod groupOrder small_tss
        * invm ((2 - 1) mod groupOrder small_tss) (groupOrder small_tss)) mod groupOrder small_tss
       = 1
   \<and> (lagrangeCoefficient small_tss 2 [2, 5, 1] * ((2 - 5) * (2 - 1))) mod groupOrder small_tss
       = ((- 5) * (- 1)) mod groupOrder small_tss"
proof -
  have ids: "set [2, 5, 1] \<subseteq> {1..totalParties small_tss}"
    by (simp add: small_tss_def)
  have small: "totalParties small_tss < groupOrder small_tss"
    by (simp add: small_tss_def)
  have p: "prime_order (groupOrder small_tss)"
    by code_simp
  have ok: "combinePartialSignatures small_tss ''m'' small_sigs ''now'' = Inr small_combined"
    by (rule small_combine)
  have t: "1 \<le> threshold small_tss"
    by (simp add: small_tss_def)
  have parties: "cs_participatingParties small_combined = [2, 5, 1]"
    by (simp add: small_combined_def)
  have i: "2 \<in> set [2, 5, 1::int]"
    by simp
  have flt: "filter (\<lambda>j. 2 \<noteq> j) [2, 5, 1::int] = [5, 1]"
    by simp
  note main = lagrange_inverses_defined
    [where ids = "[2, 5, 1]" and self = small_tss and i = 2 and message = "''m''"
       and sigs = small_sigs and now = "''now''" and cs = small_combined]
  note general = main [THEN conjunct1, THEN mp, OF conjI [OF ids small], unfolded flt]
  note run = main [THEN conjunct2, THEN mp, OF conjI [OF ok t]]
  note inverses = general [THEN conjunct2, THEN mp, OF i]
  from inverses [THEN conjunct1] p
  have dens: "(2 - 5) mod groupOrder small_tss \<noteq> 0
   \<and> ((2 - 5) mod groupOrder small_tss
        * invm ((2 - 5) mod groupOrder small_tss) (groupOrder small_tss)) mod groupOrder small_tss
       = 1
   \<and> (2 - 1) mod groupOrder small_tss \<noteq> 0
   \<and> ((2 - 1) mod groupOrder small_tss
        * invm ((2 - 1) mod groupOrder small_tss) (groupOrder small_tss)) mod groupOrder small_tss
       = 1"
    by simp
  from inverses [THEN conjunct2, THEN mp, OF p]
  have quotient: "(lagrangeCoefficient small_tss 2 [2, 5, 1] * ((2 - 5) * (2 - 1)))
                    mod groupOrder small_tss
                  = ((- 5) * (- 1)) mod groupOrder small_tss"
    by simp
  show ?thesis
    by (intro conjI ids small p ok t parties run [THEN conjunct1] run [THEN conjunct2, THEN conjunct1]
        general [THEN conjunct1] dens [THEN conjunct1] dens [THEN conjunct2, THEN conjunct1]
        dens [THEN conjunct2, THEN conjunct2, THEN conjunct1]
        dens [THEN conjunct2, THEN conjunct2, THEN conjunct2] quotient)
qed

subsection \<open>Partial signatures\<close>

lemma generatePartialSignature_cases:
  "generatePartialSignature self ext message party sessionId (Some nonce) dateNow now =
     (if nonce = []
      then generatePartialSignature self ext message party sessionId None dateNow now
      else
     (case BN16 nonce of
        None \<Rightarrow> Inl (FailedToGeneratePartialSignature (InvalidCharacter nonce))
      | Some (Hollow negative) \<Rightarrow> Inl (FailedToGeneratePartialSignature UndefinedProperty)
      | Some (Number kBN) \<Rightarrow>
     (case g_mul_getX ext (kBN mod groupOrder self) of
        None \<Rightarrow> Inl (FailedToGeneratePartialSignature UndefinedProperty)
      | Some x \<Rightarrow>
     (case BN16 (p_privateKeyShare party) of
        None \<Rightarrow> Inl (FailedToGeneratePartialSignature (InvalidCharacter (p_privateKeyShare party)))
      | Some (Hollow negative) \<Rightarrow> Inl (FailedToGeneratePartialSignature UndefinedProperty)
      | Some (Number xi) \<Rightarrow>
          Inr \<lparr>ps_partyId = p_id party, ps_sessionId = sessionId,
                ps_r = hex64 (int x mod groupOrder self),
                ps_si = hex64 ((invm (kBN mod groupOrder self) (groupOrder self)
                   * ((int (SHA256 ext message) + (int x mod groupOrder self * xi) mod groupOrder self)
                        mod groupOrder self)) mod groupOrder self),
                ps_messageHash = SHA256_toString ext message,
                ps_message = message, ps_timestamp = now,
                ps_securityNote = ''This is a partial signature and not valid alone''\<rparr>))))"
proof -
  have hash: "BN16 (SHA256_toString ext message) = Some (Number (int (SHA256 ext message)))"
    by (simp add: SHA256_toString_def BN16_hex64)
  have xcoord: "BN16 (toString16 (int x)) = Some (Number (int x))" for x :: nat
    by (simp add: BN16_toString16)
  show ?thesis
    unfolding generatePartialSignature_def Let_def
    by (simp add: hash xcoord split: option.splits bn.splits)
qed

lemma signature_equation:
  assumes p: "prime_order m" and k: "k mod m \<noteq> 0"
  shows "(k mod m * ((invm (k mod m) m * ((e + (r * xi) mod m) mod m)) mod m)) mod m
           = (e + r * xi) mod m"
proof -
  let ?k = "k mod m"
  from p have m: "1 < m" by (simp add: prime_order_def)
  from prime_order_inverse [OF p k] have one: "(?k * invm ?k m) mod m = 1 mod m"
    using m by simp
  have "(?k * ((invm ?k m * ((e + (r * xi) mod m) mod m)) mod m)) mod m
          = (?k * (invm ?k m * ((e + (r * xi) mod m) mod m))) mod m"
    by (rule mod_mult_right_eq)
  also have "\<dots> = ((?k * invm ?k m) * ((e + (r * xi) mod m) mod m)) mod m"
    by (simp add: mult.assoc)
  also have "\<dots> = (1 * ((e + (r * xi) mod m) mod m)) mod m"
    using one by (rule mod_mult_cong [OF _ refl])
  also have "\<dots> = (e + r * xi) mod m"
    by (simp add: mod_simps)
  finally show ?thesis .
qed

text \<open>
  Claim C6 says that \<^verbatim>\<open>generatePartialSignature\<close> returns a partial signature for every
  explicitly supplied nonce. It throws for the nonce \<^verbatim>\<open>00\<close>, for which \<open>k = 0\<close> and the point
  has no coordinate, and for the nonce \<^verbatim>\<open>xyz\<close>, which is no hexadecimal number.
\<close>

theorem generatePartialSignature_nonce_counterexample:
  "generatePartialSignature small_tss toy_ext ''m'' toy_party ''sid'' (Some ''00'') 0 ''t''
     = Inl (FailedToGeneratePartialSignature UndefinedProperty)
   \<and> generatePartialSignature small_tss toy_ext ''m'' toy_party ''sid'' (Some ''xyz'') 0 ''t''
       = Inl (FailedToGeneratePartialSignature (InvalidCharacter ''xyz''))"
  by code_simp

text \<open>
  Claim C6, amended. Take a supplied nonce that is not the empty string. When it is a
  hexadecimal number, the curve returns the coordinate \<open>x\<close> of \<open>k\<close> times the base point, where
  \<open>k = nonce mod groupOrder\<close>, and the share of the party is a hexadecimal number,
  \<^verbatim>\<open>generatePartialSignature\<close> returns the partial signature with
  \<open>messageHash = hash message\<close>, read as the number \<open>e\<close>; \<open>r = x mod groupOrder\<close>; and
  \<open>si = k\<^sup>-\<^sup>1 * (e + r * share) mod groupOrder\<close>, each product and sum reduced. For a prime
  order and \<open>k \<noteq> 0\<close> the factor \<open>k\<^sup>-\<^sup>1\<close> is the inverse of \<open>k\<close>: \<open>si\<close> is the residue with
  \<open>k * si = e + r * share\<close> modulo the group order. In every other case it throws
  \<^verbatim>\<open>Failed to generate partial signature\<close>: for a nonce that \<^verbatim>\<open>new BN\<close> refuses or that has no
  digits, for a nonce whose point has no coordinate (\<open>k = 0\<close>), and for a share that
  \<^verbatim>\<open>new BN\<close> refuses or that has no digits.
\<close>

theorem generatePartialSignature_formula:
  "(nonce \<noteq> [] \<and> BN16 nonce = Some (Number kBN)
      \<and> g_mul_getX ext (kBN mod groupOrder self) = Some x
      \<and> BN16 (p_privateKeyShare party) = Some (Number xi) \<longrightarrow>
      (\<exists>r si.
         generatePartialSignature self ext message party sessionId (Some nonce) dateNow now
           = Inr \<lparr>ps_partyId = p_id party, ps_sessionId = sessionId,
                   ps_r = hex64 r, ps_si = hex64 si,
                   ps_messageHash = SHA256_toString ext message,
                   ps_message = message, ps_timestamp = now,
                   ps_securityNote = ''This is a partial signature and not valid alone''\<rparr>
         \<and> r = int x mod groupOrder self
         \<and> si = (invm (kBN mod groupOrder self) (groupOrder self)
                  * ((int (SHA256 ext message) + (r * xi) mod groupOrder self) mod groupOrder self))
                 mod groupOrder self
         \<and> (prime_order (groupOrder self) \<and> kBN mod groupOrder self \<noteq> 0 \<longrightarrow>
               0 \<le> si \<and> si < groupOrder self
               \<and> ((kBN mod groupOrder self) * si) mod groupOrder self
                   = (int (SHA256 ext message) + r * xi) mod groupOrder self)))
   \<and> (nonce \<noteq> [] \<and> BN16 nonce = None \<longrightarrow>
        generatePartialSignature self ext message party sessionId (Some nonce) dateNow now
          = Inl (FailedToGeneratePartialSignature (InvalidCharacter nonce)))
   \<and> (nonce \<noteq> [] \<and> BN16 nonce = Some (Hollow negative) \<longrightarrow>
        generatePartialSignature self ext message party sessionId (Some nonce) dateNow now
          = Inl (FailedToGeneratePartialSignature UndefinedProperty))
   \<and> (nonce \<noteq> [] \<and> BN16 nonce = Some (Number kBN)
        \<and> g_mul_getX ext (kBN mod groupOrder self) = None \<longrightarrow>
        generatePartialSignature self ext message party sessionId (Some nonce) dateNow now
          = Inl (FailedToGeneratePartialSignature UndefinedProperty))
   \<and> (nonce \<noteq> [] \<and> BN16 nonce = Some (Number kBN)
        \<and> g_mul_getX ext (kBN mod groupOrder self) = Some x
        \<and> BN16 (p_privateKeyShare party) = None \<longrightarrow>
        generatePartialSignature self ext message party sessionId (Some nonce) dateNow now
          = Inl (FailedToGeneratePartialSignature (InvalidCharacter (p_privateKeyShare party))))
   \<and> (nonce \<noteq> [] \<and> BN16 nonce = Some (Number kBN)
        \<and> g_mul_getX ext (kBN mod groupOrder self) = Some x
        \<and> BN16 (p_privateKeyShare party) = Some (Hollow negative) \<longrightarrow>
        generatePartialSignature self ext message party sessionId (Some nonce) dateNow now
          = Inl (FailedToGeneratePartialSignature UndefinedProperty))"
proof (intro conjI impI; elim conjE)
  let ?m = "groupOrder self"
  let ?k = "kBN mod ?m"
  let ?e = "int (SHA256 ext message)"
  assume nonce: "nonce \<noteq> []" "BN16 nonce = Some (Number kBN)"
    and point: "g_mul_getX ext ?k = Some x"
    and share: "BN16 (p_privateKeyShare party) = Some (Number xi)"
  define r where "r = int x mod ?m"
  define si where "si = (invm ?k ?m * ((?e + (r * xi) mod ?m) mod ?m)) mod ?m"
  have run: "generatePartialSignature self ext message party sessionId (Some nonce) dateNow now
        = Inr \<lparr>ps_partyId = p_id party, ps_sessionId = sessionId,
                ps_r = hex64 r, ps_si = hex64 si,
                ps_messageHash = SHA256_toString ext message,
                ps_message = message, ps_timestamp = now,
                ps_securityNote = ''This is a partial signature and not valid alone''\<rparr>"
    unfolding generatePartialSignature_cases r_def si_def
    by (simp add: nonce share point)
  have inv: "0 \<le> si \<and> si < ?m \<and> (?k * si) mod ?m = (?e + r * xi) mod ?m"
    if p: "prime_order ?m" and k: "?k \<noteq> 0"
  proof -
    from p have m: "1 < ?m" by (simp add: prime_order_def)
    have "(?k * si) mod ?m = (?e + r * xi) mod ?m"
      unfolding si_def by (rule signature_equation [OF p k])
    with m show ?thesis by (simp add: si_def)
  qed
  from run inv show "\<exists>r si.
         generatePartialSignature self ext message party sessionId (Some nonce) dateNow now
           = Inr \<lparr>ps_partyId = p_id party, ps_sessionId = sessionId,
                   ps_r = hex64 r, ps_si = hex64 si,
                   ps_messageHash = SHA256_toString ext message,
                   ps_message = message, ps_timestamp = now,
                   ps_securityNote = ''This is a partial signature and not valid alone''\<rparr>
         \<and> r = int x mod groupOrder self
         \<and> si = (invm (kBN mod groupOrder self) (groupOrder self)
                  * ((int (SHA256 ext message) + (r * xi) mod groupOrder self) mod groupOrder self))
                 mod groupOrder self
         \<and> (prime_order (groupOrder self) \<and> kBN mod groupOrder self \<noteq> 0 \<longrightarrow>
               0 \<le> si \<and> si < groupOrder self
               \<and> ((kBN mod groupOrder self) * si) mod groupOrder self
                   = (int (SHA256 ext message) + r * xi) mod groupOrder self)"
    unfolding r_def [symmetric] si_def [symmetric]
    by (intro exI [of _ r] exI [of _ si]) (simp add: r_def si_def)
next
  assume "nonce \<noteq> []" "BN16 nonce = None"
  then show "generatePartialSignature self ext message party sessionId (Some nonce) dateNow now
          = Inl (FailedToGeneratePartialSignature (InvalidCharacter nonce))"
    by (simp add: generatePartialSignature_cases)
next
  assume "nonce \<noteq> []" "BN16 nonce = Some (Hollow negative)"
  then show "generatePartialSignature self ext message party sessionId (Some nonce) dateNow now
          = Inl (FailedToGeneratePartialSignature UndefinedProperty)"
    by (simp add: generatePartialSignature_cases)
next
  assume "nonce \<noteq> []" "BN16 nonce = Some (Number kBN)"
    "g_mul_getX ext (kBN mod groupOrder self) = None"
  then show "generatePartialSignature self ext message party sessionId (Some nonce) dateNow now
          = Inl (FailedToGeneratePartialSignature UndefinedProperty)"
    by (simp add: generatePartialSignature_cases)
next
  assume "nonce \<noteq> []" "BN16 nonce = Some (Number kBN)"
    "g_mul_getX ext (kBN mod groupOrder self) = Some x"
    "BN16 (p_privateKeyShare party) = None"
  then show "generatePartialSignature self ext message party sessionId (Some nonce) dateNow now
          = Inl (FailedToGeneratePartialSignature (InvalidCharacter (p_privateKeyShare party)))"
    by (simp add: generatePartialSignature_cases)
next
  assume "nonce \<noteq> []" "BN16 nonce = Some (Number kBN)"
    "g_mul_getX ext (kBN mod groupOrder self) = Some x"
    "BN16 (p_privateKeyShare party) = Some (Hollow negative)"
  then show "generatePartialSignature self ext message party sessionId (Some nonce) dateNow now
          = Inl (FailedToGeneratePartialSignature UndefinedProperty)"
    by (simp add: generatePartialSignature_cases)
qed

text \<open>
  Party 2 on the stand-in group: \<open>r = 7\<close> and \<open>si = 96\<close>, and \<open>7 * 96 = 109 + 7 * 188\<close> modulo
  251; and the five ways to fail.
\<close>

lemma toy_sign_runs:
  "''07'' \<noteq> []"
  "BN16 ''07'' = Some (Number 7)"
  "g_mul_getX toy_ext (7 mod groupOrder small_tss) = Some 7"
  "BN16 (p_privateKeyShare toy_party) = Some (Number 188)"
  "prime_order (groupOrder small_tss)"
  "generatePartialSignature small_tss toy_ext ''m'' toy_party ''sid'' (Some ''07'') 0 ''t''
     = Inr toy_partial"
  "(invm (7 mod groupOrder small_tss) (groupOrder small_tss)
      * ((int (SHA256 toy_ext ''m'')
           + (int 7 mod groupOrder small_tss * 188) mod groupOrder small_tss)
         mod groupOrder small_tss))
     mod groupOrder small_tss = 96"
  "''xyz'' \<noteq> []"
  "BN16 ''xyz'' = None"
  "'' '' \<noteq> []"
  "BN16 '' '' = Some (Hollow False)"
  "''00'' \<noteq> []"
  "BN16 ''00'' = Some (Number 0)"
  "g_mul_getX toy_ext (0 mod groupOrder small_tss) = None"
  "BN16 (p_privateKeyShare (toy_party\<lparr>p_privateKeyShare := ''0x''\<rparr>)) = None"
  "BN16 (p_privateKeyShare (toy_party\<lparr>p_privateKeyShare := ''-''\<rparr>)) = Some (Hollow True)"
  by code_simp+

theorem generatePartialSignature_formula_witness:
  "''07'' \<noteq> [] \<and> BN16 ''07'' = Some (Number 7)
   \<and> g_mul_getX toy_ext (7 mod groupOrder small_tss) = Some 7
   \<and> BN16 (p_privateKeyShare toy_party) = Some (Number 188)
   \<and> prime_order (groupOrder small_tss) \<and> 7 mod groupOrder small_tss \<noteq> 0
   \<and> generatePartialSignature small_tss toy_ext ''m'' toy_party ''sid'' (Some ''07'') 0 ''t''
       = Inr toy_partial
   \<and> ps_r toy_partial = hex64 (int 7 mod groupOrder small_tss)
   \<and> ps_si toy_partial = hex64 96
   \<and> (7 mod groupOrder small_tss * 96) mod groupOrder small_tss
       = (int (SHA256 toy_ext ''m'') + int 7 mod groupOrder small_tss * 188) mod groupOrder small_tss
   \<and> ''xyz'' \<noteq> [] \<and> BN16 ''xyz'' = None
   \<and> generatePartialSignature small_tss toy_ext ''m'' toy_party ''sid'' (Some ''xyz'') 0 ''t''
       = Inl (FailedToGeneratePartialSignature (InvalidCharacter ''xyz''))
   \<and> '' '' \<noteq> [] \<and> BN16 '' '' = Some (Hollow False)
   \<and> generatePartialSignature small_tss toy_ext ''m'' toy_party ''sid'' (Some '' '') 0 ''t''
       = Inl (FailedToGeneratePartialSignature UndefinedProperty)
   \<and> ''00'' \<noteq> [] \<and> BN16 ''00'' = Some (Number 0)
   \<and> g_mul_getX toy_ext (0 mod groupOrder small_tss) = None
   \<and> generatePartialSignature small_tss toy_ext ''m'' toy_party ''sid'' (Some ''00'') 0 ''t''
       = Inl (FailedToGeneratePartialSignature UndefinedProperty)
   \<and> BN16 (p_privateKeyShare (toy_party\<lparr>p_privateKeyShare := ''0x''\<rparr>)) = None
   \<and> generatePartialSignature small_tss toy_ext ''m'' (toy_party\<lparr>p_privateKeyShare := ''0x''\<rparr>)
         ''sid'' (Some ''07'') 0 ''t''
       = Inl (FailedToGeneratePartialSignature (InvalidCharacter ''0x''))
   \<and> BN16 (p_privateKeyShare (toy_party\<lparr>p_privateKeyShare := ''-''\<rparr>)) = Some (Hollow True)
   \<and> generatePartialSignature small_tss toy_ext ''m'' (toy_party\<lparr>p_privateKeyShare := ''-''\<rparr>)
         ''sid'' (Some ''07'') 0 ''t''
       = Inl (FailedToGeneratePartialSignature UndefinedProperty)"
proof -
  note run = toy_sign_runs
  have k: "7 mod groupOrder small_tss \<noteq> 0"
    by (simp add: small_tss_def)
  have h1: "''07'' \<noteq> [] \<and> BN16 ''07'' = Some (Number 7)
      \<and> g_mul_getX toy_ext (7 mod groupOrder small_tss) = Some 7
      \<and> BN16 (p_privateKeyShare toy_party) = Some (Number 188)"
    by (intro conjI run)
  from generatePartialSignature_formula
    [where self = small_tss and ext = toy_ext and message = "''m''" and party = toy_party
       and sessionId = "''sid''" and dateNow = 0 and now = "''t''",
     THEN conjunct1, THEN mp, OF h1]
  obtain r si where
    res: "generatePartialSignature small_tss toy_ext ''m'' toy_party ''sid'' (Some ''07'') 0 ''t''
        = Inr \<lparr>ps_partyId = p_id toy_party, ps_sessionId = ''sid'',
                ps_r = hex64 r, ps_si = hex64 si,
                ps_messageHash = SHA256_toString toy_ext ''m'',
                ps_message = ''m'', ps_timestamp = ''t'',
                ps_securityNote = ''This is a partial signature and not valid alone''\<rparr>"
    and r: "r = int 7 mod groupOrder small_tss"
    and si: "si = (invm (7 mod groupOrder small_tss) (groupOrder small_tss)
               * ((int (SHA256 toy_ext ''m'') + (r * 188) mod groupOrder small_tss)
                  mod groupOrder small_tss))
              mod groupOrder small_tss"
    and inv: "prime_order (groupOrder small_tss) \<and> 7 mod groupOrder small_tss \<noteq> 0 \<longrightarrow>
            0 \<le> si \<and> si < groupOrder small_tss
            \<and> ((7 mod groupOrder small_tss) * si) mod groupOrder small_tss
                = (int (SHA256 toy_ext ''m'') + r * 188) mod groupOrder small_tss"
    by (elim exE conjE) (rule that)
  from si run(7) have si96: "si = 96"
    unfolding r by simp
  from res [unfolded run(6)]
  have eq: "toy_partial = \<lparr>ps_partyId = p_id toy_party, ps_sessionId = ''sid'',
                ps_r = hex64 r, ps_si = hex64 si,
                ps_messageHash = SHA256_toString toy_ext ''m'',
                ps_message = ''m'', ps_timestamp = ''t'',
                ps_securityNote = ''This is a partial signature and not valid alone''\<rparr>"
    by (simp only: sum.inject)
  have fields: "ps_r toy_partial = hex64 (int 7 mod groupOrder small_tss)"
    "ps_si toy_partial = hex64 96"
    unfolding si96 [symmetric] r [symmetric] by (subst eq, simp)+
  from inv run(5) k have "((7 mod groupOrder small_tss) * si) mod groupOrder small_tss
                = (int (SHA256 toy_ext ''m'') + r * 188) mod groupOrder small_tss"
    by blast
  then have c1: "(7 mod groupOrder small_tss * 96) mod groupOrder small_tss
       = (int (SHA256 toy_ext ''m'') + int 7 mod groupOrder small_tss * 188) mod groupOrder small_tss"
    unfolding si96 r .
  have c2: "generatePartialSignature small_tss toy_ext ''m'' toy_party ''sid'' (Some ''xyz'') 0 ''t''
       = Inl (FailedToGeneratePartialSignature (InvalidCharacter ''xyz''))"
    by (rule generatePartialSignature_formula
          [THEN conjunct2, THEN conjunct1, THEN mp, OF conjI [OF run(8) run(9)]])
  have c3: "generatePartialSignature small_tss toy_ext ''m'' toy_party ''sid'' (Some '' '') 0 ''t''
       = Inl (FailedToGeneratePartialSignature UndefinedProperty)"
    by (rule generatePartialSignature_formula
          [THEN conjunct2, THEN conjunct2, THEN conjunct1, THEN mp, OF conjI [OF run(10) run(11)]])
  have h4: "''00'' \<noteq> [] \<and> BN16 ''00'' = Some (Number 0)
      \<and> g_mul_getX toy_ext (0 mod groupOrder small_tss) = None"
    by (intro conjI run)
  have c4: "generatePartialSignature small_tss toy_ext ''m'' toy_party ''sid'' (Some ''00'') 0 ''t''
       = Inl (FailedToGeneratePartialSignature UndefinedProperty)"
    by (rule generatePartialSignature_formula
          [THEN conjunct2, THEN conjunct2, THEN conjunct2, THEN conjunct1, THEN mp, OF h4])
  have h5: "''07'' \<noteq> [] \<and> BN16 ''07'' = Some (Number 7)
      \<and> g_mul_getX toy_ext (7 mod groupOrder small_tss) = Some 7
      \<and> BN16 (p_privateKeyShare (toy_party\<lparr>p_privateKeyShare := ''0x''\<rparr>)) = None"
    by (intro conjI run)
  have c5: "generatePartialSignature small_tss toy_ext ''m''
         (toy_party\<lparr>p_privateKeyShare := ''0x''\<rparr>) ''sid'' (Some ''07'') 0 ''t''
       = Inl (FailedToGeneratePartialSignature (InvalidCharacter ''0x''))"
    using generatePartialSignature_formula
          [where party = "toy_party\<lparr>p_privateKeyShare := ''0x''\<rparr>",
           THEN conjunct2, THEN conjunct2, THEN conjunct2, THEN conjunct2, THEN conjunct1,
           THEN mp, OF h5]
    by simp
  have h6: "''07'' \<noteq> [] \<and> BN16 ''07'' = Some (Number 7)
      \<and> g_mul_getX toy_ext (7 mod groupOrder small_tss) = Some 7
      \<and> BN16 (p_privateKeyShare (toy_party\<lparr>p_privateKeyShare := ''-''\<rparr>)) = Some (Hollow True)"
    by (intro conjI run)
  have c6: "generatePartialSignature small_tss toy_ext ''m''
         (toy_party\<lparr>p_privateKeyShare := ''-''\<rparr>) ''sid'' (Some ''07'') 0 ''t''
       = Inl (FailedToGeneratePartialSignature UndefinedProperty)"
    by (rule generatePartialSignature_formula
           [THEN conjunct2, THEN conjunct2, THEN conjunct2, THEN conjunct2, THEN conjunct2,
            THEN mp, OF h6])
  show ?thesis
    by (intro conjI run(1) run(2) run(3) run(4) run(5) k run(6) fields c1 run(8) run(9) c2
        run(10) run(11) c3 run(12) run(13) run(14) c4 run(15) c5 run(16) c6)
qed

subsection \<open>From key generation to the combined signature\<close>

lemma generateDistributedKeys_parties:
  assumes "generateDistributedKeys self ext randomKey randomCoeff clock = Inr keys"
  shows "kg_parties keys =
           map (\<lambda>i. \<lparr>p_id = i,
                      p_privateKeyShare =
                        hex64 (evaluatePolynomial self
                                 (generatePolynomialCoefficients self
                                    (int randomKey mod groupOrder self) randomCoeff) i),
                      p_publicKey = kg_publicKey keys,
                      p_shareIndex = i,
                      p_created = clock i\<rparr>)
               [1..totalParties self]"
    and "g_mul_encode ext (int randomKey mod groupOrder self) = Some (kg_publicKey keys)"
  using assms
  by (auto simp: generateDistributedKeys_def Let_def split: option.splits)

lemma generateDistributedKeys_party:
  assumes keys: "generateDistributedKeys self ext randomKey randomCoeff clock = Inr keys"
    and p: "p \<in> set (kg_parties keys)"
  shows "p_id p \<in> {1..totalParties self}"
    and "p_privateKeyShare p =
           hex64 (evaluatePolynomial self
                    (generatePolynomialCoefficients self
                       (int randomKey mod groupOrder self) randomCoeff) (p_id p))"
  using p unfolding generateDistributedKeys_parties(1) [OF keys] by auto

lemma generatePartialSignature_run:
  assumes nonce: "nonce \<noteq> []" "BN16 nonce = Some (Number kBN)"
    and share: "BN16 (p_privateKeyShare party) = Some (Number xi)"
    and point: "g_mul_getX ext (kBN mod groupOrder self) = Some x"
  shows "generatePartialSignature self ext message party sessionId (Some nonce) dateNow now
        = Inr \<lparr>ps_partyId = p_id party, ps_sessionId = sessionId,
                ps_r = hex64 (int x mod groupOrder self),
                ps_si = hex64 ((invm (kBN mod groupOrder self) (groupOrder self)
                   * ((int (SHA256 ext message) + (int x mod groupOrder self * xi) mod groupOrder self)
                        mod groupOrder self)) mod groupOrder self),
                ps_messageHash = SHA256_toString ext message,
                ps_message = message, ps_timestamp = now,
                ps_securityNote = ''This is a partial signature and not valid alone''\<rparr>"
proof -
  have hash: "BN16 (SHA256_toString ext message) = Some (Number (int (SHA256 ext message)))"
    by (simp add: SHA256_toString_def BN16_hex64)
  have xcoord: "BN16 (toString16 (int x)) = Some (Number (int x))"
    by (simp add: BN16_toString16)
  show ?thesis
    unfolding generatePartialSignature_def Let_def
    by (simp add: hash xcoord nonce share point)
qed

lemma sum_loop_sum:
  assumes "\<forall>i \<in> set idxs. i < length us \<and> BN16 (ps_si (us ! i)) = Some (Number (v i))"
  shows "\<exists>s0. sum_loop self ids us idxs s = Inr s0
           \<and> s0 mod groupOrder self
               = (s + (\<Sum>i\<leftarrow>idxs. lagrangeCoefficient self (ids ! i) ids * v i)) mod groupOrder self"
  using assms
proof (induction idxs arbitrary: s)
  case Nil
  then show ?case by simp
next
  case (Cons i idxs)
  let ?m = "groupOrder self"
  let ?t = "lagrangeCoefficient self (ids ! i) ids * v i"
  let ?rest = "\<Sum>i\<leftarrow>idxs. lagrangeCoefficient self (ids ! i) ids * v i"
  from Cons.prems have i: "i < length us" "BN16 (ps_si (us ! i)) = Some (Number (v i))"
    and rest: "\<forall>i \<in> set idxs. i < length us \<and> BN16 (ps_si (us ! i)) = Some (Number (v i))"
    by simp_all
  from Cons.IH [OF rest, of "(s + ?t mod ?m) mod ?m"] obtain s0 where
    run: "sum_loop self ids us idxs ((s + ?t mod ?m) mod ?m) = Inr s0"
    and val: "s0 mod ?m = ((s + ?t mod ?m) mod ?m + ?rest) mod ?m"
    by blast
  have "((s + ?t mod ?m) mod ?m + ?rest) mod ?m = (s + ?t + ?rest) mod ?m"
    by (simp add: mod_simps)
  with val have "s0 mod ?m = (s + (?t + ?rest)) mod ?m"
    by (simp add: add.assoc)
  with run i show ?case
    by (simp add: Let_def)
qed

lemma sum_list_nth_upt:
  "(\<Sum>i\<leftarrow>[0..<length xs]. f (xs ! i)) = (\<Sum>x\<leftarrow>xs. (f x :: int))"
proof -
  have "map (\<lambda>i. f (xs ! i)) [0..<length xs] = map f (map (\<lambda>i. xs ! i) [0..<length xs])"
    by simp
  also have "\<dots> = map f xs"
    by (simp only: map_nth)
  finally show ?thesis by simp
qed

lemma sum_list_linear:
  "(\<Sum>i\<leftarrow>xs. L i * (a * (e + r * E i)))
     = a * e * (\<Sum>i\<leftarrow>xs. L i) + a * r * (\<Sum>i\<leftarrow>xs. L i * (E i :: int))"
  by (induction xs) (simp_all add: algebra_simps)

lemma weighted_sum_is_signature:
  assumes p: "prime_order m" and m: "groupOrder self = m"
    and ids: "distinct ids" "set ids \<subseteq> {1..tp}" and small: "tp < m"
    and len: "length cs \<le> length ids" and nonempty: "ids \<noteq> []"
    and k: "kBN mod m \<noteq> 0"
  shows "(kBN mod m
            * (\<Sum>i\<leftarrow>ids. lagrangeCoefficient self i ids
                 * ((invm (kBN mod m) m
                      * ((e + (r * evaluatePolynomial self cs i) mod m) mod m)) mod m))) mod m
           = (e + r * peval cs 0) mod m"
proof -
  let ?k = "kBN mod m"
  let ?a = "invm ?k m"
  let ?L = "\<lambda>i. lagrangeCoefficient self i ids"
  let ?E = "\<lambda>i. evaluatePolynomial self cs i"
  let ?sv = "\<lambda>i. (?a * ((e + (r * ?E i) mod m) mod m)) mod m"
  from p have m1: "1 < m" by (simp add: prime_order_def)
  have one: "(?k * ?a) mod m = 1 mod m"
    using prime_order_inverse [OF p k] m1 by simp
  have s1: "(\<Sum>i\<leftarrow>ids. ?L i) mod m = 1 mod m"
  proof -
    from nonempty have "length [1::int] \<le> length ids"
      by (cases ids) simp_all
    from lagrange_sum_peval [OF p m ids small this]
    have "(\<Sum>i\<leftarrow>ids. ?L i * evaluatePolynomial self [1] i) mod m = 1 mod m"
      by simp
    moreover have "evaluatePolynomial self [1] i = 1" for i
      using m1 by (simp add: evaluatePolynomial_peval m)
    ultimately show ?thesis by simp
  qed
  have s2: "(\<Sum>i\<leftarrow>ids. ?L i * ?E i) mod m = peval cs 0 mod m"
    by (rule lagrange_sum_peval [OF p m ids small len])
  have "(\<Sum>i\<leftarrow>ids. ?L i * ?sv i) mod m = (\<Sum>i\<leftarrow>ids. ?L i * (?a * (e + r * ?E i))) mod m"
  proof (rule sum_list_mod_cong, rule ballI)
    fix i
    have "?sv i mod m = (?a * (e + r * ?E i)) mod m"
      by (simp add: mod_simps)
    then show "(?L i * ?sv i) mod m = (?L i * (?a * (e + r * ?E i))) mod m"
      by (rule mod_mult_cong [OF refl])
  qed
  also have "(\<Sum>i\<leftarrow>ids. ?L i * (?a * (e + r * ?E i)))
               = ?a * e * (\<Sum>i\<leftarrow>ids. ?L i) + ?a * r * (\<Sum>i\<leftarrow>ids. ?L i * ?E i)"
    by (rule sum_list_linear)
  also have "(?a * e * (\<Sum>i\<leftarrow>ids. ?L i) + ?a * r * (\<Sum>i\<leftarrow>ids. ?L i * ?E i)) mod m
               = (?a * e * 1 + ?a * r * peval cs 0) mod m"
    by (intro mod_add_cong mod_mult_cong refl s1 s2)
  also have "?a * e * 1 + ?a * r * peval cs 0 = ?a * (e + r * peval cs 0)"
    by (simp add: algebra_simps)
  finally have sum: "(\<Sum>i\<leftarrow>ids. ?L i * ?sv i) mod m = (?a * (e + r * peval cs 0)) mod m" .
  have "(?k * (\<Sum>i\<leftarrow>ids. ?L i * ?sv i)) mod m = (?k * (?a * (e + r * peval cs 0))) mod m"
    using sum by (rule mod_mult_cong [OF refl])
  also have "?k * (?a * (e + r * peval cs 0)) = (?k * ?a) * (e + r * peval cs 0)"
    by (simp add: mult.assoc)
  also have "((?k * ?a) * (e + r * peval cs 0)) mod m = (1 * (e + r * peval cs 0)) mod m"
    using one by (rule mod_mult_cong [OF _ refl])
  finally show ?thesis by simp
qed

lemma residue_product_zero:
  assumes p: "prime_order n" and k: "k mod n \<noteq> 0"
    and z: "(k mod n * s0) mod n = 0" and s0: "0 \<le> s0" "s0 < n"
  shows "s0 = 0"
proof -
  let ?k = "k mod n"
  let ?a = "invm ?k n"
  from p have n: "1 < n" by (simp add: prime_order_def)
  from prime_order_inverse [OF p k] have one: "(?k * ?a) mod n = 1 mod n"
    using n by simp
  have "s0 mod n = (1 * s0) mod n" by simp
  also have "\<dots> = ((?k * ?a) * s0) mod n"
    using one [symmetric] by (rule mod_mult_cong [OF _ refl])
  also have "(?k * ?a) * s0 = ?a * (?k * s0)"
    by (simp add: mult_ac)
  also have "(?a * (?k * s0)) mod n = (?a * 0) mod n"
    using z by (intro mod_mult_cong refl) simp
  finally have "s0 mod n = 0" by simp
  with s0 show ?thesis by simp
qed

lemma ecdsa_accepts_signature:
  assumes p: "prime_order n" and k: "k mod n \<noteq> 0"
    and x: "g_mul_getX ext (k mod n) = Some x"
    and xneg: "g_mul_getX ext ((n - k mod n) mod n) = Some x"
    and r: "int x mod n \<noteq> 0"
    and s0: "0 < s0" "s0 < n"
    and eq: "(k mod n * s0) mod n = (e + (int x mod n) * d) mod n"
  shows "ecdsa_accepts ext n d e (int x mod n) (if n div 2 < s0 then n - s0 else s0)"
proof -
  let ?k = "k mod n"
  define r where "r = int x mod n"
  define s where "s = (if n div 2 < s0 then n - s0 else s0)"
  define w where "w = invm s n"
  from p have n: "1 < n" by (simp add: prime_order_def)
  have s_range: "1 \<le> s" "s < n"
    using s0 by (auto simp: s_def)
  then have s_mod: "s mod n = s" by simp
  then have "s mod n \<noteq> 0" using s_range by simp
  from prime_order_inverse [OF p this] have sw: "(s * w) mod n = 1"
    unfolding s_mod w_def .
  from n have "0 \<le> r" and r_less: "r < n"
    by (simp_all add: r_def)
  with r have r_range: "1 \<le> r" "r < n"
    by (simp_all add: r_def)
  have "((r * w) mod n * d) mod n = (r * w * d) mod n"
    by (rule mod_mult_left_eq)
  then have "(e * w + (r * w) mod n * d) mod n = (e * w + r * w * d) mod n"
    by (rule mod_add_cong [OF refl])
  moreover have "((e * w) mod n + (r * w) mod n * d) mod n = (e * w + (r * w) mod n * d) mod n"
    by (rule mod_add_left_eq)
  ultimately have "(((e * w) mod n + ((r * w) mod n) * d) mod n) = (e * w + r * w * d) mod n"
    by (simp only:)
  also have "e * w + r * w * d = (e + r * d) * w"
    by (simp add: algebra_simps)
  also have "((e + r * d) * w) mod n = ((?k * s0) * w) mod n"
    using eq [symmetric] unfolding r_def [symmetric] by (rule mod_mult_cong [OF _ refl])
  also have "(?k * s0) * w = ?k * (s0 * w)"
    by (simp add: mult.assoc)
  finally have T: "(((e * w) mod n + ((r * w) mod n) * d) mod n) = (?k * (s0 * w)) mod n" .
  have point: "g_mul_getX ext ((?k * (s0 * w)) mod n) = Some x"
  proof (cases "n div 2 < s0")
    case False
    then have "s = s0" by (simp add: s_def)
    with sw have "(s0 * w) mod n = 1 mod n" using n by simp
    then have "(?k * (s0 * w)) mod n = (?k * 1) mod n"
      by (rule mod_mult_cong [OF refl])
    then have "(?k * (s0 * w)) mod n = ?k" by simp
    with x show ?thesis by simp
  next
    case True
    then have "s = n - s0" by (simp add: s_def)
    with sw have "((n - s0) * w) mod n = 1 mod n" using n by simp
    moreover have "(n - s0) * w = n * w + (- (s0 * w))"
      by (simp add: left_diff_distrib)
    moreover have "(n * w + (- (s0 * w))) mod n = (- (s0 * w)) mod n"
      by (rule mod_mult_self4)
    ultimately have "(- (s0 * w)) mod n = 1 mod n"
      by (simp only:)
    then have "(- (- (s0 * w))) mod n = (- 1) mod n"
      by (rule mod_minus_cong)
    then have "(s0 * w) mod n = (- 1) mod n" by simp
    then have "(?k * (s0 * w)) mod n = (?k * (- 1)) mod n"
      by (rule mod_mult_cong [OF refl])
    also have "(?k * (- 1)) mod n = (n - ?k) mod n"
      by (metis diff_0 mod_diff_left_eq mod_self mult_minus1_right)
    finally show ?thesis using xneg by simp
  qed
  have "ecdsa_accepts ext n d e r s"
    unfolding ecdsa_accepts_def Let_def w_def [symmetric] T
    using s_range r_range point by (simp add: r_def)
  then show ?thesis
    by (simp only: r_def s_def)
qed

lemma ecdsa_accepts_iff:
  assumes p: "prime_order n" and k: "k mod n \<noteq> 0"
    and x: "g_mul_getX ext (k mod n) = Some x"
    and xneg: "g_mul_getX ext ((n - k mod n) mod n) = Some x"
    and s0: "0 \<le> s0" "s0 < n"
    and eq: "(k mod n * s0) mod n = (e + (int x mod n) * d) mod n"
  shows "ecdsa_accepts ext n d e (int x mod n) (if n div 2 < s0 then n - s0 else s0)
         \<longleftrightarrow> int x mod n \<noteq> 0 \<and> (e + (int x mod n) * d) mod n \<noteq> 0"
proof
  assume acc: "ecdsa_accepts ext n d e (int x mod n) (if n div 2 < s0 then n - s0 else s0)"
  then have r: "1 \<le> int x mod n" and s: "1 \<le> (if n div 2 < s0 then n - s0 else s0)"
    by (simp_all add: ecdsa_accepts_def)
  from s s0 have "s0 \<noteq> 0"
    by (auto split: if_splits)
  have "(k mod n * s0) mod n \<noteq> 0"
  proof
    assume "(k mod n * s0) mod n = 0"
    with p k have "s0 = 0" using s0 by (rule residue_product_zero)
    with \<open>s0 \<noteq> 0\<close> show False by simp
  qed
  with eq r show "int x mod n \<noteq> 0 \<and> (e + (int x mod n) * d) mod n \<noteq> 0"
    by simp
next
  assume "int x mod n \<noteq> 0 \<and> (e + (int x mod n) * d) mod n \<noteq> 0"
  then have r: "int x mod n \<noteq> 0" and nz: "(e + (int x mod n) * d) mod n \<noteq> 0"
    by simp_all
  from nz eq have "s0 \<noteq> 0" by auto
  with s0 have "0 < s0" by simp
  from p k x xneg r this s0(2) eq
  show "ecdsa_accepts ext n d e (int x mod n) (if n div 2 < s0 then n - s0 else s0)"
    by (rule ecdsa_accepts_signature)
qed

text \<open>
  Claim C1 says that the combined signature of \<open>t\<close> parties verifies as a standard ECDSA
  signature under the public key of the key set, and that this is the same as the weighted sum
  being \<open>k\<^sup>-\<^sup>1 * (e + r * secret)\<close>. The sum is that residue, but the residue can be 0, and
  ECDSA verification accepts no signature with \<open>s = 0\<close>. On the stand-in group, with the key set
  of master key 42, the parties 2, 5 and 3, the nonce 7 and the message \<open>hh\<close>, every condition
  of the claim holds, \<open>e + r * secret = 208 + 7 * 42\<close> is 0 modulo 251, the combination succeeds
  with \<open>s = 0\<close>, and \<^verbatim>\<open>verifySignature\<close> rejects the result.
\<close>

theorem threshold_signature_rejected_counterexample:
  "new_TrueThresholdSignature 251 3 5 = Inr small_tss
   \<and> generateDistributedKeys small_tss toy_ext 42 (\<lambda>i. 1000 + 17 * i)
        (\<lambda>i. ''2025-01-01T00:00:00.000Z'') = Inr toy_keys
   \<and> set toy_parties \<subseteq> set (kg_parties toy_keys)
   \<and> distinct (map p_id toy_parties)
   \<and> int (length toy_parties) = kg_threshold toy_keys
   \<and> BN16 ''07'' = Some (Number 7) \<and> 7 mod groupOrder small_tss \<noteq> 0
   \<and> map (\<lambda>p. generatePartialSignature small_tss toy_ext ''hh'' p ''sid'' (Some ''07'') 0 ''t'')
        toy_parties = map Inr toy_sigs_hh
   \<and> combinePartialSignatures small_tss ''hh'' toy_sigs_hh ''now'' = Inr toy_signature_hh
   \<and> cs_s toy_signature_hh = hex64 0
   \<and> \<not> ecdsa_accepts toy_ext (groupOrder small_tss) 42 (int (SHA256 toy_ext ''hh'')) 7 0
   \<and> verifySignature toy_ext toy_signature_hh (kg_publicKey toy_keys) ''later''
       = Inr (Rejected SignatureVerificationFailed)"
  by code_simp

text \<open>
  Claim C1, amended. Take a signer built by the constructor over a prime group order above
  \<open>totalParties\<close>, a key set it generated, \<open>t\<close> parties of that key set with distinct ids, a
  message and a shared nonce \<open>k\<close>, supplied as a hexadecimal string, with \<open>k mod groupOrder\<close>
  not zero and for which the curve returns the coordinate \<open>x\<close> of \<open>k\<close> times the base point.
  Then each party's call of \<^verbatim>\<open>generatePartialSignature\<close> returns a partial signature, and
  \<^verbatim>\<open>combinePartialSignatures\<close> succeeds on them. The weighted sum \<open>s0\<close> computed before the
  low-\<open>s\<close> step lies in \<open>0..<groupOrder\<close> and satisfies \<open>k * s0 = e + r * secret\<close> modulo the
  group order, that is \<open>s0 = k\<^sup>-\<^sup>1 * (e + r * secret)\<close>, where \<open>e\<close> is the hash of the message,
  \<open>r = x mod groupOrder\<close> and \<open>secret\<close> is the constant term of the polynomial, the scalar whose
  multiple of the base point is the public key of the key set. The returned signature carries
  \<open>r\<close>, the canonical form \<open>s\<close> of \<open>s0\<close>, the message, its hash and the ids of the parties.
  When the negative of the point has the same coordinate \<open>x\<close>, as on a curve, standard ECDSA
  verification under the public key accepts \<open>(r, s)\<close> exactly when \<open>r\<close> and \<open>e + r * secret\<close> are
  not zero modulo the group order; and when the check of the library is that verification,
  \<^verbatim>\<open>verifySignature\<close> returns the accepting result in that case and the verification-failed
  rejection otherwise.
\<close>

theorem threshold_signature_correct:
  assumes ctor: "new_TrueThresholdSignature ec_n t tp = Inr self"
    and prime: "prime_order ec_n" and small: "tp < ec_n"
    and keys: "generateDistributedKeys self ext randomKey randomCoeff clock = Inr keys"
    and parties: "set parties \<subseteq> set (kg_parties keys)" "distinct (map p_id parties)"
      "int (length parties) = t"
    and nonce: "nonce \<noteq> []" "BN16 nonce = Some (Number kBN)" "kBN mod ec_n \<noteq> 0"
    and point: "g_mul_getX ext (kBN mod ec_n) = Some x"
  shows "\<exists>sigs cs s0.
      map (\<lambda>p. generatePartialSignature self ext message p sessionId (Some nonce) dateNow
                 (stamp p)) parties = map Inr sigs
      \<and> combinePartialSignatures self message sigs now = Inr cs
      \<and> sum_loop self (map ps_partyId sigs) sigs [0..<nat t] 0 = Inr s0
      \<and> 0 \<le> s0 \<and> s0 < ec_n
      \<and> (kBN mod ec_n * s0) mod ec_n
          = (int (SHA256 ext message) + (int x mod ec_n) * (int randomKey mod ec_n)) mod ec_n
      \<and> g_mul_encode ext (int randomKey mod ec_n) = Some (kg_publicKey keys)
      \<and> cs_r cs = hex64 (int x mod ec_n)
      \<and> cs_s cs = hex64 (if ec_n div 2 < s0 then ec_n - s0 else s0)
      \<and> cs_message cs = message
      \<and> cs_messageHash cs = SHA256_toString ext message
      \<and> cs_participatingParties cs = map p_id parties
      \<and> (g_mul_getX ext ((ec_n - kBN mod ec_n) mod ec_n) = Some x \<longrightarrow>
            (ecdsa_accepts ext ec_n (int randomKey mod ec_n) (int (SHA256 ext message))
               (int x mod ec_n) (if ec_n div 2 < s0 then ec_n - s0 else s0)
             \<longleftrightarrow> int x mod ec_n \<noteq> 0
                 \<and> (int (SHA256 ext message) + (int x mod ec_n) * (int randomKey mod ec_n)) mod ec_n
                     \<noteq> 0))
      \<and> (keyFromPublic ext (kg_publicKey keys) = Inr key
          \<and> key_verify ext key (SHA256_toString ext message) (Number (int x mod ec_n))
                (Number (if ec_n div 2 < s0 then ec_n - s0 else s0))
              = Inr (ecdsa_accepts ext ec_n (int randomKey mod ec_n) (int (SHA256 ext message))
                       (int x mod ec_n) (if ec_n div 2 < s0 then ec_n - s0 else s0)) \<longrightarrow>
            verifySignature ext cs (kg_publicKey keys) later
              = Inr (if ecdsa_accepts ext ec_n (int randomKey mod ec_n) (int (SHA256 ext message))
                          (int x mod ec_n) (if ec_n div 2 < s0 then ec_n - s0 else s0)
                     then Accepted message (kg_publicKey keys) later (map p_id parties)
                     else Rejected SignatureVerificationFailed))"
proof -
  from ctor have self: "threshold self = t" "totalParties self = tp" "groupOrder self = ec_n"
    and t: "2 \<le> t"
    by (auto simp: new_TrueThresholdSignature_def split: if_splits)
  from prime have m1: "1 < ec_n" by (simp add: prime_order_def)
  let ?k = "kBN mod ec_n"
  let ?e = "int (SHA256 ext message)"
  let ?r = "int x mod ec_n"
  let ?secret = "int randomKey mod ec_n"
  define coeffs where "coeffs = generatePolynomialCoefficients self ?secret randomCoeff"
  define E where "E i = evaluatePolynomial self coeffs i" for i
  define sv where "sv i = (invm ?k ec_n * ((?e + (?r * E i) mod ec_n) mod ec_n)) mod ec_n" for i
  define mk where "mk p =
      \<lparr>ps_partyId = p_id p, ps_sessionId = sessionId,
       ps_r = hex64 ?r, ps_si = hex64 (sv (p_id p)),
       ps_messageHash = SHA256_toString ext message,
       ps_message = message, ps_timestamp = stamp p,
       ps_securityNote = ''This is a partial signature and not valid alone''\<rparr>" for p
  define sigs where "sigs = map mk parties"
  define ids where "ids = map p_id parties"
  have E_pos: "0 \<le> E i" for i
    using m1 by (simp add: E_def evaluatePolynomial_peval self)
  have sv_pos: "0 \<le> sv i" for i
    using m1 by (simp add: sv_def)
  have r_pos: "0 \<le> ?r"
    using m1 by simp
  have party: "p_id p \<in> {1..tp}" "BN16 (p_privateKeyShare p) = Some (Number (E (p_id p)))"
    if "p \<in> set parties" for p
  proof -
    from that parties(1) have p: "p \<in> set (kg_parties keys)" by blast
    from generateDistributedKeys_party(1) [OF keys p] show "p_id p \<in> {1..tp}"
      by (simp add: self)
    from generateDistributedKeys_party(2) [OF keys p]
    have "p_privateKeyShare p = hex64 (E (p_id p))"
      by (simp add: E_def coeffs_def self)
    then show "BN16 (p_privateKeyShare p) = Some (Number (E (p_id p)))"
      by (simp add: BN16_hex64 E_pos)
  qed
  have signed: "generatePartialSignature self ext message p sessionId (Some nonce) dateNow (stamp p)
                  = Inr (mk p)" if "p \<in> set parties" for p
    using generatePartialSignature_run
      [of nonce kBN p "E (p_id p)" ext self x message sessionId dateNow "stamp p"]
      nonce(1,2) party(2) [OF that] point
    by (simp add: self mk_def sv_def)
  have c1: "map (\<lambda>p. generatePartialSignature self ext message p sessionId (Some nonce) dateNow
                 (stamp p)) parties = map Inr sigs"
    unfolding sigs_def map_map by (rule map_cong [OF refl]) (simp add: signed)
  have sig_ids: "map ps_partyId sigs = ids"
    by (simp add: sigs_def ids_def mk_def comp_def)
  have len: "length sigs = nat t" "length ids = nat t"
    using parties(3) by (simp_all add: sigs_def ids_def)
  have dist: "distinct ids"
    using parties(2) by (simp add: ids_def)
  have range: "set ids \<subseteq> {1..tp}"
    using party(1) by (auto simp: ids_def)
  from t len have "sigs \<noteq> []" by auto
  then obtain first rest where first: "sigs = first # rest"
    by (cases sigs) simp_all
  have every: "\<forall>sg \<in> set sigs. ps_r sg = hex64 ?r \<and> ps_messageHash sg = SHA256_toString ext message
                 \<and> ps_partyId sg \<in> {1..tp}"
    using party(1) by (auto simp: sigs_def mk_def)
  from t have t1: "1 \<le> t" by simp
  have sel: "select_loop (threshold self) sigs [] [] = sigs"
    using len dist
    by (simp add: self select_loop_spec [OF t1] first_seen_distinct sig_ids del: distinct_map)
  have parse: "\<forall>i \<in> set [0..<nat t]. i < length sigs
                 \<and> BN16 (ps_si (sigs ! i)) = Some (Number (sv (ids ! i)))"
    using len by (simp add: sigs_def ids_def mk_def BN16_hex64 sv_pos)
  from sum_loop_sum [OF parse, of self ids 0] obtain s0 where
    run: "sum_loop self ids sigs [0..<nat t] 0 = Inr s0"
    and val: "s0 mod ec_n
                = (\<Sum>i\<leftarrow>[0..<nat t]. lagrangeCoefficient self (ids ! i) ids * sv (ids ! i)) mod ec_n"
    by (auto simp: self)
  have s0_range: "0 \<le> s0 \<and> s0 < ec_n"
    using sum_loop_range [of self ids sigs "[0..<nat t]" 0 s0] run m1 by (simp add: self)
  have "(\<Sum>i\<leftarrow>[0..<nat t]. lagrangeCoefficient self (ids ! i) ids * sv (ids ! i))
          = (\<Sum>i\<leftarrow>ids. lagrangeCoefficient self i ids * sv i)"
    using sum_list_nth_upt [of "\<lambda>i. lagrangeCoefficient self i ids * sv i" ids]
    by (simp add: len)
  with val have val': "s0 mod ec_n = (\<Sum>i\<leftarrow>ids. lagrangeCoefficient self i ids * sv i) mod ec_n"
    by simp
  have len_cs: "length coeffs \<le> length ids"
    using t by (simp add: coeffs_def generatePolynomialCoefficients_def self len)
  from t len have ids_ne: "ids \<noteq> []" by auto
  have "(?k * s0) mod ec_n = (?k * (\<Sum>i\<leftarrow>ids. lagrangeCoefficient self i ids * sv i)) mod ec_n"
    using val' by (rule mod_mult_cong [OF refl])
  also have "\<dots> = (?e + ?r * peval coeffs 0) mod ec_n"
    using weighted_sum_is_signature
      [OF prime self(3) dist range small len_cs ids_ne nonce(3), of ?e ?r]
    by (simp add: sv_def E_def)
  also have "peval coeffs 0 = ?secret"
    by (simp add: coeffs_def generatePolynomialCoefficients_def)
  finally have c4: "(?k * s0) mod ec_n = (?e + ?r * ?secret) mod ec_n" .
  let ?s = "if ec_n div 2 < s0 then ec_n - s0 else s0"
  define cs where "cs =
      \<lparr>cs_r = hex64 ?r, cs_s = hex64 ?s, cs_message = message,
       cs_messageHash = ps_messageHash first,
       cs_participatingParties = map ps_partyId (select_loop (threshold self) sigs [] []),
       cs_sessionId = ps_sessionId first, cs_timestamp = now,
       cs_securityGuarantee = ''Private key was never reconstructed during signing''\<rparr>"
  from every first have first_r: "ps_r first = hex64 ?r"
    and first_hash: "ps_messageHash first = SHA256_toString ext message"
    by simp_all
  have c2: "combinePartialSignatures self message sigs now = Inr cs"
  proof (rule combine_InrI [where first = first and rest = rest and rBN = "Number ?r"
        and ?s0.0 = s0])
    show "sigs = first # rest" by (rule first)
    show "\<not> int (length sigs) < threshold self" using t len by (simp add: self)
    show "\<forall>sg \<in> set sigs. ps_r sg = ps_r first" using every first_r by simp
    show "\<forall>sg \<in> set sigs. ps_partyId sg \<in> {1..totalParties self}"
      using every by (simp add: self)
    show "\<not> int (length (remdups (map ps_partyId sigs))) < threshold self"
      using dist t len by (simp add: sig_ids distinct_remdups_id self)
    show "BN16 (ps_r first) = Some (Number ?r)" by (simp add: first_r BN16_hex64 r_pos)
    show "sum_loop self (map ps_partyId (select_loop (threshold self) sigs [] []))
            (select_loop (threshold self) sigs [] []) [0..<nat (threshold self)] 0 = Inr s0"
      unfolding self sel [unfolded self] sig_ids by (rule run)
    show "cs = \<lparr>cs_r = padStart 64 (CHR ''0'') (bn_toString16 (Number ?r)),
              cs_s = hex64 (if s0 > groupOrder self div 2 then groupOrder self - s0 else s0),
              cs_message = message,
              cs_messageHash = ps_messageHash first,
              cs_participatingParties = map ps_partyId (select_loop (threshold self) sigs [] []),
              cs_sessionId = ps_sessionId first,
              cs_timestamp = now,
              cs_securityGuarantee = ''Private key was never reconstructed during signing''\<rparr>"
      unfolding cs_def self bn_toString16.simps hex64_def by (rule refl)
  qed
  have c3: "sum_loop self (map ps_partyId sigs) sigs [0..<nat t] 0 = Inr s0"
    unfolding sig_ids by (rule run)
  have c5: "g_mul_encode ext ?secret = Some (kg_publicKey keys)"
    using generateDistributedKeys_parties(2) [OF keys] by (simp add: self)
  have fields: "cs_r cs = hex64 ?r" "cs_s cs = hex64 ?s" "cs_message cs = message"
    "cs_messageHash cs = SHA256_toString ext message"
    "cs_participatingParties cs = map p_id parties"
    by (simp_all add: cs_def first_hash sel sig_ids ids_def)
  have s_pos: "0 \<le> ?s"
    using s0_range by auto
  have c6: "ecdsa_accepts ext ec_n ?secret ?e ?r ?s
              \<longleftrightarrow> ?r \<noteq> 0 \<and> (?e + ?r * ?secret) mod ec_n \<noteq> 0"
    if xneg: "g_mul_getX ext ((ec_n - ?k) mod ec_n) = Some x"
    using prime nonce(3) point xneg s0_range [THEN conjunct1] s0_range [THEN conjunct2] c4
    by (rule ecdsa_accepts_iff)
  have c7: "verifySignature ext cs (kg_publicKey keys) later
              = Inr (if ecdsa_accepts ext ec_n ?secret ?e ?r ?s
                     then Accepted message (kg_publicKey keys) later (map p_id parties)
                     else Rejected SignatureVerificationFailed)"
    if "keyFromPublic ext (kg_publicKey keys) = Inr key"
      and "key_verify ext key (SHA256_toString ext message) (Number ?r) (Number ?s)
             = Inr (ecdsa_accepts ext ec_n ?secret ?e ?r ?s)"
    unfolding verifySignature_def verify_try_cases fields
    using that by (simp add: BN16_hex64 r_pos s_pos)
  show ?thesis
  proof (intro exI [of _ sigs] exI [of _ cs] exI [of _ s0] conjI c1 c2 c3 c4 c5 fields
      s0_range [THEN conjunct1] s0_range [THEN conjunct2] impI)
    assume "g_mul_getX ext ((ec_n - ?k) mod ec_n) = Some x"
    then show "ecdsa_accepts ext ec_n ?secret ?e ?r ?s
              \<longleftrightarrow> ?r \<noteq> 0 \<and> (?e + ?r * ?secret) mod ec_n \<noteq> 0"
      by (rule c6)
  next
    assume "keyFromPublic ext (kg_publicKey keys) = Inr key
          \<and> key_verify ext key (SHA256_toString ext message) (Number ?r) (Number ?s)
              = Inr (ecdsa_accepts ext ec_n ?secret ?e ?r ?s)"
    then show "verifySignature ext cs (kg_publicKey keys) later
              = Inr (if ecdsa_accepts ext ec_n ?secret ?e ?r ?s
                     then Accepted message (kg_publicKey keys) later (map p_id parties)
                     else Rejected SignatureVerificationFailed)"
      using c7 by blast
  qed
qed

text \<open>
  The whole run on the stand-in group: key generation with master key 42, the parties 2, 5 and
  3 signing the message \<open>m\<close> with nonce 7, the combination and the verification, which accepts.
\<close>

lemma toy_run:
  "new_TrueThresholdSignature 251 3 5 = Inr small_tss"
  "prime_order 251"
  "generateDistributedKeys small_tss toy_ext 42 (\<lambda>i. 1000 + 17 * i)
     (\<lambda>i. ''2025-01-01T00:00:00.000Z'') = Inr toy_keys"
  "set toy_parties \<subseteq> set (kg_parties toy_keys)"
  "distinct (map p_id toy_parties)"
  "int (length toy_parties) = 3"
  "''07'' \<noteq> []"
  "BN16 ''07'' = Some (Number 7)"
  "7 mod 251 \<noteq> (0::int)"
  "g_mul_getX toy_ext (7 mod 251) = Some 7"
  "map (\<lambda>p. generatePartialSignature small_tss toy_ext ''m'' p ''sid'' (Some ''07'') 0 ''t'')
     toy_parties = map Inr toy_sigs"
  "combinePartialSignatures small_tss ''m'' toy_sigs ''now'' = Inr toy_signature"
  "sum_loop small_tss (map ps_partyId toy_sigs) toy_sigs [0..<nat 3] 0 = Inr 201"
  "g_mul_getX toy_ext ((251 - 7 mod 251) mod 251) = Some 7"
  "int 7 mod 251 \<noteq> (0::int)"
  "(int (SHA256 toy_ext ''m'') + (int 7 mod 251) * (int 42 mod 251)) mod 251 \<noteq> (0::int)"
  "keyFromPublic toy_ext (kg_publicKey toy_keys) = Inr 42"
  "key_verify toy_ext 42 (SHA256_toString toy_ext ''m'') (Number (int 7 mod 251))
     (Number (if (251::int) div 2 < 201 then 251 - 201 else 201))
   = Inr (ecdsa_accepts toy_ext 251 (int 42 mod 251) (int (SHA256 toy_ext ''m''))
            (int 7 mod 251) (if (251::int) div 2 < 201 then 251 - 201 else 201))"
  by code_simp+

theorem threshold_signature_correct_witness:
  "new_TrueThresholdSignature 251 3 5 = Inr small_tss
   \<and> prime_order 251 \<and> (5::int) < 251
   \<and> generateDistributedKeys small_tss toy_ext 42 (\<lambda>i. 1000 + 17 * i)
        (\<lambda>i. ''2025-01-01T00:00:00.000Z'') = Inr toy_keys
   \<and> set toy_parties \<subseteq> set (kg_parties toy_keys)
   \<and> distinct (map p_id toy_parties)
   \<and> int (length toy_parties) = 3
   \<and> ''07'' \<noteq> [] \<and> BN16 ''07'' = Some (Number 7) \<and> 7 mod 251 \<noteq> (0::int)
   \<and> g_mul_getX toy_ext (7 mod 251) = Some 7
   \<and> map (\<lambda>p. generatePartialSignature small_tss toy_ext ''m'' p ''sid'' (Some ''07'') 0 ''t'')
        toy_parties = map Inr toy_sigs
   \<and> combinePartialSignatures small_tss ''m'' toy_sigs ''now'' = Inr toy_signature
   \<and> sum_loop small_tss (map ps_partyId toy_sigs) toy_sigs [0..<nat 3] 0 = Inr 201
   \<and> (7 mod 251 * 201) mod 251
       = (int (SHA256 toy_ext ''m'') + (int 7 mod 251) * (int 42 mod 251)) mod (251::int)
   \<and> g_mul_getX toy_ext ((251 - 7 mod 251) mod 251) = Some 7
   \<and> int 7 mod 251 \<noteq> (0::int)
   \<and> (int (SHA256 toy_ext ''m'') + (int 7 mod 251) * (int 42 mod 251)) mod 251 \<noteq> (0::int)
   \<and> ecdsa_accepts toy_ext 251 (int 42 mod 251) (int (SHA256 toy_ext ''m''))
        (int 7 mod 251) (if (251::int) div 2 < 201 then 251 - 201 else 201)
   \<and> keyFromPublic toy_ext (kg_publicKey toy_keys) = Inr 42
   \<and> verifySignature toy_ext toy_signature (kg_publicKey toy_keys) ''later''
       = Inr (Accepted ''m'' (kg_publicKey toy_keys) ''later'' (map p_id toy_parties))"
proof -
  note run = toy_run
  have small: "(5::int) < 251" by simp
  from threshold_signature_correct
    [OF run(1) run(2) small run(3) run(4) run(5) run(6) run(7) run(8) run(9) run(10),
     of "''m''" "''sid''" 0 "\<lambda>p. ''t''" "''now''" 42 "''later''"]
  obtain sigs cs s0 where
    signed: "map (\<lambda>p. generatePartialSignature small_tss toy_ext ''m'' p ''sid'' (Some ''07'') 0 ''t'')
        toy_parties = map Inr sigs"
    and combined: "combinePartialSignatures small_tss ''m'' sigs ''now'' = Inr cs"
    and loop: "sum_loop small_tss (map ps_partyId sigs) sigs [0..<nat 3] 0 = Inr s0"
    and alg: "(7 mod 251 * s0) mod 251
       = (int (SHA256 toy_ext ''m'') + (int 7 mod 251) * (int 42 mod 251)) mod (251::int)"
    and accepts: "g_mul_getX toy_ext ((251 - 7 mod 251) mod 251) = Some 7 \<longrightarrow>
            (ecdsa_accepts toy_ext 251 (int 42 mod 251) (int (SHA256 toy_ext ''m''))
               (int 7 mod 251) (if 251 div 2 < s0 then 251 - s0 else s0)
             \<longleftrightarrow> int 7 mod 251 \<noteq> 0
                 \<and> (int (SHA256 toy_ext ''m'') + (int 7 mod 251) * (int 42 mod 251)) mod 251
                     \<noteq> 0)"
    and verdict: "keyFromPublic toy_ext (kg_publicKey toy_keys) = Inr 42
          \<and> key_verify toy_ext 42 (SHA256_toString toy_ext ''m'') (Number (int 7 mod 251))
                (Number (if 251 div 2 < s0 then 251 - s0 else s0))
              = Inr (ecdsa_accepts toy_ext 251 (int 42 mod 251) (int (SHA256 toy_ext ''m''))
                       (int 7 mod 251) (if 251 div 2 < s0 then 251 - s0 else s0)) \<longrightarrow>
            verifySignature toy_ext cs (kg_publicKey toy_keys) ''later''
              = Inr (if ecdsa_accepts toy_ext 251 (int 42 mod 251) (int (SHA256 toy_ext ''m''))
                          (int 7 mod 251) (if 251 div 2 < s0 then 251 - s0 else s0)
                     then Accepted ''m'' (kg_publicKey toy_keys) ''later'' (map p_id toy_parties)
                     else Rejected SignatureVerificationFailed)"
    by (elim exE conjE) (rule that)
  from signed have "map Inr sigs = (map Inr toy_sigs :: (sign_error + PartialSignature) list)"
    unfolding run(11) by (rule sym)
  then have sigs: "sigs = toy_sigs"
    by (simp add: inj_map_eq_map)
  with loop have "sum_loop small_tss (map ps_partyId toy_sigs) toy_sigs [0..<nat 3] 0 = Inr s0"
    by (simp only:)
  with run(13) have "(Inr 201 :: inner_error + int) = Inr s0"
    by (simp only:)
  then have s0: "s0 = 201"
    by (simp only: sum.inject)
  from combined have "(Inr toy_signature :: combine_error + CombinedSignature) = Inr cs"
    unfolding sigs run(12) .
  then have cs: "cs = toy_signature"
    by (simp only: sum.inject)
  from alg have c: "(7 mod 251 * 201) mod 251
       = (int (SHA256 toy_ext ''m'') + (int 7 mod 251) * (int 42 mod 251)) mod (251::int)"
    unfolding s0 .
  from accepts [unfolded s0, THEN mp, OF run(14)] run(15) run(16)
  have acc: "ecdsa_accepts toy_ext 251 (int 42 mod 251) (int (SHA256 toy_ext ''m''))
        (int 7 mod 251) (if (251::int) div 2 < 201 then 251 - 201 else 201)"
    by (simp only: simp_thms)
  from verdict [unfolded s0 cs, THEN mp, OF conjI [OF run(17) run(18)]] acc
  have v: "verifySignature toy_ext toy_signature (kg_publicKey toy_keys) ''later''
       = Inr (Accepted ''m'' (kg_publicKey toy_keys) ''later'' (map p_id toy_parties))"
    by (simp only: if_True)
  show ?thesis
    by (intro conjI run(1) run(2) small run(3) run(4) run(5) run(6) run(7) run(8) run(9) run(10)
        run(11) run(12) run(13) c run(14) run(15) run(16) acc run(17) v)
qed

end
